theory Spec2Isabelle
  imports Complex_Main
begin

section \<open>Film hardware image pipeline: data model\<close>

text \<open>
  The development follows \<^verbatim>\<open>src/slg/film/filmimagepipelinehw.cpp\<close>. C++ \<^verbatim>\<open>float\<close> and
  \<^verbatim>\<open>double\<close> values are idealised as real numbers (no rounding, no NaN); \<^verbatim>\<open>u_int\<close> and
  \<^verbatim>\<open>size_t\<close> values are natural numbers and \<^verbatim>\<open>int\<close> values are integers (no statement
  below depends on wrap-around). Undefined behaviour of the source (dereferencing a null
  pointer, indexing a vector out of range) is the error value of the model. Log lines
  (\<^verbatim>\<open>SLG_LOG\<close>) and the compilation timer have no effect on the film and are left out.
\<close>

datatype error = NullDereference | OutOfRange

definition bindE :: "error + 'a \<Rightarrow> ('a \<Rightarrow> error + 'b) \<Rightarrow> error + 'b" where
  "bindE m k = (case m of Inl e \<Rightarrow> Inl e | Inr x \<Rightarrow> k x)"

text \<open>\<^verbatim>\<open>p->\<close> on a pointer and \<^verbatim>\<open>v[i]\<close> on a \<^verbatim>\<open>std::vector\<close>.\<close>

definition deref :: "'a option \<Rightarrow> error + 'a" where
  "deref p = (case p of None \<Rightarrow> Inl NullDereference | Some x \<Rightarrow> Inr x)"

definition vecAt :: "'a list \<Rightarrow> nat \<Rightarrow> error + 'a" where
  "vecAt v i = (if i < length v then Inr (v ! i) else Inl OutOfRange)"

text \<open>A \<^verbatim>\<open>for (u_int i = 0; i < n; ++i)\<close> loop whose body may fail: \<open>forE [0..<n] body\<close>.\<close>

primrec forE :: "nat list \<Rightarrow> (nat \<Rightarrow> 's \<Rightarrow> error + 's) \<Rightarrow> 's \<Rightarrow> error + 's" where
  "forE [] body s = Inr s"
| "forE (i # is) body s = bindE (body i s) (forE is body)"

subsection \<open>Device descriptions\<close>

text \<open>
  The enumeration \<^verbatim>\<open>DeviceType\<close> is declared by LuxRays, outside the file; only
  \<^verbatim>\<open>DEVICE_TYPE_CUDA_GPU\<close> and \<^verbatim>\<open>DEVICE_TYPE_OPENCL_GPU\<close> are tested by the code.
\<close>

datatype DeviceType =
    DEVICE_TYPE_NATIVE
  | DEVICE_TYPE_OPENCL_DEFAULT
  | DEVICE_TYPE_OPENCL_CPU
  | DEVICE_TYPE_OPENCL_GPU
  | DEVICE_TYPE_OPENCL_UNKNOWN
  | DEVICE_TYPE_CUDA_GPU

record DeviceDescription =
  GetName :: string
  GetType :: DeviceType

subsection \<open>Device selection (\<^verbatim>\<open>Film::CreateHWContext\<close>, lines 66-90)\<close>

text \<open>
  The scanning loop of lines 73-86. The second argument is the current value of
  \<^verbatim>\<open>selectedDeviceDesc\<close>; a CUDA GPU is stored and the loop is left (\<^verbatim>\<open>break\<close>), an
  OpenCL GPU is stored and the loop goes on.
\<close>

fun ScanDescs :: "DeviceDescription list \<Rightarrow> DeviceDescription option \<Rightarrow> DeviceDescription option" where
  "ScanDescs [] selectedDeviceDesc = selectedDeviceDesc"
| "ScanDescs (desc # descs) selectedDeviceDesc =
     (if GetType desc = DEVICE_TYPE_CUDA_GPU then Some desc
      else if GetType desc = DEVICE_TYPE_OPENCL_GPU then ScanDescs descs (Some desc)
      else ScanDescs descs selectedDeviceDesc)"

text \<open>
  Lines 66-90: \<open>descs\<close> is the descriptor list after
  \<^verbatim>\<open>DeviceDescription::Filter(DEVICE_TYPE_ALL_HARDWARE, descs)\<close>. The cast
  \<^verbatim>\<open>(int)descs.size()\<close> is the identity for every list a machine can hold.
\<close>

definition SelectDeviceDesc :: "bool \<Rightarrow> int \<Rightarrow> DeviceDescription list \<Rightarrow> DeviceDescription option" where
  "SelectDeviceDesc enable deviceIndex descs =
     (if enable then
        (if deviceIndex \<ge> 0 \<and> deviceIndex < int (length descs) then
           Some (descs ! nat deviceIndex)
         else if length descs > 0 then ScanDescs descs None
         else None)
      else None)"

text \<open>Predicates used to state the selection policy.\<close>

definition isCudaGpu :: "DeviceDescription \<Rightarrow> bool" where
  "isCudaGpu desc = (GetType desc = DEVICE_TYPE_CUDA_GPU)"

definition isOpenCLGpu :: "DeviceDescription \<Rightarrow> bool" where
  "isOpenCLGpu desc = (GetType desc = DEVICE_TYPE_OPENCL_GPU)"

definition lastOption :: "'a list \<Rightarrow> 'a option" where
  "lastOption xs = (if xs = [] then None else Some (last xs))"

definition oclA :: DeviceDescription where
  "oclA = \<lparr>GetName = ''OpenCL GPU A'', GetType = DEVICE_TYPE_OPENCL_GPU\<rparr>"

definition oclB :: DeviceDescription where
  "oclB = \<lparr>GetName = ''OpenCL GPU B'', GetType = DEVICE_TYPE_OPENCL_GPU\<rparr>"

definition cudaC :: DeviceDescription where
  "cudaC = \<lparr>GetName = ''CUDA GPU C'', GetType = DEVICE_TYPE_CUDA_GPU\<rparr>"

definition cpuD :: DeviceDescription where
  "cpuD = \<lparr>GetName = ''OpenCL CPU D'', GetType = DEVICE_TYPE_OPENCL_CPU\<rparr>"


subsection \<open>Host channels and image pipelines\<close>

text \<open>
  \<^verbatim>\<open>GenericFrameBuffer\<close>, \<^verbatim>\<open>ImagePipeline\<close>, \<^verbatim>\<open>RadianceChannelScale\<close> and \<^verbatim>\<open>Spectrum\<close>
  are declared outside the file; the code uses of them only the byte size and the pixel
  pointer of a channel, the \<^verbatim>\<open>enabled\<close> flag and \<^verbatim>\<open>GetScale()\<close> of a group, and the three
  components \<^verbatim>\<open>c[0..2]\<close> of a spectrum. Of the channel types of a film only those the file
  asks for are listed.
\<close>

record GenericFrameBuffer =
  GetSize :: nat
  GetPixels :: "real list"

datatype Spectrum = Spectrum real real real

fun Spectrum_c :: "Spectrum \<Rightarrow> nat \<Rightarrow> real" where
  "Spectrum_c (Spectrum r g b) i = (if i = 0 then r else if i = 1 then g else b)"

text \<open>\<^verbatim>\<open>Spectrum(1.f)\<close> and \<^verbatim>\<open>factor * spectrum\<close>.\<close>

definition Spectrum1 :: "real \<Rightarrow> Spectrum" where
  "Spectrum1 v = Spectrum v v v"

fun scaleSpectrum :: "real \<Rightarrow> Spectrum \<Rightarrow> Spectrum" where
  "scaleSpectrum k (Spectrum r g b) = Spectrum (k * r) (k * g) (k * b)"

record RadianceChannelScale =
  enabled :: bool
  GetScale :: Spectrum

record ImagePipeline =
  radianceChannelScales :: "RadianceChannelScale list"

datatype FilmChannelType =
    RADIANCE_PER_PIXEL_NORMALIZED
  | RADIANCE_PER_SCREEN_NORMALIZED
  | ALPHA
  | IMAGEPIPELINE
  | OBJECT_ID

subsection \<open>The compute platform\<close>

text \<open>
  Modelled from the spec: the classes \<^verbatim>\<open>Context\<close>, \<^verbatim>\<open>DataSet\<close>, \<^verbatim>\<open>HardwareDevice\<close>,
  \<^verbatim>\<open>HardwareDeviceBuffer\<close> and \<^verbatim>\<open>HardwareDeviceKernel\<close> belong to LuxRays and are not in
  the file. The spec (section 6) lists what they offer: buffer allocation (read-write or
  read-only) from an optional host pointer plus a byte size, kernel resolution by name,
  positional argument binding, non-blocking enqueue of buffer writes, buffer reads and
  kernel dispatches over a 1-D index space with a workgroup size, and a blocking finish
  call. Every call made to the platform is recorded, in order, in \<open>deviceLog\<close>, a
  component of the model that stands for the effects on the device (the C++ class has no
  such member).

  A host pointer \<^verbatim>\<open>channel->GetPixels()\<close> is named by the channel it points into; a device
  buffer and a kernel are named by the member of \<^verbatim>\<open>Film\<close> that holds the handle.
\<close>

datatype HostRef =
    HOST_IMAGEPIPELINE nat
  | HOST_ALPHA
  | HOST_OBJECT_ID
  | HOST_RADIANCE_PER_PIXEL_NORMALIZED nat
  | HOST_RADIANCE_PER_SCREEN_NORMALIZED nat

datatype HWBufferRef = BUFFER_IMAGEPIPELINE | BUFFER_ALPHA | BUFFER_OBJECT_ID | BUFFER_Merge

datatype HWKernelRef =
    KERNEL_Initialize
  | KERNEL_RADIANCE_PER_PIXEL_NORMALIZED
  | KERNEL_RADIANCE_PER_SCREEN_NORMALIZED
  | KERNEL_Finalize

record HardwareDeviceBuffer =
  bufDesc :: string
  bufSize :: nat
  bufReadOnly :: bool
  bufSource :: "HostRef option"

datatype KernelArg = ArgUInt nat | ArgFloat real | ArgBuffer "HardwareDeviceBuffer option"

text \<open>A kernel handle is the kernel's current argument bindings, by slot.\<close>

type_synonym HardwareDeviceKernel = "nat \<rightharpoonup> KernelArg"

text \<open>
  A kernel dispatch is recorded with the argument bindings the kernel has when it is
  enqueued: these are the values the dispatch runs with.
\<close>

datatype HWCall =
    EvAllocBufferRW HWBufferRef "HostRef option" nat string
  | EvAllocBufferRO HWBufferRef "HostRef option" nat string
  | EvFreeBuffer HWBufferRef
  | EvCompileProgram string string
  | EvGetKernel HWKernelRef string
  | EvDeleteProgram
  | EvSetKernelArg HWKernelRef nat KernelArg
  | EvEnqueueWriteBuffer HWBufferRef bool nat HostRef
  | EvEnqueueReadBuffer HWBufferRef bool nat HostRef
  | EvEnqueueKernel HWKernelRef HardwareDeviceKernel nat nat
  | EvFinishQueue
  | EvDeleteKernel HWKernelRef
  | EvDeleteContext
  | EvDeleteDataSet

record Context =
  verbose :: bool
  hasDataSet :: bool
  started :: bool

record DataSet =
  preprocessed :: bool

record HardwareDevice =
  deviceDesc :: DeviceDescription

subsection \<open>The film\<close>

text \<open>
  The members of \<^verbatim>\<open>Film\<close> the file reads or writes. A pointer member is an option
  (\<open>None\<close> is \<^verbatim>\<open>nullptr\<close>), a vector of channels is a list. \<open>channels\<close> is the set behind
  \<^verbatim>\<open>HasChannel\<close>; \<open>samplesCounts\<close> is the value of
  \<^verbatim>\<open>samplesCounts.GetSampleCount_RADIANCE_PER_SCREEN_NORMALIZED()\<close>.
\<close>

record Film =
  hwEnable :: bool
  hwDeviceIndex :: int
  ctx :: "Context option"
  dataSet :: "DataSet option"
  hardwareDevice :: "HardwareDevice option"
  hw_IMAGEPIPELINE :: "HardwareDeviceBuffer option"
  hw_ALPHA :: "HardwareDeviceBuffer option"
  hw_OBJECT_ID :: "HardwareDeviceBuffer option"
  hw_mergeBuffer :: "HardwareDeviceBuffer option"
  mergeInitializeKernel :: "HardwareDeviceKernel option"
  mergeRADIANCE_PER_PIXEL_NORMALIZEDKernel :: "HardwareDeviceKernel option"
  mergeRADIANCE_PER_SCREEN_NORMALIZEDKernel :: "HardwareDeviceKernel option"
  mergeFinalizeKernel :: "HardwareDeviceKernel option"
  width :: nat
  height :: nat
  pixelCount :: nat
  radianceGroupCount :: nat
  channels :: "FilmChannelType set"
  channel_IMAGEPIPELINEs :: "GenericFrameBuffer list"
  channel_ALPHA :: "GenericFrameBuffer option"
  channel_OBJECT_ID :: "GenericFrameBuffer option"
  channel_RADIANCE_PER_PIXEL_NORMALIZEDs :: "GenericFrameBuffer list"
  channel_RADIANCE_PER_SCREEN_NORMALIZEDs :: "GenericFrameBuffer list"
  imagePipelines :: "ImagePipeline list"
  samplesCounts :: real
  deviceLog :: "HWCall list"

definition HasChannel :: "Film \<Rightarrow> FilmChannelType \<Rightarrow> bool" where
  "HasChannel f t = (t \<in> channels f)"

fun bufferOf :: "HWBufferRef \<Rightarrow> Film \<Rightarrow> HardwareDeviceBuffer option" where
  "bufferOf BUFFER_IMAGEPIPELINE f = hw_IMAGEPIPELINE f"
| "bufferOf BUFFER_ALPHA f = hw_ALPHA f"
| "bufferOf BUFFER_OBJECT_ID f = hw_OBJECT_ID f"
| "bufferOf BUFFER_Merge f = hw_mergeBuffer f"

fun setBuffer :: "HWBufferRef \<Rightarrow> HardwareDeviceBuffer option \<Rightarrow> Film \<Rightarrow> Film" where
  "setBuffer BUFFER_IMAGEPIPELINE b f = f\<lparr>hw_IMAGEPIPELINE := b\<rparr>"
| "setBuffer BUFFER_ALPHA b f = f\<lparr>hw_ALPHA := b\<rparr>"
| "setBuffer BUFFER_OBJECT_ID b f = f\<lparr>hw_OBJECT_ID := b\<rparr>"
| "setBuffer BUFFER_Merge b f = f\<lparr>hw_mergeBuffer := b\<rparr>"

fun kernelOf :: "HWKernelRef \<Rightarrow> Film \<Rightarrow> HardwareDeviceKernel option" where
  "kernelOf KERNEL_Initialize f = mergeInitializeKernel f"
| "kernelOf KERNEL_RADIANCE_PER_PIXEL_NORMALIZED f = mergeRADIANCE_PER_PIXEL_NORMALIZEDKernel f"
| "kernelOf KERNEL_RADIANCE_PER_SCREEN_NORMALIZED f = mergeRADIANCE_PER_SCREEN_NORMALIZEDKernel f"
| "kernelOf KERNEL_Finalize f = mergeFinalizeKernel f"

fun setKernel :: "HWKernelRef \<Rightarrow> HardwareDeviceKernel option \<Rightarrow> Film \<Rightarrow> Film" where
  "setKernel KERNEL_Initialize k f = f\<lparr>mergeInitializeKernel := k\<rparr>"
| "setKernel KERNEL_RADIANCE_PER_PIXEL_NORMALIZED k f = f\<lparr>mergeRADIANCE_PER_PIXEL_NORMALIZEDKernel := k\<rparr>"
| "setKernel KERNEL_RADIANCE_PER_SCREEN_NORMALIZED k f = f\<lparr>mergeRADIANCE_PER_SCREEN_NORMALIZEDKernel := k\<rparr>"
| "setKernel KERNEL_Finalize k f = f\<lparr>mergeFinalizeKernel := k\<rparr>"

text \<open>The host memory a host pointer names is overwritten with \<open>d\<close>.\<close>

fun writeHost :: "HostRef \<Rightarrow> real list \<Rightarrow> Film \<Rightarrow> Film" where
  "writeHost (HOST_IMAGEPIPELINE i) d f =
     f\<lparr>channel_IMAGEPIPELINEs :=
         (channel_IMAGEPIPELINEs f)[i := (channel_IMAGEPIPELINEs f ! i)\<lparr>GetPixels := d\<rparr>]\<rparr>"
| "writeHost HOST_ALPHA d f =
     f\<lparr>channel_ALPHA := map_option (\<lambda>ch. ch\<lparr>GetPixels := d\<rparr>) (channel_ALPHA f)\<rparr>"
| "writeHost HOST_OBJECT_ID d f =
     f\<lparr>channel_OBJECT_ID := map_option (\<lambda>ch. ch\<lparr>GetPixels := d\<rparr>) (channel_OBJECT_ID f)\<rparr>"
| "writeHost (HOST_RADIANCE_PER_PIXEL_NORMALIZED i) d f =
     f\<lparr>channel_RADIANCE_PER_PIXEL_NORMALIZEDs :=
         (channel_RADIANCE_PER_PIXEL_NORMALIZEDs f)
           [i := (channel_RADIANCE_PER_PIXEL_NORMALIZEDs f ! i)\<lparr>GetPixels := d\<rparr>]\<rparr>"
| "writeHost (HOST_RADIANCE_PER_SCREEN_NORMALIZED i) d f =
     f\<lparr>channel_RADIANCE_PER_SCREEN_NORMALIZEDs :=
         (channel_RADIANCE_PER_SCREEN_NORMALIZEDs f)
           [i := (channel_RADIANCE_PER_SCREEN_NORMALIZEDs f ! i)\<lparr>GetPixels := d\<rparr>]\<rparr>"

definition logCall :: "HWCall \<Rightarrow> Film \<Rightarrow> Film" where
  "logCall ev f = f\<lparr>deviceLog := deviceLog f @ [ev]\<rparr>"

text \<open>
  Modelled from the spec: the methods of \<^verbatim>\<open>HardwareDevice\<close> and \<^verbatim>\<open>Context::SetVerbose\<close>,
  which are not in the file (the definitions from \<open>AllocBufferRW\<close> to \<open>SetVerbose\<close>).
  Each device method is called as \<^verbatim>\<open>hardwareDevice->...\<close>, so a null \<open>hardwareDevice\<close> is an error; a
  method that operates on a buffer or on a kernel dereferences that handle. Allocation
  makes the handle refer to a buffer of the requested size; \<^verbatim>\<open>FreeBuffer\<close> frees the
  buffer and nulls the handle (spec section 3). Allocation and compilation failures of
  the platform (fatal exceptions, spec section 7) are outside the model.
\<close>

definition AllocBufferRW :: "HWBufferRef \<Rightarrow> HostRef option \<Rightarrow> nat \<Rightarrow> string \<Rightarrow> Film \<Rightarrow> error + Film" where
  "AllocBufferRW b src sz desc f =
     bindE (deref (hardwareDevice f)) (\<lambda>_.
       Inr (setBuffer b (Some \<lparr>bufDesc = desc, bufSize = sz, bufReadOnly = False, bufSource = src\<rparr>)
             (logCall (EvAllocBufferRW b src sz desc) f)))"

definition AllocBufferRO :: "HWBufferRef \<Rightarrow> HostRef option \<Rightarrow> nat \<Rightarrow> string \<Rightarrow> Film \<Rightarrow> error + Film" where
  "AllocBufferRO b src sz desc f =
     bindE (deref (hardwareDevice f)) (\<lambda>_.
       Inr (setBuffer b (Some \<lparr>bufDesc = desc, bufSize = sz, bufReadOnly = True, bufSource = src\<rparr>)
             (logCall (EvAllocBufferRO b src sz desc) f)))"

definition FreeBuffer :: "HWBufferRef \<Rightarrow> Film \<Rightarrow> error + Film" where
  "FreeBuffer b f =
     bindE (deref (hardwareDevice f)) (\<lambda>_.
       Inr (setBuffer b None (logCall (EvFreeBuffer b) f)))"

definition CompileProgram :: "string \<Rightarrow> string \<Rightarrow> Film \<Rightarrow> error + Film" where
  "CompileProgram opts programName f =
     bindE (deref (hardwareDevice f)) (\<lambda>_. Inr (logCall (EvCompileProgram opts programName) f))"

definition GetKernel :: "HWKernelRef \<Rightarrow> string \<Rightarrow> Film \<Rightarrow> error + Film" where
  "GetKernel k kernelName f =
     bindE (deref (hardwareDevice f)) (\<lambda>_.
       Inr (setKernel k (Some Map.empty) (logCall (EvGetKernel k kernelName) f)))"

definition SetKernelArg :: "HWKernelRef \<Rightarrow> nat \<Rightarrow> KernelArg \<Rightarrow> Film \<Rightarrow> error + Film" where
  "SetKernelArg k argIndex v f =
     bindE (deref (hardwareDevice f)) (\<lambda>_.
     bindE (deref (kernelOf k f)) (\<lambda>args.
       Inr (setKernel k (Some (args(argIndex \<mapsto> v))) (logCall (EvSetKernelArg k argIndex v) f))))"

definition EnqueueKernel :: "HWKernelRef \<Rightarrow> nat \<Rightarrow> nat \<Rightarrow> Film \<Rightarrow> error + Film" where
  "EnqueueKernel k globalRange localRange f =
     bindE (deref (hardwareDevice f)) (\<lambda>_.
     bindE (deref (kernelOf k f)) (\<lambda>args.
       Inr (logCall (EvEnqueueKernel k args globalRange localRange) f)))"

definition EnqueueWriteBuffer :: "HWBufferRef \<Rightarrow> bool \<Rightarrow> nat \<Rightarrow> HostRef \<Rightarrow> Film \<Rightarrow> error + Film" where
  "EnqueueWriteBuffer b blocking sz host f =
     bindE (deref (hardwareDevice f)) (\<lambda>_.
     bindE (deref (bufferOf b f)) (\<lambda>_.
       Inr (logCall (EvEnqueueWriteBuffer b blocking sz host) f)))"

text \<open>
  Modelled from the spec: a download (\<^verbatim>\<open>EnqueueReadBuffer\<close>, not in the file).
  The queue is in order and the host is blocked in \<^verbatim>\<open>FinishQueue\<close> before it looks at
  anything, so the model performs a download when it is enqueued. \<open>deviceData\<close> is what
  the device buffer holds when the download runs: it is computed by the kernels, whose
  source is not in the file.
\<close>

definition EnqueueReadBuffer :: "HWBufferRef \<Rightarrow> bool \<Rightarrow> nat \<Rightarrow> HostRef \<Rightarrow> real list \<Rightarrow> Film \<Rightarrow> error + Film" where
  "EnqueueReadBuffer b blocking sz host deviceData f =
     bindE (deref (hardwareDevice f)) (\<lambda>_.
     bindE (deref (bufferOf b f)) (\<lambda>_.
       Inr (writeHost host deviceData (logCall (EvEnqueueReadBuffer b blocking sz host) f))))"

definition FinishQueue :: "Film \<Rightarrow> error + Film" where
  "FinishQueue f = bindE (deref (hardwareDevice f)) (\<lambda>_. Inr (logCall EvFinishQueue f))"

text \<open>Modelled from the spec: \<^verbatim>\<open>ctx->SetVerbose(v)\<close> sets the verbosity of the context.\<close>

definition SetVerbose :: "bool \<Rightarrow> Film \<Rightarrow> error + Film" where
  "SetVerbose v f = bindE (deref (ctx f)) (\<lambda>cx. Inr (f\<lparr>ctx := Some (cx\<lparr>verbose := v\<rparr>)\<rparr>))"

text \<open>
  \<^verbatim>\<open>delete p\<close>: the object is destroyed when \<open>p\<close> is not null, and nothing happens when it
  is; the pointer variable keeps its value.
\<close>

definition deleteKernel :: "HWKernelRef \<Rightarrow> Film \<Rightarrow> Film" where
  "deleteKernel k f = (case kernelOf k f of None \<Rightarrow> f | Some _ \<Rightarrow> logCall (EvDeleteKernel k) f)"

definition deleteCtx :: "Film \<Rightarrow> Film" where
  "deleteCtx f = (case ctx f of None \<Rightarrow> f | Some _ \<Rightarrow> logCall EvDeleteContext f)"

definition deleteDataSet :: "Film \<Rightarrow> Film" where
  "deleteDataSet f = (case dataSet f of None \<Rightarrow> f | Some _ \<Rightarrow> logCall EvDeleteDataSet f)"

text \<open>
  Modelled from the spec: \<^verbatim>\<open>RoundUp\<close> is a LuxRays template that is not in the file; the
  spec (section 4.5) has the pixel count "rounded up to a fixed workgroup granularity".
\<close>

definition RoundUp :: "nat \<Rightarrow> nat \<Rightarrow> nat" where
  "RoundUp a b = (let r = a mod b in if r = 0 then a else a + b - r)"

section \<open>The operations of the file\<close>

subsection \<open>\<^verbatim>\<open>Film::SetUpHW\<close>\<close>

definition SetUpHW :: "Film \<Rightarrow> Film" where
  "SetUpHW f =
     f\<lparr>hwEnable := True,
       hwDeviceIndex := - 1,
       ctx := None,
       dataSet := None,
       hardwareDevice := None,
       hw_IMAGEPIPELINE := None,
       hw_ALPHA := None,
       hw_OBJECT_ID := None,
       hw_mergeBuffer := None,
       mergeInitializeKernel := None,
       mergeRADIANCE_PER_PIXEL_NORMALIZEDKernel := None,
       mergeRADIANCE_PER_SCREEN_NORMALIZEDKernel := None,
       mergeFinalizeKernel := None\<rparr>"

subsection \<open>\<^verbatim>\<open>Film::CreateHWContext\<close>\<close>

text \<open>
  \<open>descs\<close> is the filtered descriptor list (lines 63-64). The context is created
  unconditionally; device, data set and start happen only when a descriptor was selected,
  and \<^verbatim>\<open>AddHardwareDevices\<close> is taken to deliver the device of the descriptor it is given.
  The OpenCL version warning has no effect on the film.
\<close>

definition CreateHWContext :: "DeviceDescription list \<Rightarrow> Film \<Rightarrow> Film" where
  "CreateHWContext descs f =
     (let f1 = f\<lparr>ctx := Some \<lparr>verbose = False, hasDataSet = False, started = False\<rparr>\<rparr>
      in case SelectDeviceDesc (hwEnable f1) (hwDeviceIndex f1) descs of
           None \<Rightarrow> f1
         | Some selectedDeviceDesc \<Rightarrow>
             f1\<lparr>hardwareDevice := Some \<lparr>deviceDesc = selectedDeviceDesc\<rparr>,
                dataSet := Some \<lparr>preprocessed = True\<rparr>,
                ctx := Some \<lparr>verbose = False, hasDataSet = True, started = True\<rparr>\<rparr>)"

subsection \<open>\<^verbatim>\<open>Film::DeleteHWContext\<close>\<close>

definition DeleteHWContext :: "Film \<Rightarrow> error + Film" where
  "DeleteHWContext f =
     bindE (if hardwareDevice f \<noteq> None then
              (let f = deleteKernel KERNEL_Initialize f;
                   f = deleteKernel KERNEL_RADIANCE_PER_PIXEL_NORMALIZED f;
                   f = deleteKernel KERNEL_RADIANCE_PER_SCREEN_NORMALIZED f;
                   f = deleteKernel KERNEL_Finalize f
               in bindE (FreeBuffer BUFFER_IMAGEPIPELINE f) (\<lambda>f.
                  bindE (FreeBuffer BUFFER_ALPHA f) (\<lambda>f.
                  bindE (FreeBuffer BUFFER_OBJECT_ID f) (\<lambda>f.
                  FreeBuffer BUFFER_Merge f))))
            else Inr f) (\<lambda>f.
     Inr (deleteDataSet (deleteCtx f)))"

subsection \<open>\<^verbatim>\<open>Film::AllocateHWBuffers\<close>\<close>

text \<open>Line 151-153: the size of the merge buffer.\<close>

definition mergeBufferSizeOf :: "Film \<Rightarrow> error + nat" where
  "mergeBufferSizeOf f =
     bindE (if HasChannel f RADIANCE_PER_PIXEL_NORMALIZED
            then bindE (vecAt (channel_RADIANCE_PER_PIXEL_NORMALIZEDs f) 0) (\<lambda>ch. Inr (GetSize ch))
            else Inr 0) (\<lambda>a.
     bindE (if HasChannel f RADIANCE_PER_SCREEN_NORMALIZED
            then bindE (vecAt (channel_RADIANCE_PER_SCREEN_NORMALIZEDs f) 0) (\<lambda>ch. Inr (GetSize ch))
            else Inr 0) (\<lambda>b.
     Inr (max a b)))"

definition AllocateHWBuffers :: "Film \<Rightarrow> error + Film" where
  "AllocateHWBuffers f =
     bindE (SetVerbose True f) (\<lambda>f.
     bindE (vecAt (channel_IMAGEPIPELINEs f) 0) (\<lambda>ch.
     bindE (AllocBufferRW BUFFER_IMAGEPIPELINE (Some (HOST_IMAGEPIPELINE 0)) (GetSize ch) ''IMAGEPIPELINE'' f) (\<lambda>f.
     bindE (if HasChannel f ALPHA then
              bindE (deref (channel_ALPHA f)) (\<lambda>ch.
                AllocBufferRO BUFFER_ALPHA (Some HOST_ALPHA) (GetSize ch) ''ALPHA'' f)
            else Inr f) (\<lambda>f.
     bindE (if HasChannel f OBJECT_ID then
              bindE (deref (channel_OBJECT_ID f)) (\<lambda>ch.
                AllocBufferRO BUFFER_OBJECT_ID (Some HOST_OBJECT_ID) (GetSize ch) ''OBJECT_ID'' f)
            else Inr f) (\<lambda>f.
     bindE (mergeBufferSizeOf f) (\<lambda>mergeBufferSize.
     bindE (if mergeBufferSize > 0 then
              AllocBufferRO BUFFER_Merge None mergeBufferSize ''Merge'' f
            else Inr f) (\<lambda>f.
     SetVerbose False f)))))))"

subsection \<open>\<^verbatim>\<open>Film::CompileHWKernels\<close>\<close>

definition CompileHWKernels :: "Film \<Rightarrow> error + Film" where
  "CompileHWKernels f =
     bindE (SetVerbose True f) (\<lambda>f.
     bindE (CompileProgram ''-D LUXRAYS_OPENCL_KERNEL -D SLG_OPENCL_KERNEL'' ''MergeSampleBuffersOCL'' f) (\<lambda>f.
     bindE (GetKernel KERNEL_Initialize ''Film_MergeBufferInitialize'' f) (\<lambda>f.
     bindE (SetKernelArg KERNEL_Initialize 0 (ArgUInt (width f)) f) (\<lambda>f.
     bindE (SetKernelArg KERNEL_Initialize 1 (ArgUInt (height f)) f) (\<lambda>f.
     bindE (SetKernelArg KERNEL_Initialize 2 (ArgBuffer (hw_IMAGEPIPELINE f)) f) (\<lambda>f.
     bindE (GetKernel KERNEL_RADIANCE_PER_PIXEL_NORMALIZED ''Film_MergeRADIANCE_PER_PIXEL_NORMALIZED'' f) (\<lambda>f.
     bindE (SetKernelArg KERNEL_RADIANCE_PER_PIXEL_NORMALIZED 0 (ArgUInt (width f)) f) (\<lambda>f.
     bindE (SetKernelArg KERNEL_RADIANCE_PER_PIXEL_NORMALIZED 1 (ArgUInt (height f)) f) (\<lambda>f.
     bindE (SetKernelArg KERNEL_RADIANCE_PER_PIXEL_NORMALIZED 2 (ArgBuffer (hw_IMAGEPIPELINE f)) f) (\<lambda>f.
     bindE (SetKernelArg KERNEL_RADIANCE_PER_PIXEL_NORMALIZED 3 (ArgBuffer (hw_mergeBuffer f)) f) (\<lambda>f.
     bindE (GetKernel KERNEL_RADIANCE_PER_SCREEN_NORMALIZED ''Film_MergeRADIANCE_PER_SCREEN_NORMALIZED'' f) (\<lambda>f.
     bindE (SetKernelArg KERNEL_RADIANCE_PER_SCREEN_NORMALIZED 0 (ArgUInt (width f)) f) (\<lambda>f.
     bindE (SetKernelArg KERNEL_RADIANCE_PER_SCREEN_NORMALIZED 1 (ArgUInt (height f)) f) (\<lambda>f.
     bindE (SetKernelArg KERNEL_RADIANCE_PER_SCREEN_NORMALIZED 2 (ArgBuffer (hw_IMAGEPIPELINE f)) f) (\<lambda>f.
     bindE (SetKernelArg KERNEL_RADIANCE_PER_SCREEN_NORMALIZED 3 (ArgBuffer (hw_mergeBuffer f)) f) (\<lambda>f.
     bindE (GetKernel KERNEL_Finalize ''Film_MergeBufferFinalize'' f) (\<lambda>f.
     bindE (SetKernelArg KERNEL_Finalize 0 (ArgUInt (width f)) f) (\<lambda>f.
     bindE (SetKernelArg KERNEL_Finalize 1 (ArgUInt (height f)) f) (\<lambda>f.
     bindE (SetKernelArg KERNEL_Finalize 2 (ArgBuffer (hw_IMAGEPIPELINE f)) f) (\<lambda>f.
     bindE (Inr (logCall EvDeleteProgram f)) (\<lambda>f.
     SetVerbose False f)))))))))))))))))))))"

subsection \<open>\<^verbatim>\<open>Film::WriteAllHWBuffers\<close>, \<^verbatim>\<open>Film::ReadHWBuffer_IMAGEPIPELINE\<close>, \<^verbatim>\<open>Film::WriteHWBuffer_IMAGEPIPELINE\<close>\<close>

definition WriteAllHWBuffers :: "Film \<Rightarrow> error + Film" where
  "WriteAllHWBuffers f =
     bindE (if HasChannel f ALPHA then
              bindE (deref (channel_ALPHA f)) (\<lambda>ch.
                EnqueueWriteBuffer BUFFER_ALPHA False (GetSize ch) HOST_ALPHA f)
            else Inr f) (\<lambda>f.
     if HasChannel f OBJECT_ID then
       bindE (deref (channel_OBJECT_ID f)) (\<lambda>ch.
         EnqueueWriteBuffer BUFFER_OBJECT_ID False (GetSize ch) HOST_OBJECT_ID f)
     else Inr f)"

definition ReadHWBuffer_IMAGEPIPELINE :: "real list \<Rightarrow> nat \<Rightarrow> Film \<Rightarrow> error + Film" where
  "ReadHWBuffer_IMAGEPIPELINE deviceData index f =
     bindE (vecAt (channel_IMAGEPIPELINEs f) index) (\<lambda>ch.
       EnqueueReadBuffer BUFFER_IMAGEPIPELINE False (GetSize ch) (HOST_IMAGEPIPELINE index) deviceData f)"

definition WriteHWBuffer_IMAGEPIPELINE :: "nat \<Rightarrow> Film \<Rightarrow> error + Film" where
  "WriteHWBuffer_IMAGEPIPELINE index f =
     bindE (vecAt (channel_IMAGEPIPELINEs f) index) (\<lambda>ch.
       EnqueueWriteBuffer BUFFER_IMAGEPIPELINE False (GetSize ch) (HOST_IMAGEPIPELINE index) f)"

subsection \<open>\<^verbatim>\<open>Film::MergeSampleBuffersHW\<close>\<close>

text \<open>
  \<^verbatim>\<open>!ip || ip->radianceChannelScales[i].enabled\<close> and
  \<^verbatim>\<open>ip ? ip->radianceChannelScales[i].GetScale() : Spectrum(1.f)\<close>.
\<close>

definition groupEnabled :: "ImagePipeline option \<Rightarrow> nat \<Rightarrow> error + bool" where
  "groupEnabled ip i =
     (case ip of None \<Rightarrow> Inr True
      | Some p \<Rightarrow> bindE (vecAt (radianceChannelScales p) i) (\<lambda>s. Inr (enabled s)))"

definition groupScale :: "ImagePipeline option \<Rightarrow> nat \<Rightarrow> error + Spectrum" where
  "groupScale ip i =
     (case ip of None \<Rightarrow> Inr (Spectrum1 1)
      | Some p \<Rightarrow> bindE (vecAt (radianceChannelScales p) i) (\<lambda>s. Inr (GetScale s)))"

text \<open>Line 295: the normalization factor of the per-screen-normalized channels.\<close>

definition normalizationFactor :: "nat \<Rightarrow> real \<Rightarrow> real" where
  "normalizationFactor nPixels sampleCount =
     (if sampleCount > 0 then real nPixels / sampleCount else 1)"

text \<open>The body of the loop of lines 274-290.\<close>

definition mergePerPixelGroup :: "ImagePipeline option \<Rightarrow> nat \<Rightarrow> Film \<Rightarrow> error + Film" where
  "mergePerPixelGroup ip i f =
     bindE (groupEnabled ip i) (\<lambda>en.
       if en then
         bindE (vecAt (channel_RADIANCE_PER_PIXEL_NORMALIZEDs f) i) (\<lambda>ch.
         bindE (EnqueueWriteBuffer BUFFER_Merge False (GetSize ch) (HOST_RADIANCE_PER_PIXEL_NORMALIZED i) f) (\<lambda>f.
         bindE (groupScale ip i) (\<lambda>scale.
         bindE (SetKernelArg KERNEL_RADIANCE_PER_PIXEL_NORMALIZED 4 (ArgFloat (Spectrum_c scale 0)) f) (\<lambda>f.
         bindE (SetKernelArg KERNEL_RADIANCE_PER_PIXEL_NORMALIZED 5 (ArgFloat (Spectrum_c scale 1)) f) (\<lambda>f.
         bindE (SetKernelArg KERNEL_RADIANCE_PER_PIXEL_NORMALIZED 6 (ArgFloat (Spectrum_c scale 2)) f) (\<lambda>f.
         EnqueueKernel KERNEL_RADIANCE_PER_PIXEL_NORMALIZED (RoundUp (pixelCount f) 256) 256 f))))))
       else Inr f)"

text \<open>The body of the loop of lines 297-313.\<close>

definition mergePerScreenGroup :: "ImagePipeline option \<Rightarrow> real \<Rightarrow> nat \<Rightarrow> Film \<Rightarrow> error + Film" where
  "mergePerScreenGroup ip factor i f =
     bindE (groupEnabled ip i) (\<lambda>en.
       if en then
         bindE (vecAt (channel_RADIANCE_PER_SCREEN_NORMALIZEDs f) i) (\<lambda>ch.
         bindE (EnqueueWriteBuffer BUFFER_Merge False (GetSize ch) (HOST_RADIANCE_PER_SCREEN_NORMALIZED i) f) (\<lambda>f.
         bindE (groupScale ip i) (\<lambda>s.
         let scale = scaleSpectrum factor s in
         bindE (SetKernelArg KERNEL_RADIANCE_PER_SCREEN_NORMALIZED 4 (ArgFloat (Spectrum_c scale 0)) f) (\<lambda>f.
         bindE (SetKernelArg KERNEL_RADIANCE_PER_SCREEN_NORMALIZED 5 (ArgFloat (Spectrum_c scale 1)) f) (\<lambda>f.
         bindE (SetKernelArg KERNEL_RADIANCE_PER_SCREEN_NORMALIZED 6 (ArgFloat (Spectrum_c scale 2)) f) (\<lambda>f.
         EnqueueKernel KERNEL_RADIANCE_PER_SCREEN_NORMALIZED (RoundUp (pixelCount f) 256) 256 f))))))
       else Inr f)"

text \<open>
  \<open>deviceData\<close> is the content of the image-pipeline device buffer after the finalize
  kernel, as the download of line 321 finds it.
\<close>

definition MergeSampleBuffersHW :: "real list \<Rightarrow> nat \<Rightarrow> Film \<Rightarrow> error + Film" where
  "MergeSampleBuffersHW deviceData imagePipelineIndex f =
     (let ip = (if imagePipelineIndex < length (imagePipelines f)
                then Some (imagePipelines f ! imagePipelineIndex) else None) in
      bindE (vecAt (channel_IMAGEPIPELINEs f) imagePipelineIndex) (\<lambda>ch.
      bindE (EnqueueWriteBuffer BUFFER_IMAGEPIPELINE False (GetSize ch) (HOST_IMAGEPIPELINE imagePipelineIndex) f) (\<lambda>f.
      bindE (EnqueueKernel KERNEL_Initialize (RoundUp (pixelCount f) 256) 256 f) (\<lambda>f.
      bindE (if HasChannel f RADIANCE_PER_PIXEL_NORMALIZED then
               forE [0..<radianceGroupCount f] (mergePerPixelGroup ip) f
             else Inr f) (\<lambda>f.
      bindE (if HasChannel f RADIANCE_PER_SCREEN_NORMALIZED then
               (let factor = normalizationFactor (pixelCount f) (samplesCounts f) in
                forE [0..<radianceGroupCount f] (mergePerScreenGroup ip factor) f)
             else Inr f) (\<lambda>f.
      bindE (EnqueueKernel KERNEL_Finalize (RoundUp (pixelCount f) 256) 256 f) (\<lambda>f.
      bindE (vecAt (channel_IMAGEPIPELINEs f) imagePipelineIndex) (\<lambda>ch.
      bindE (EnqueueReadBuffer BUFFER_IMAGEPIPELINE False (GetSize ch) (HOST_IMAGEPIPELINE imagePipelineIndex) deviceData f) (\<lambda>f.
      FinishQueue f)))))))))"

section \<open>Vocabulary of the statements\<close>

text \<open>
  The image pipeline of line 262: the pipeline at the given index, or none when the index
  is not below the number of image pipelines.
\<close>

definition imagePipelineAt :: "Film \<Rightarrow> nat \<Rightarrow> ImagePipeline option" where
  "imagePipelineAt f imagePipelineIndex =
     (if imagePipelineIndex < length (imagePipelines f)
      then Some (imagePipelines f ! imagePipelineIndex) else None)"

text \<open>
  Whether group \<open>i\<close> takes part in a merge and with which scale, read without the range
  check (used only where the code's own lookup has succeeded).
\<close>

definition groupIsEnabled :: "ImagePipeline option \<Rightarrow> nat \<Rightarrow> bool" where
  "groupIsEnabled ip i = (case ip of None \<Rightarrow> True | Some p \<Rightarrow> enabled (radianceChannelScales p ! i))"

definition groupScaleOf :: "ImagePipeline option \<Rightarrow> nat \<Rightarrow> Spectrum" where
  "groupScaleOf ip i = (case ip of None \<Rightarrow> Spectrum1 1 | Some p \<Rightarrow> GetScale (radianceChannelScales p ! i))"

text \<open>
  The argument bindings of an accumulate kernel once slots 4, 5 and 6 hold a scale.
\<close>

definition bindScale :: "HardwareDeviceKernel \<Rightarrow> Spectrum \<Rightarrow> HardwareDeviceKernel" where
  "bindScale args scale =
     args(4 \<mapsto> ArgFloat (Spectrum_c scale 0), 5 \<mapsto> ArgFloat (Spectrum_c scale 1),
          6 \<mapsto> ArgFloat (Spectrum_c scale 2))"

text \<open>
  The five calls one enabled group contributes: the upload of its channel into the merge
  buffer, the three scale arguments, and the dispatch, which runs with the bindings just made.
\<close>

definition accumulateCalls ::
  "HWKernelRef \<Rightarrow> HardwareDeviceKernel \<Rightarrow> nat \<Rightarrow> HostRef \<Rightarrow> Spectrum \<Rightarrow> nat \<Rightarrow> HWCall list" where
  "accumulateCalls k args sz host scale n =
     [EvEnqueueWriteBuffer BUFFER_Merge False sz host,
      EvSetKernelArg k 4 (ArgFloat (Spectrum_c scale 0)),
      EvSetKernelArg k 5 (ArgFloat (Spectrum_c scale 1)),
      EvSetKernelArg k 6 (ArgFloat (Spectrum_c scale 2)),
      EvEnqueueKernel k (bindScale args scale) (RoundUp n 256) 256]"

definition perPixelCalls ::
  "GenericFrameBuffer list \<Rightarrow> nat \<Rightarrow> ImagePipeline option \<Rightarrow> HardwareDeviceKernel \<Rightarrow> nat \<Rightarrow> HWCall list" where
  "perPixelCalls chans n ip args i =
     accumulateCalls KERNEL_RADIANCE_PER_PIXEL_NORMALIZED args (GetSize (chans ! i))
       (HOST_RADIANCE_PER_PIXEL_NORMALIZED i) (groupScaleOf ip i) n"

definition perScreenCalls ::
  "GenericFrameBuffer list \<Rightarrow> nat \<Rightarrow> real \<Rightarrow> ImagePipeline option \<Rightarrow> HardwareDeviceKernel \<Rightarrow> nat \<Rightarrow> HWCall list" where
  "perScreenCalls chans n factor ip args i =
     accumulateCalls KERNEL_RADIANCE_PER_SCREEN_NORMALIZED args (GetSize (chans ! i))
       (HOST_RADIANCE_PER_SCREEN_NORMALIZED i) (scaleSpectrum factor (groupScaleOf ip i)) n"

text \<open>
  The calls of the two accumulation loops, and of a whole merge, in order.
\<close>

definition perPixelSection :: "Film \<Rightarrow> ImagePipeline option \<Rightarrow> HWCall list" where
  "perPixelSection f ip =
     (if HasChannel f RADIANCE_PER_PIXEL_NORMALIZED then
        concat (map (perPixelCalls (channel_RADIANCE_PER_PIXEL_NORMALIZEDs f) (pixelCount f) ip
                       (the (mergeRADIANCE_PER_PIXEL_NORMALIZEDKernel f)))
                    (filter (groupIsEnabled ip) [0..<radianceGroupCount f]))
      else [])"

definition perScreenSection :: "Film \<Rightarrow> ImagePipeline option \<Rightarrow> HWCall list" where
  "perScreenSection f ip =
     (if HasChannel f RADIANCE_PER_SCREEN_NORMALIZED then
        concat (map (perScreenCalls (channel_RADIANCE_PER_SCREEN_NORMALIZEDs f) (pixelCount f)
                       (normalizationFactor (pixelCount f) (samplesCounts f)) ip
                       (the (mergeRADIANCE_PER_SCREEN_NORMALIZEDKernel f)))
                    (filter (groupIsEnabled ip) [0..<radianceGroupCount f]))
      else [])"

definition expectedMergeCalls :: "Film \<Rightarrow> nat \<Rightarrow> HWCall list" where
  "expectedMergeCalls f imagePipelineIndex =
     [EvEnqueueWriteBuffer BUFFER_IMAGEPIPELINE False
        (GetSize (channel_IMAGEPIPELINEs f ! imagePipelineIndex)) (HOST_IMAGEPIPELINE imagePipelineIndex),
      EvEnqueueKernel KERNEL_Initialize (the (mergeInitializeKernel f)) (RoundUp (pixelCount f) 256) 256]
     @ perPixelSection f (imagePipelineAt f imagePipelineIndex)
     @ perScreenSection f (imagePipelineAt f imagePipelineIndex)
     @ [EvEnqueueKernel KERNEL_Finalize (the (mergeFinalizeKernel f)) (RoundUp (pixelCount f) 256) 256,
        EvEnqueueReadBuffer BUFFER_IMAGEPIPELINE False
          (GetSize (channel_IMAGEPIPELINEs f ! imagePipelineIndex)) (HOST_IMAGEPIPELINE imagePipelineIndex),
        EvFinishQueue]"

text \<open>
  The calls a step appended to the log.
\<close>

definition newCalls :: "Film \<Rightarrow> Film \<Rightarrow> HWCall list" where
  "newCalls f f' = drop (length (deviceLog f)) (deviceLog f')"

text \<open>
  The scale bindings (slots 4, 5, 6) each dispatch of kernel \<open>k\<close> in a call list ran with.
\<close>

definition scaleArgs :: "Spectrum \<Rightarrow> KernelArg option \<times> KernelArg option \<times> KernelArg option" where
  "scaleArgs s = (Some (ArgFloat (Spectrum_c s 0)), Some (ArgFloat (Spectrum_c s 1)), Some (ArgFloat (Spectrum_c s 2)))"

fun dispatchScales :: "HWKernelRef \<Rightarrow> HWCall list \<Rightarrow> (KernelArg option \<times> KernelArg option \<times> KernelArg option) list" where
  "dispatchScales k [] = []"
| "dispatchScales k (EvEnqueueKernel k' args g l # cs) =
     (if k' = k then (args 4, args 5, args 6) # dispatchScales k cs else dispatchScales k cs)"
| "dispatchScales k (_ # cs) = dispatchScales k cs"

text \<open>
  A call list that consists of accumulate blocks only: each block is an upload into the
  merge buffer, the bindings of slots 4, 5 and 6 of kernel \<open>k\<close>, and a dispatch of \<open>k\<close> whose
  bindings in these slots are the values just bound.
\<close>

fun accumulateBlocks :: "HWKernelRef \<Rightarrow> HWCall list \<Rightarrow> bool" where
  "accumulateBlocks k [] = True"
| "accumulateBlocks k (w # s4 # s5 # s6 # e # rest) =
     ((case w of EvEnqueueWriteBuffer b _ _ _ \<Rightarrow> b = BUFFER_Merge | _ \<Rightarrow> False)
      \<and> (case e of
           EvEnqueueKernel k' args _ _ \<Rightarrow>
             k' = k
             \<and> (case (args 4, args 5, args 6) of
                  (Some x, Some y, Some z) \<Rightarrow>
                    s4 = EvSetKernelArg k 4 x \<and> s5 = EvSetKernelArg k 5 y \<and> s6 = EvSetKernelArg k 6 z
                | _ \<Rightarrow> False)
         | _ \<Rightarrow> False)
      \<and> accumulateBlocks k rest)"
| "accumulateBlocks k _ = False"

text \<open>
  What a merge needs in order to return: a device, the image-pipeline buffer, the kernels,
  a valid channel index, and for each radiance kind that exists its kernel, the merge buffer
  and a channel for every group; a pipeline, when there is one, has a scale for every group.
\<close>

definition mergeReady :: "Film \<Rightarrow> nat \<Rightarrow> bool" where
  "mergeReady f idx \<longleftrightarrow>
     hardwareDevice f \<noteq> None \<and> hw_IMAGEPIPELINE f \<noteq> None
     \<and> mergeInitializeKernel f \<noteq> None \<and> mergeFinalizeKernel f \<noteq> None
     \<and> idx < length (channel_IMAGEPIPELINEs f)
     \<and> (HasChannel f RADIANCE_PER_PIXEL_NORMALIZED \<longrightarrow>
          mergeRADIANCE_PER_PIXEL_NORMALIZEDKernel f \<noteq> None \<and> hw_mergeBuffer f \<noteq> None
          \<and> radianceGroupCount f \<le> length (channel_RADIANCE_PER_PIXEL_NORMALIZEDs f))
     \<and> (HasChannel f RADIANCE_PER_SCREEN_NORMALIZED \<longrightarrow>
          mergeRADIANCE_PER_SCREEN_NORMALIZEDKernel f \<noteq> None \<and> hw_mergeBuffer f \<noteq> None
          \<and> radianceGroupCount f \<le> length (channel_RADIANCE_PER_SCREEN_NORMALIZEDs f))
     \<and> (idx < length (imagePipelines f) \<longrightarrow>
          radianceGroupCount f \<le> length (radianceChannelScales (imagePipelines f ! idx)))"

definition scalesInRange :: "ImagePipeline option \<Rightarrow> nat \<Rightarrow> bool" where
  "scalesInRange ip n = (case ip of None \<Rightarrow> True | Some p \<Rightarrow> n \<le> length (radianceChannelScales p))"

text \<open>
  Lines 151-153 without the range checks: the size of the merge buffer.
\<close>

definition mergeBufferSize :: "Film \<Rightarrow> nat" where
  "mergeBufferSize f =
     max (if HasChannel f RADIANCE_PER_PIXEL_NORMALIZED
          then GetSize (channel_RADIANCE_PER_PIXEL_NORMALIZEDs f ! 0) else 0)
         (if HasChannel f RADIANCE_PER_SCREEN_NORMALIZED
          then GetSize (channel_RADIANCE_PER_SCREEN_NORMALIZEDs f ! 0) else 0)"

text \<open>
  What an allocation needs in order to return: a context, a device, an image-pipeline
  channel 0, and the channel object of every channel the film has among alpha, object-id
  and the two radiance kinds (group 0 for these).
\<close>

definition allocReady :: "Film \<Rightarrow> bool" where
  "allocReady f \<longleftrightarrow>
     ctx f \<noteq> None \<and> hardwareDevice f \<noteq> None \<and> channel_IMAGEPIPELINEs f \<noteq> []
     \<and> (HasChannel f ALPHA \<longrightarrow> channel_ALPHA f \<noteq> None)
     \<and> (HasChannel f OBJECT_ID \<longrightarrow> channel_OBJECT_ID f \<noteq> None)
     \<and> (HasChannel f RADIANCE_PER_PIXEL_NORMALIZED \<longrightarrow> channel_RADIANCE_PER_PIXEL_NORMALIZEDs f \<noteq> [])
     \<and> (HasChannel f RADIANCE_PER_SCREEN_NORMALIZED \<longrightarrow> channel_RADIANCE_PER_SCREEN_NORMALIZEDs f \<noteq> [])"

subsection \<open>Example films\<close>

text \<open>
  A 4 x 4 film with two light groups, two image-pipeline channels and one image pipeline,
  in which group 0 is disabled and group 1 has scale (2, 3, 4). A channel holds 16 pixels of
  2, 3 or 4 floats of 4 bytes; \<open>exPixels n v\<close> is pixel data of \<open>n\<close> floats. \<open>exCtx\<close> is the film after
  \<^verbatim>\<open>SetUpHW\<close> and \<^verbatim>\<open>CreateHWContext\<close>, \<open>exAlloc\<close> after \<^verbatim>\<open>AllocateHWBuffers\<close>, \<open>exReady\<close>
  after \<^verbatim>\<open>CompileHWKernels\<close>.
\<close>

definition exPixels :: "nat \<Rightarrow> real \<Rightarrow> real list" where
  "exPixels n v = replicate n v"

definition exFilm0 :: Film where
  "exFilm0 =
     \<lparr>hwEnable = False, hwDeviceIndex = 0, ctx = None, dataSet = None, hardwareDevice = None,
      hw_IMAGEPIPELINE = None, hw_ALPHA = None, hw_OBJECT_ID = None, hw_mergeBuffer = None,
      mergeInitializeKernel = None, mergeRADIANCE_PER_PIXEL_NORMALIZEDKernel = None,
      mergeRADIANCE_PER_SCREEN_NORMALIZEDKernel = None, mergeFinalizeKernel = None,
      width = 4, height = 4, pixelCount = 16, radianceGroupCount = 2,
      channels = {RADIANCE_PER_PIXEL_NORMALIZED, RADIANCE_PER_SCREEN_NORMALIZED, ALPHA, IMAGEPIPELINE},
      channel_IMAGEPIPELINEs = [\<lparr>GetSize = 192, GetPixels = exPixels 48 0\<rparr>, \<lparr>GetSize = 192, GetPixels = exPixels 48 1\<rparr>],
      channel_ALPHA = Some \<lparr>GetSize = 128, GetPixels = exPixels 32 1\<rparr>,
      channel_OBJECT_ID = None,
      channel_RADIANCE_PER_PIXEL_NORMALIZEDs =
        [\<lparr>GetSize = 256, GetPixels = exPixels 64 2\<rparr>, \<lparr>GetSize = 256, GetPixels = exPixels 64 3\<rparr>],
      channel_RADIANCE_PER_SCREEN_NORMALIZEDs =
        [\<lparr>GetSize = 192, GetPixels = exPixels 48 4\<rparr>, \<lparr>GetSize = 192, GetPixels = exPixels 48 5\<rparr>],
      imagePipelines =
        [\<lparr>radianceChannelScales =
            [\<lparr>enabled = False, GetScale = Spectrum 9 9 9\<rparr>,
             \<lparr>enabled = True, GetScale = Spectrum 2 3 4\<rparr>]\<rparr>],
      samplesCounts = 32,
      deviceLog = []\<rparr>"

definition exCtx :: Film where
  "exCtx = CreateHWContext [oclA, oclB] (SetUpHW exFilm0)"

definition exImageBuffer :: HardwareDeviceBuffer where
  "exImageBuffer = \<lparr>bufDesc = ''IMAGEPIPELINE'', bufSize = 192, bufReadOnly = False,
                     bufSource = Some (HOST_IMAGEPIPELINE 0)\<rparr>"

definition exAlphaBuffer :: HardwareDeviceBuffer where
  "exAlphaBuffer = \<lparr>bufDesc = ''ALPHA'', bufSize = 128, bufReadOnly = True, bufSource = Some HOST_ALPHA\<rparr>"

definition exMergeBuffer :: HardwareDeviceBuffer where
  "exMergeBuffer = \<lparr>bufDesc = ''Merge'', bufSize = 256, bufReadOnly = True, bufSource = None\<rparr>"

definition exAllocCalls :: "HWCall list" where
  "exAllocCalls =
     [EvAllocBufferRW BUFFER_IMAGEPIPELINE (Some (HOST_IMAGEPIPELINE 0)) 192 ''IMAGEPIPELINE'',
      EvAllocBufferRO BUFFER_ALPHA (Some HOST_ALPHA) 128 ''ALPHA'',
      EvAllocBufferRO BUFFER_Merge None 256 ''Merge'']"

definition exAlloc :: Film where
  "exAlloc = exCtx\<lparr>hw_IMAGEPIPELINE := Some exImageBuffer, hw_ALPHA := Some exAlphaBuffer,
                    hw_mergeBuffer := Some exMergeBuffer, deviceLog := exAllocCalls\<rparr>"

definition exInitArgs :: HardwareDeviceKernel where
  "exInitArgs = [0 \<mapsto> ArgUInt 4, 1 \<mapsto> ArgUInt 4, 2 \<mapsto> ArgBuffer (Some exImageBuffer)]"

definition exAccumArgs :: HardwareDeviceKernel where
  "exAccumArgs = [0 \<mapsto> ArgUInt 4, 1 \<mapsto> ArgUInt 4, 2 \<mapsto> ArgBuffer (Some exImageBuffer),
                  3 \<mapsto> ArgBuffer (Some exMergeBuffer)]"

definition exCompileCalls :: "HWCall list" where
  "exCompileCalls =
     [EvCompileProgram ''-D LUXRAYS_OPENCL_KERNEL -D SLG_OPENCL_KERNEL'' ''MergeSampleBuffersOCL'',
      EvGetKernel KERNEL_Initialize ''Film_MergeBufferInitialize'',
      EvSetKernelArg KERNEL_Initialize 0 (ArgUInt 4),
      EvSetKernelArg KERNEL_Initialize 1 (ArgUInt 4),
      EvSetKernelArg KERNEL_Initialize 2 (ArgBuffer (Some exImageBuffer)),
      EvGetKernel KERNEL_RADIANCE_PER_PIXEL_NORMALIZED ''Film_MergeRADIANCE_PER_PIXEL_NORMALIZED'',
      EvSetKernelArg KERNEL_RADIANCE_PER_PIXEL_NORMALIZED 0 (ArgUInt 4),
      EvSetKernelArg KERNEL_RADIANCE_PER_PIXEL_NORMALIZED 1 (ArgUInt 4),
      EvSetKernelArg KERNEL_RADIANCE_PER_PIXEL_NORMALIZED 2 (ArgBuffer (Some exImageBuffer)),
      EvSetKernelArg KERNEL_RADIANCE_PER_PIXEL_NORMALIZED 3 (ArgBuffer (Some exMergeBuffer)),
      EvGetKernel KERNEL_RADIANCE_PER_SCREEN_NORMALIZED ''Film_MergeRADIANCE_PER_SCREEN_NORMALIZED'',
      EvSetKernelArg KERNEL_RADIANCE_PER_SCREEN_NORMALIZED 0 (ArgUInt 4),
      EvSetKernelArg KERNEL_RADIANCE_PER_SCREEN_NORMALIZED 1 (ArgUInt 4),
      EvSetKernelArg KERNEL_RADIANCE_PER_SCREEN_NORMALIZED 2 (ArgBuffer (Some exImageBuffer)),
      EvSetKernelArg KERNEL_RADIANCE_PER_SCREEN_NORMALIZED 3 (ArgBuffer (Some exMergeBuffer)),
      EvGetKernel KERNEL_Finalize ''Film_MergeBufferFinalize'',
      EvSetKernelArg KERNEL_Finalize 0 (ArgUInt 4),
      EvSetKernelArg KERNEL_Finalize 1 (ArgUInt 4),
      EvSetKernelArg KERNEL_Finalize 2 (ArgBuffer (Some exImageBuffer)),
      EvDeleteProgram]"

definition exReady :: Film where
  "exReady = exAlloc\<lparr>mergeInitializeKernel := Some exInitArgs,
                      mergeRADIANCE_PER_PIXEL_NORMALIZEDKernel := Some exAccumArgs,
                      mergeRADIANCE_PER_SCREEN_NORMALIZEDKernel := Some exAccumArgs,
                      mergeFinalizeKernel := Some exInitArgs,
                      deviceLog := exAllocCalls @ exCompileCalls\<rparr>"

text \<open>
  \<open>exMerged0\<close> is \<open>exReady\<close> after the merge of output 0, \<open>exMerged1\<close> after the merge of
  output 1, for which there is no image pipeline; \<open>exZero\<close> is \<open>exReady\<close> with a sample
  count of zero.
\<close>

definition exMergeCalls0 :: "HWCall list" where
  "exMergeCalls0 =
     [EvEnqueueWriteBuffer BUFFER_IMAGEPIPELINE False 192 (HOST_IMAGEPIPELINE 0),
      EvEnqueueKernel KERNEL_Initialize exInitArgs 256 256,
      EvEnqueueWriteBuffer BUFFER_Merge False 256 (HOST_RADIANCE_PER_PIXEL_NORMALIZED 1),
      EvSetKernelArg KERNEL_RADIANCE_PER_PIXEL_NORMALIZED 4 (ArgFloat 2),
      EvSetKernelArg KERNEL_RADIANCE_PER_PIXEL_NORMALIZED 5 (ArgFloat 3),
      EvSetKernelArg KERNEL_RADIANCE_PER_PIXEL_NORMALIZED 6 (ArgFloat 4),
      EvEnqueueKernel KERNEL_RADIANCE_PER_PIXEL_NORMALIZED
        (exAccumArgs(4 \<mapsto> ArgFloat 2, 5 \<mapsto> ArgFloat 3, 6 \<mapsto> ArgFloat 4)) 256 256,
      EvEnqueueWriteBuffer BUFFER_Merge False 192 (HOST_RADIANCE_PER_SCREEN_NORMALIZED 1),
      EvSetKernelArg KERNEL_RADIANCE_PER_SCREEN_NORMALIZED 4 (ArgFloat 1),
      EvSetKernelArg KERNEL_RADIANCE_PER_SCREEN_NORMALIZED 5 (ArgFloat (3 / 2)),
      EvSetKernelArg KERNEL_RADIANCE_PER_SCREEN_NORMALIZED 6 (ArgFloat 2),
      EvEnqueueKernel KERNEL_RADIANCE_PER_SCREEN_NORMALIZED
        (exAccumArgs(4 \<mapsto> ArgFloat 1, 5 \<mapsto> ArgFloat (3 / 2), 6 \<mapsto> ArgFloat 2)) 256 256,
      EvEnqueueKernel KERNEL_Finalize exInitArgs 256 256,
      EvEnqueueReadBuffer BUFFER_IMAGEPIPELINE False 192 (HOST_IMAGEPIPELINE 0),
      EvFinishQueue]"

definition exMerged0 :: Film where
  "exMerged0 =
     exReady\<lparr>mergeRADIANCE_PER_PIXEL_NORMALIZEDKernel :=
                Some (exAccumArgs(4 \<mapsto> ArgFloat 2, 5 \<mapsto> ArgFloat 3, 6 \<mapsto> ArgFloat 4)),
              mergeRADIANCE_PER_SCREEN_NORMALIZEDKernel :=
                Some (exAccumArgs(4 \<mapsto> ArgFloat 1, 5 \<mapsto> ArgFloat (3 / 2), 6 \<mapsto> ArgFloat 2)),
              channel_IMAGEPIPELINEs := [\<lparr>GetSize = 192, GetPixels = exPixels 48 7\<rparr>, \<lparr>GetSize = 192, GetPixels = exPixels 48 1\<rparr>],
              deviceLog := exAllocCalls @ exCompileCalls @ exMergeCalls0\<rparr>"

definition exMergeCalls1 :: "HWCall list" where
  "exMergeCalls1 =
     [EvEnqueueWriteBuffer BUFFER_IMAGEPIPELINE False 192 (HOST_IMAGEPIPELINE 1),
      EvEnqueueKernel KERNEL_Initialize exInitArgs 256 256,
      EvEnqueueWriteBuffer BUFFER_Merge False 256 (HOST_RADIANCE_PER_PIXEL_NORMALIZED 0),
      EvSetKernelArg KERNEL_RADIANCE_PER_PIXEL_NORMALIZED 4 (ArgFloat 1),
      EvSetKernelArg KERNEL_RADIANCE_PER_PIXEL_NORMALIZED 5 (ArgFloat 1),
      EvSetKernelArg KERNEL_RADIANCE_PER_PIXEL_NORMALIZED 6 (ArgFloat 1),
      EvEnqueueKernel KERNEL_RADIANCE_PER_PIXEL_NORMALIZED
        (exAccumArgs(4 \<mapsto> ArgFloat 1, 5 \<mapsto> ArgFloat 1, 6 \<mapsto> ArgFloat 1)) 256 256,
      EvEnqueueWriteBuffer BUFFER_Merge False 256 (HOST_RADIANCE_PER_PIXEL_NORMALIZED 1),
      EvSetKernelArg KERNEL_RADIANCE_PER_PIXEL_NORMALIZED 4 (ArgFloat 1),
      EvSetKernelArg KERNEL_RADIANCE_PER_PIXEL_NORMALIZED 5 (ArgFloat 1),
      EvSetKernelArg KERNEL_RADIANCE_PER_PIXEL_NORMALIZED 6 (ArgFloat 1),
      EvEnqueueKernel KERNEL_RADIANCE_PER_PIXEL_NORMALIZED
        (exAccumArgs(4 \<mapsto> ArgFloat 1, 5 \<mapsto> ArgFloat 1, 6 \<mapsto> ArgFloat 1)) 256 256,
      EvEnqueueWriteBuffer BUFFER_Merge False 192 (HOST_RADIANCE_PER_SCREEN_NORMALIZED 0),
      EvSetKernelArg KERNEL_RADIANCE_PER_SCREEN_NORMALIZED 4 (ArgFloat (1 / 2)),
      EvSetKernelArg KERNEL_RADIANCE_PER_SCREEN_NORMALIZED 5 (ArgFloat (1 / 2)),
      EvSetKernelArg KERNEL_RADIANCE_PER_SCREEN_NORMALIZED 6 (ArgFloat (1 / 2)),
      EvEnqueueKernel KERNEL_RADIANCE_PER_SCREEN_NORMALIZED
        (exAccumArgs(4 \<mapsto> ArgFloat (1 / 2), 5 \<mapsto> ArgFloat (1 / 2), 6 \<mapsto> ArgFloat (1 / 2))) 256 256,
      EvEnqueueWriteBuffer BUFFER_Merge False 192 (HOST_RADIANCE_PER_SCREEN_NORMALIZED 1),
      EvSetKernelArg KERNEL_RADIANCE_PER_SCREEN_NORMALIZED 4 (ArgFloat (1 / 2)),
      EvSetKernelArg KERNEL_RADIANCE_PER_SCREEN_NORMALIZED 5 (ArgFloat (1 / 2)),
      EvSetKernelArg KERNEL_RADIANCE_PER_SCREEN_NORMALIZED 6 (ArgFloat (1 / 2)),
      EvEnqueueKernel KERNEL_RADIANCE_PER_SCREEN_NORMALIZED
        (exAccumArgs(4 \<mapsto> ArgFloat (1 / 2), 5 \<mapsto> ArgFloat (1 / 2), 6 \<mapsto> ArgFloat (1 / 2))) 256 256,
      EvEnqueueKernel KERNEL_Finalize exInitArgs 256 256,
      EvEnqueueReadBuffer BUFFER_IMAGEPIPELINE False 192 (HOST_IMAGEPIPELINE 1),
      EvFinishQueue]"

definition exMerged1 :: Film where
  "exMerged1 =
     exReady\<lparr>mergeRADIANCE_PER_PIXEL_NORMALIZEDKernel :=
                Some (exAccumArgs(4 \<mapsto> ArgFloat 1, 5 \<mapsto> ArgFloat 1, 6 \<mapsto> ArgFloat 1)),
              mergeRADIANCE_PER_SCREEN_NORMALIZEDKernel :=
                Some (exAccumArgs(4 \<mapsto> ArgFloat (1 / 2), 5 \<mapsto> ArgFloat (1 / 2), 6 \<mapsto> ArgFloat (1 / 2))),
              channel_IMAGEPIPELINEs := [\<lparr>GetSize = 192, GetPixels = exPixels 48 0\<rparr>, \<lparr>GetSize = 192, GetPixels = exPixels 48 7\<rparr>],
              deviceLog := exAllocCalls @ exCompileCalls @ exMergeCalls1\<rparr>"

definition exZero :: Film where
  "exZero = exReady\<lparr>samplesCounts := 0\<rparr>"

definition exMergedZero :: Film where
  "exMergedZero =
     exZero\<lparr>mergeRADIANCE_PER_PIXEL_NORMALIZEDKernel :=
                Some (exAccumArgs(4 \<mapsto> ArgFloat 2, 5 \<mapsto> ArgFloat 3, 6 \<mapsto> ArgFloat 4)),
              mergeRADIANCE_PER_SCREEN_NORMALIZEDKernel :=
                Some (exAccumArgs(4 \<mapsto> ArgFloat 2, 5 \<mapsto> ArgFloat 3, 6 \<mapsto> ArgFloat 4)),
              channel_IMAGEPIPELINEs := [\<lparr>GetSize = 192, GetPixels = exPixels 48 7\<rparr>, \<lparr>GetSize = 192, GetPixels = exPixels 48 1\<rparr>],
              deviceLog := exAllocCalls @ exCompileCalls @
     [EvEnqueueWriteBuffer BUFFER_IMAGEPIPELINE False 192 (HOST_IMAGEPIPELINE 0),
      EvEnqueueKernel KERNEL_Initialize exInitArgs 256 256,
      EvEnqueueWriteBuffer BUFFER_Merge False 256 (HOST_RADIANCE_PER_PIXEL_NORMALIZED 1),
      EvSetKernelArg KERNEL_RADIANCE_PER_PIXEL_NORMALIZED 4 (ArgFloat 2),
      EvSetKernelArg KERNEL_RADIANCE_PER_PIXEL_NORMALIZED 5 (ArgFloat 3),
      EvSetKernelArg KERNEL_RADIANCE_PER_PIXEL_NORMALIZED 6 (ArgFloat 4),
      EvEnqueueKernel KERNEL_RADIANCE_PER_PIXEL_NORMALIZED
        (exAccumArgs(4 \<mapsto> ArgFloat 2, 5 \<mapsto> ArgFloat 3, 6 \<mapsto> ArgFloat 4)) 256 256,
      EvEnqueueWriteBuffer BUFFER_Merge False 192 (HOST_RADIANCE_PER_SCREEN_NORMALIZED 1),
      EvSetKernelArg KERNEL_RADIANCE_PER_SCREEN_NORMALIZED 4 (ArgFloat 2),
      EvSetKernelArg KERNEL_RADIANCE_PER_SCREEN_NORMALIZED 5 (ArgFloat 3),
      EvSetKernelArg KERNEL_RADIANCE_PER_SCREEN_NORMALIZED 6 (ArgFloat 4),
      EvEnqueueKernel KERNEL_RADIANCE_PER_SCREEN_NORMALIZED
        (exAccumArgs(4 \<mapsto> ArgFloat 2, 5 \<mapsto> ArgFloat 3, 6 \<mapsto> ArgFloat 4)) 256 256,
      EvEnqueueKernel KERNEL_Finalize exInitArgs 256 256,
      EvEnqueueReadBuffer BUFFER_IMAGEPIPELINE False 192 (HOST_IMAGEPIPELINE 0),
      EvFinishQueue]\<rparr>"

text \<open>
  Variants of the example films. \<open>exObj f\<close> is \<open>f\<close> with an object-id channel of 16 pixels of
  4 bytes, and \<open>exObjAlloc\<close> is \<open>exObj exCtx\<close> after \<^verbatim>\<open>AllocateHWBuffers\<close>. \<open>exBare f\<close> is \<open>f\<close> with
  the image-pipeline channels only, and \<open>exBareAlloc\<close> is \<open>exBare exCtx\<close> after
  \<^verbatim>\<open>AllocateHWBuffers\<close>. \<open>exWide f\<close> is \<open>f\<close> with per-pixel-normalized channels of 256 bytes for
  group 0 and 512 bytes for group 1, and \<open>exWideMerged1\<close> is \<open>exWide exReady\<close> after the merge
  of output 1.
\<close>

definition exObj :: "Film \<Rightarrow> Film" where
  "exObj f = f\<lparr>channels := insert OBJECT_ID (channels f),
               channel_OBJECT_ID := Some \<lparr>GetSize = 64, GetPixels = exPixels 16 3\<rparr>\<rparr>"

definition exObjectIdBuffer :: HardwareDeviceBuffer where
  "exObjectIdBuffer = \<lparr>bufDesc = ''OBJECT_ID'', bufSize = 64, bufReadOnly = True,
                        bufSource = Some HOST_OBJECT_ID\<rparr>"

definition exObjAllocCalls :: "HWCall list" where
  "exObjAllocCalls =
     [EvAllocBufferRW BUFFER_IMAGEPIPELINE (Some (HOST_IMAGEPIPELINE 0)) 192 ''IMAGEPIPELINE'',
      EvAllocBufferRO BUFFER_ALPHA (Some HOST_ALPHA) 128 ''ALPHA'',
      EvAllocBufferRO BUFFER_OBJECT_ID (Some HOST_OBJECT_ID) 64 ''OBJECT_ID'',
      EvAllocBufferRO BUFFER_Merge None 256 ''Merge'']"

definition exObjAlloc :: Film where
  "exObjAlloc = (exObj exCtx)\<lparr>hw_IMAGEPIPELINE := Some exImageBuffer, hw_ALPHA := Some exAlphaBuffer,
                               hw_OBJECT_ID := Some exObjectIdBuffer,
                               hw_mergeBuffer := Some exMergeBuffer, deviceLog := exObjAllocCalls\<rparr>"

definition exBare :: "Film \<Rightarrow> Film" where
  "exBare f = f\<lparr>channels := {IMAGEPIPELINE}, channel_ALPHA := None,
                channel_RADIANCE_PER_PIXEL_NORMALIZEDs := [],
                channel_RADIANCE_PER_SCREEN_NORMALIZEDs := []\<rparr>"

definition exBareAlloc :: Film where
  "exBareAlloc = (exBare exCtx)\<lparr>hw_IMAGEPIPELINE := Some exImageBuffer,
       deviceLog := [EvAllocBufferRW BUFFER_IMAGEPIPELINE (Some (HOST_IMAGEPIPELINE 0)) 192 ''IMAGEPIPELINE'']\<rparr>"

definition exWide :: "Film \<Rightarrow> Film" where
  "exWide f = f\<lparr>channel_RADIANCE_PER_PIXEL_NORMALIZEDs :=
                  [\<lparr>GetSize = 256, GetPixels = exPixels 64 2\<rparr>, \<lparr>GetSize = 512, GetPixels = exPixels 128 3\<rparr>]\<rparr>"



section \<open>Device selection\<close>

lemma ScanDescs_no_cuda:
  "\<not> list_ex isCudaGpu descs \<Longrightarrow>
   ScanDescs descs sel = (case lastOption (filter isOpenCLGpu descs) of None \<Rightarrow> sel | Some d \<Rightarrow> Some d)"
  by (induction descs arbitrary: sel) (auto simp: isCudaGpu_def isOpenCLGpu_def lastOption_def)

lemma ScanDescs_cuda:
  "find isCudaGpu descs = Some d \<Longrightarrow> ScanDescs descs sel = Some d"
  by (induction descs arbitrary: sel) (auto simp: isCudaGpu_def split: if_splits)

lemma find_None_list_ex: "find P xs = None \<longleftrightarrow> \<not> list_ex P xs"
  by (induction xs) auto

text \<open>
  C1 (as the code has it). Nothing is selected when \<open>hwEnable\<close> is off. When it is on, a
  pinned index inside the filtered list selects that descriptor; otherwise the first
  CUDA GPU of the list is selected if there is one, and if there is none the last OpenCL
  GPU of the list is selected (each OpenCL GPU met replaces the candidate), or nothing
  when the list has no OpenCL GPU either.
\<close>

theorem C1_selection_policy:
  "SelectDeviceDesc enable deviceIndex descs =
     (if \<not> enable then None
      else if 0 \<le> deviceIndex \<and> deviceIndex < int (length descs) then Some (descs ! nat deviceIndex)
      else case find isCudaGpu descs of
             Some d \<Rightarrow> Some d
           | None \<Rightarrow> lastOption (filter isOpenCLGpu descs))"
proof (cases "find isCudaGpu descs")
  case None
  then have "\<not> list_ex isCudaGpu descs" by (simp add: find_None_list_ex)
  then have "ScanDescs descs None = lastOption (filter isOpenCLGpu descs)"
    by (simp add: ScanDescs_no_cuda split: option.splits)
  with None show ?thesis
    by (auto simp: SelectDeviceDesc_def lastOption_def)
next
  case (Some d)
  then have "ScanDescs descs None = Some d" by (rule ScanDescs_cuda)
  moreover from Some have "descs \<noteq> []" by auto
  ultimately show ?thesis using Some
    by (simp add: SelectDeviceDesc_def)
qed

theorem C1_selection_policy_witness:
  "SelectDeviceDesc True 1 [oclA, cpuD, cudaC] = Some cpuD
   \<and> SelectDeviceDesc True (- 1) [oclA, oclB, cudaC, cpuD] = Some cudaC
   \<and> SelectDeviceDesc True 7 [cpuD, oclA, oclB] = Some oclB
   \<and> SelectDeviceDesc False 0 [oclA] = None"
  using C1_selection_policy [of True 1 "[oclA, cpuD, cudaC]"]
    C1_selection_policy [of True "- 1" "[oclA, oclB, cudaC, cpuD]"]
    C1_selection_policy [of True 7 "[cpuD, oclA, oclB]"]
    C1_selection_policy [of False 0 "[oclA]"]
  by (simp add: isCudaGpu_def isOpenCLGpu_def lastOption_def oclA_def oclB_def cudaC_def cpuD_def)

text \<open>
  With two OpenCL GPUs and no CUDA GPU, the first OpenCL GPU seen is \<open>oclA\<close>, and the
  code selects \<open>oclB\<close>.
\<close>

theorem C1_first_opencl_gpu_counterexample:
  "find isOpenCLGpu [oclA, oclB] = Some oclA
   \<and> \<not> list_ex isCudaGpu [oclA, oclB]
   \<and> SelectDeviceDesc True (- 1) [oclA, oclB] = Some oclB
   \<and> SelectDeviceDesc True (- 1) [oclA, oclB] \<noteq> Some oclA"
  by (simp add: SelectDeviceDesc_def isCudaGpu_def isOpenCLGpu_def oclA_def oclB_def)

text \<open>
A pinned index is not honoured when \<open>hwEnable\<close> is off.
\<close>

lemma pinned_index_needs_hwEnable:
  "SelectDeviceDesc False 0 [oclA] = None"
  by (simp add: SelectDeviceDesc_def)

section \<open>Errors and platform calls\<close>

lemma bindE_Inl [simp]: "bindE (Inl e) k = Inl e"
  by (simp add: bindE_def)

lemma bindE_Inr [simp]: "bindE (Inr x) k = k x"
  by (simp add: bindE_def)

lemma bindE_eq_Inr: "bindE m k = Inr y \<longleftrightarrow> (\<exists>x. m = Inr x \<and> k x = Inr y)"
  by (cases m) simp_all

lemma deref_eq_Inr [simp]: "deref p = Inr x \<longleftrightarrow> p = Some x"
  by (cases p) (simp_all add: deref_def)

lemma deref_Some [simp]: "deref (Some x) = Inr x"
  by (simp add: deref_def)

lemma vecAt_eq_Inr [simp]: "vecAt v i = Inr x \<longleftrightarrow> i < length v \<and> x = v ! i"
  by (auto simp: vecAt_def)

lemma vecAt_in [simp]: "i < length v \<Longrightarrow> vecAt v i = Inr (v ! i)"
  by (simp add: vecAt_def)

lemma forE_Cons_eq_Inr:
  "forE (i # is) body s = Inr s' \<longleftrightarrow> (\<exists>s1. body i s = Inr s1 \<and> forE is body s1 = Inr s')"
  by (simp add: bindE_eq_Inr)

lemma groupEnabled_eq_Inr:
  "groupEnabled ip i = Inr en \<Longrightarrow> en = groupIsEnabled ip i"
  by (auto simp: groupEnabled_def groupIsEnabled_def bindE_eq_Inr split: option.splits)

lemma groupScale_eq_Inr:
  "groupScale ip i = Inr s \<Longrightarrow> s = groupScaleOf ip i"
  by (auto simp: groupScale_def groupScaleOf_def bindE_eq_Inr split: option.splits)

lemma groupEnabled_ok:
  "scalesInRange ip n \<Longrightarrow> i < n \<Longrightarrow> groupEnabled ip i = Inr (groupIsEnabled ip i)"
  by (auto simp: scalesInRange_def groupEnabled_def groupIsEnabled_def split: option.splits)

lemma groupScale_ok:
  "scalesInRange ip n \<Longrightarrow> i < n \<Longrightarrow> groupScale ip i = Inr (groupScaleOf ip i)"
  by (auto simp: scalesInRange_def groupScale_def groupScaleOf_def split: option.splits)

lemma EnqueueWriteBuffer_eq_Inr:
  "EnqueueWriteBuffer b bl sz host f = Inr f' \<longleftrightarrow>
     hardwareDevice f \<noteq> None \<and> bufferOf b f \<noteq> None \<and> f' = logCall (EvEnqueueWriteBuffer b bl sz host) f"
  by (auto simp: EnqueueWriteBuffer_def bindE_eq_Inr)

lemma EnqueueReadBuffer_eq_Inr:
  "EnqueueReadBuffer b bl sz host d f = Inr f' \<longleftrightarrow>
     hardwareDevice f \<noteq> None \<and> bufferOf b f \<noteq> None
     \<and> f' = writeHost host d (logCall (EvEnqueueReadBuffer b bl sz host) f)"
  by (auto simp: EnqueueReadBuffer_def bindE_eq_Inr)

lemma SetKernelArg_eq_Inr:
  "SetKernelArg k n v f = Inr f' \<longleftrightarrow>
     hardwareDevice f \<noteq> None
     \<and> (\<exists>args. kernelOf k f = Some args
          \<and> f' = setKernel k (Some (args(n \<mapsto> v))) (logCall (EvSetKernelArg k n v) f))"
  by (auto simp: SetKernelArg_def bindE_eq_Inr)

lemma EnqueueKernel_eq_Inr:
  "EnqueueKernel k g l f = Inr f' \<longleftrightarrow>
     hardwareDevice f \<noteq> None
     \<and> (\<exists>args. kernelOf k f = Some args \<and> f' = logCall (EvEnqueueKernel k args g l) f)"
  by (auto simp: EnqueueKernel_def bindE_eq_Inr)

lemma FinishQueue_eq_Inr:
  "FinishQueue f = Inr f' \<longleftrightarrow> hardwareDevice f \<noteq> None \<and> f' = logCall EvFinishQueue f"
  by (auto simp: FinishQueue_def bindE_eq_Inr)

lemma SetVerbose_eq_Inr:
  "SetVerbose v f = Inr f' \<longleftrightarrow> (\<exists>cx. ctx f = Some cx \<and> f' = f\<lparr>ctx := Some (cx\<lparr>verbose := v\<rparr>)\<rparr>)"
  by (auto simp: SetVerbose_def bindE_eq_Inr)

lemma AllocBufferRW_eq_Inr:
  "AllocBufferRW b src sz desc f = Inr f' \<longleftrightarrow>
     hardwareDevice f \<noteq> None
     \<and> f' = setBuffer b (Some \<lparr>bufDesc = desc, bufSize = sz, bufReadOnly = False, bufSource = src\<rparr>)
               (logCall (EvAllocBufferRW b src sz desc) f)"
  by (auto simp: AllocBufferRW_def bindE_eq_Inr)

lemma AllocBufferRO_eq_Inr:
  "AllocBufferRO b src sz desc f = Inr f' \<longleftrightarrow>
     hardwareDevice f \<noteq> None
     \<and> f' = setBuffer b (Some \<lparr>bufDesc = desc, bufSize = sz, bufReadOnly = True, bufSource = src\<rparr>)
               (logCall (EvAllocBufferRO b src sz desc) f)"
  by (auto simp: AllocBufferRO_def bindE_eq_Inr)

lemma FreeBuffer_ok:
  "hardwareDevice f \<noteq> None \<Longrightarrow> FreeBuffer b f = Inr (setBuffer b None (logCall (EvFreeBuffer b) f))"
  by (auto simp: FreeBuffer_def)

section \<open>The merge\<close>

subsection \<open>One group\<close>

lemma bindScale_bindScale [simp]: "bindScale (bindScale args s) s' = bindScale args s'"
  by (simp add: bindScale_def)

lemma accumulateCalls_bindScale [simp]:
  "accumulateCalls k (bindScale args s) sz host scale n = accumulateCalls k args sz host scale n"
  by (simp add: accumulateCalls_def)

lemma perPixelCalls_bindScale [simp]:
  "perPixelCalls chans n ip (bindScale args s) = perPixelCalls chans n ip args"
  by (rule ext) (simp add: perPixelCalls_def)

lemma perScreenCalls_bindScale [simp]:
  "perScreenCalls chans n factor ip (bindScale args s) = perScreenCalls chans n factor ip args"
  by (rule ext) (simp add: perScreenCalls_def)

text \<open>
  A group that is not enabled leaves the film alone; an enabled one appends its five calls
  and leaves the scale bound in its kernel.
\<close>

lemma mergePerPixelGroup_result:
  assumes "mergePerPixelGroup ip i f = Inr f'"
  shows "(\<not> groupIsEnabled ip i \<and> f' = f)
       \<or> (groupIsEnabled ip i \<and> i < length (channel_RADIANCE_PER_PIXEL_NORMALIZEDs f)
           \<and> hardwareDevice f \<noteq> None \<and> hw_mergeBuffer f \<noteq> None
           \<and> (\<exists>args. mergeRADIANCE_PER_PIXEL_NORMALIZEDKernel f = Some args
                \<and> f' = f\<lparr>deviceLog := deviceLog f @ perPixelCalls (channel_RADIANCE_PER_PIXEL_NORMALIZEDs f) (pixelCount f) ip args i,
                        mergeRADIANCE_PER_PIXEL_NORMALIZEDKernel := Some (bindScale args (groupScaleOf ip i))\<rparr>))"
proof -
  from assms obtain en where en: "groupEnabled ip i = Inr en"
    and body: "(if en then
         bindE (vecAt (channel_RADIANCE_PER_PIXEL_NORMALIZEDs f) i) (\<lambda>ch.
         bindE (EnqueueWriteBuffer BUFFER_Merge False (GetSize ch) (HOST_RADIANCE_PER_PIXEL_NORMALIZED i) f) (\<lambda>f.
         bindE (groupScale ip i) (\<lambda>scale.
         bindE (SetKernelArg KERNEL_RADIANCE_PER_PIXEL_NORMALIZED 4 (ArgFloat (Spectrum_c scale 0)) f) (\<lambda>f.
         bindE (SetKernelArg KERNEL_RADIANCE_PER_PIXEL_NORMALIZED 5 (ArgFloat (Spectrum_c scale 1)) f) (\<lambda>f.
         bindE (SetKernelArg KERNEL_RADIANCE_PER_PIXEL_NORMALIZED 6 (ArgFloat (Spectrum_c scale 2)) f) (\<lambda>f.
         EnqueueKernel KERNEL_RADIANCE_PER_PIXEL_NORMALIZED (RoundUp (pixelCount f) 256) 256 f))))))
       else Inr f) = Inr f'"
    unfolding mergePerPixelGroup_def bindE_eq_Inr by blast
  have en': "en = groupIsEnabled ip i" using en by (rule groupEnabled_eq_Inr)
  show ?thesis
  proof (cases en)
    case False
    with body en' show ?thesis by simp
  next
    case True
    with body obtain f1 s f2 f3 f4 where
      i: "i < length (channel_RADIANCE_PER_PIXEL_NORMALIZEDs f)"
      and w: "EnqueueWriteBuffer BUFFER_Merge False (GetSize (channel_RADIANCE_PER_PIXEL_NORMALIZEDs f ! i)) (HOST_RADIANCE_PER_PIXEL_NORMALIZED i) f = Inr f1"
      and s: "groupScale ip i = Inr s"
      and a4: "SetKernelArg KERNEL_RADIANCE_PER_PIXEL_NORMALIZED 4 (ArgFloat (Spectrum_c s 0)) f1 = Inr f2"
      and a5: "SetKernelArg KERNEL_RADIANCE_PER_PIXEL_NORMALIZED 5 (ArgFloat (Spectrum_c s 1)) f2 = Inr f3"
      and a6: "SetKernelArg KERNEL_RADIANCE_PER_PIXEL_NORMALIZED 6 (ArgFloat (Spectrum_c s 2)) f3 = Inr f4"
      and k: "EnqueueKernel KERNEL_RADIANCE_PER_PIXEL_NORMALIZED (RoundUp (pixelCount f4) 256) 256 f4 = Inr f'"
      by (simp add: bindE_eq_Inr) blast
    have s': "s = groupScaleOf ip i" using s by (rule groupScale_eq_Inr)
    from w have d: "hardwareDevice f \<noteq> None" and b: "hw_mergeBuffer f \<noteq> None"
      and f1: "f1 = logCall (EvEnqueueWriteBuffer BUFFER_Merge False (GetSize (channel_RADIANCE_PER_PIXEL_NORMALIZEDs f ! i)) (HOST_RADIANCE_PER_PIXEL_NORMALIZED i)) f"
      by (simp_all add: EnqueueWriteBuffer_eq_Inr)
    from a4 obtain args where args: "mergeRADIANCE_PER_PIXEL_NORMALIZEDKernel f = Some args"
      and f2: "f2 = setKernel KERNEL_RADIANCE_PER_PIXEL_NORMALIZED (Some (args(4 \<mapsto> ArgFloat (Spectrum_c s 0)))) (logCall (EvSetKernelArg KERNEL_RADIANCE_PER_PIXEL_NORMALIZED 4 (ArgFloat (Spectrum_c s 0))) f1)"
      by (auto simp: SetKernelArg_eq_Inr f1 logCall_def)
    from a5 have f3: "f3 = setKernel KERNEL_RADIANCE_PER_PIXEL_NORMALIZED (Some (args(4 \<mapsto> ArgFloat (Spectrum_c s 0), 5 \<mapsto> ArgFloat (Spectrum_c s 1)))) (logCall (EvSetKernelArg KERNEL_RADIANCE_PER_PIXEL_NORMALIZED 5 (ArgFloat (Spectrum_c s 1))) f2)"
      by (auto simp: SetKernelArg_eq_Inr f2 logCall_def)
    from a6 have f4: "f4 = setKernel KERNEL_RADIANCE_PER_PIXEL_NORMALIZED (Some (bindScale args s)) (logCall (EvSetKernelArg KERNEL_RADIANCE_PER_PIXEL_NORMALIZED 6 (ArgFloat (Spectrum_c s 2))) f3)"
      by (auto simp: SetKernelArg_eq_Inr f3 logCall_def bindScale_def)
    from k have f': "f' = logCall (EvEnqueueKernel KERNEL_RADIANCE_PER_PIXEL_NORMALIZED (bindScale args s) (RoundUp (pixelCount f4) 256) 256) f4"
      by (auto simp: EnqueueKernel_eq_Inr f4 logCall_def)
    have "f' = f\<lparr>deviceLog := deviceLog f @ perPixelCalls (channel_RADIANCE_PER_PIXEL_NORMALIZEDs f) (pixelCount f) ip args i,
                        mergeRADIANCE_PER_PIXEL_NORMALIZEDKernel := Some (bindScale args (groupScaleOf ip i))\<rparr>"
      unfolding f' f4 f3 f2 f1 s'
      by (simp add: logCall_def perPixelCalls_def accumulateCalls_def)
    with True en' i d b args show ?thesis by simp
  qed
qed

lemma mergePerScreenGroup_result:
  assumes "mergePerScreenGroup ip factor i f = Inr f'"
  shows "(\<not> groupIsEnabled ip i \<and> f' = f)
       \<or> (groupIsEnabled ip i \<and> i < length (channel_RADIANCE_PER_SCREEN_NORMALIZEDs f)
           \<and> hardwareDevice f \<noteq> None \<and> hw_mergeBuffer f \<noteq> None
           \<and> (\<exists>args. mergeRADIANCE_PER_SCREEN_NORMALIZEDKernel f = Some args
                \<and> f' = f\<lparr>deviceLog := deviceLog f @ perScreenCalls (channel_RADIANCE_PER_SCREEN_NORMALIZEDs f) (pixelCount f) factor ip args i,
                        mergeRADIANCE_PER_SCREEN_NORMALIZEDKernel := Some (bindScale args (scaleSpectrum factor (groupScaleOf ip i)))\<rparr>))"
proof -
  from assms obtain en where en: "groupEnabled ip i = Inr en"
    and body: "(if en then
         bindE (vecAt (channel_RADIANCE_PER_SCREEN_NORMALIZEDs f) i) (\<lambda>ch.
         bindE (EnqueueWriteBuffer BUFFER_Merge False (GetSize ch) (HOST_RADIANCE_PER_SCREEN_NORMALIZED i) f) (\<lambda>f.
         bindE (groupScale ip i) (\<lambda>s.
         let scale = scaleSpectrum factor s in
         bindE (SetKernelArg KERNEL_RADIANCE_PER_SCREEN_NORMALIZED 4 (ArgFloat (Spectrum_c scale 0)) f) (\<lambda>f.
         bindE (SetKernelArg KERNEL_RADIANCE_PER_SCREEN_NORMALIZED 5 (ArgFloat (Spectrum_c scale 1)) f) (\<lambda>f.
         bindE (SetKernelArg KERNEL_RADIANCE_PER_SCREEN_NORMALIZED 6 (ArgFloat (Spectrum_c scale 2)) f) (\<lambda>f.
         EnqueueKernel KERNEL_RADIANCE_PER_SCREEN_NORMALIZED (RoundUp (pixelCount f) 256) 256 f))))))
       else Inr f) = Inr f'"
    unfolding mergePerScreenGroup_def bindE_eq_Inr by blast
  have en': "en = groupIsEnabled ip i" using en by (rule groupEnabled_eq_Inr)
  show ?thesis
  proof (cases en)
    case False
    with body en' show ?thesis by simp
  next
    case True
    with body obtain f1 s f2 f3 f4 where
      i: "i < length (channel_RADIANCE_PER_SCREEN_NORMALIZEDs f)"
      and w: "EnqueueWriteBuffer BUFFER_Merge False (GetSize (channel_RADIANCE_PER_SCREEN_NORMALIZEDs f ! i)) (HOST_RADIANCE_PER_SCREEN_NORMALIZED i) f = Inr f1"
      and s: "groupScale ip i = Inr s"
      and a4: "SetKernelArg KERNEL_RADIANCE_PER_SCREEN_NORMALIZED 4 (ArgFloat (Spectrum_c (scaleSpectrum factor s) 0)) f1 = Inr f2"
      and a5: "SetKernelArg KERNEL_RADIANCE_PER_SCREEN_NORMALIZED 5 (ArgFloat (Spectrum_c (scaleSpectrum factor s) 1)) f2 = Inr f3"
      and a6: "SetKernelArg KERNEL_RADIANCE_PER_SCREEN_NORMALIZED 6 (ArgFloat (Spectrum_c (scaleSpectrum factor s) 2)) f3 = Inr f4"
      and k: "EnqueueKernel KERNEL_RADIANCE_PER_SCREEN_NORMALIZED (RoundUp (pixelCount f4) 256) 256 f4 = Inr f'"
      by (simp add: bindE_eq_Inr Let_def) blast
    have s': "s = groupScaleOf ip i" using s by (rule groupScale_eq_Inr)
    from w have d: "hardwareDevice f \<noteq> None" and b: "hw_mergeBuffer f \<noteq> None"
      and f1: "f1 = logCall (EvEnqueueWriteBuffer BUFFER_Merge False (GetSize (channel_RADIANCE_PER_SCREEN_NORMALIZEDs f ! i)) (HOST_RADIANCE_PER_SCREEN_NORMALIZED i)) f"
      by (simp_all add: EnqueueWriteBuffer_eq_Inr)
    from a4 obtain args where args: "mergeRADIANCE_PER_SCREEN_NORMALIZEDKernel f = Some args"
      and f2: "f2 = setKernel KERNEL_RADIANCE_PER_SCREEN_NORMALIZED (Some (args(4 \<mapsto> ArgFloat (Spectrum_c (scaleSpectrum factor s) 0)))) (logCall (EvSetKernelArg KERNEL_RADIANCE_PER_SCREEN_NORMALIZED 4 (ArgFloat (Spectrum_c (scaleSpectrum factor s) 0))) f1)"
      by (auto simp: SetKernelArg_eq_Inr f1 logCall_def)
    from a5 have f3: "f3 = setKernel KERNEL_RADIANCE_PER_SCREEN_NORMALIZED (Some (args(4 \<mapsto> ArgFloat (Spectrum_c (scaleSpectrum factor s) 0), 5 \<mapsto> ArgFloat (Spectrum_c (scaleSpectrum factor s) 1)))) (logCall (EvSetKernelArg KERNEL_RADIANCE_PER_SCREEN_NORMALIZED 5 (ArgFloat (Spectrum_c (scaleSpectrum factor s) 1))) f2)"
      by (auto simp: SetKernelArg_eq_Inr f2 logCall_def)
    from a6 have f4: "f4 = setKernel KERNEL_RADIANCE_PER_SCREEN_NORMALIZED (Some (bindScale args (scaleSpectrum factor s))) (logCall (EvSetKernelArg KERNEL_RADIANCE_PER_SCREEN_NORMALIZED 6 (ArgFloat (Spectrum_c (scaleSpectrum factor s) 2))) f3)"
      by (auto simp: SetKernelArg_eq_Inr f3 logCall_def bindScale_def)
    from k have f': "f' = logCall (EvEnqueueKernel KERNEL_RADIANCE_PER_SCREEN_NORMALIZED (bindScale args (scaleSpectrum factor s)) (RoundUp (pixelCount f4) 256) 256) f4"
      by (auto simp: EnqueueKernel_eq_Inr f4 logCall_def)
    have "f' = f\<lparr>deviceLog := deviceLog f @ perScreenCalls (channel_RADIANCE_PER_SCREEN_NORMALIZEDs f) (pixelCount f) factor ip args i,
                        mergeRADIANCE_PER_SCREEN_NORMALIZEDKernel := Some (bindScale args (scaleSpectrum factor (groupScaleOf ip i)))\<rparr>"
      unfolding f' f4 f3 f2 f1 s'
      by (simp add: logCall_def perScreenCalls_def accumulateCalls_def)
    with True en' i d b args show ?thesis by simp
  qed
qed

subsection \<open>The two loops\<close>

text \<open>
  Induction over the group indices still to visit, for any film the loop is entered with.
  The bindings of slots 0 to 3 are those of the film before the loop, so each dispatch is
  described from that film.
\<close>

lemma forE_mergePerPixelGroup:
  assumes "forE is (mergePerPixelGroup ip) f = Inr f'"
  shows "f' = f\<lparr>deviceLog := deviceLog f @
                  concat (map (perPixelCalls (channel_RADIANCE_PER_PIXEL_NORMALIZEDs f) (pixelCount f) ip
                                 (the (mergeRADIANCE_PER_PIXEL_NORMALIZEDKernel f)))
                              (filter (groupIsEnabled ip) is)),
                mergeRADIANCE_PER_PIXEL_NORMALIZEDKernel := mergeRADIANCE_PER_PIXEL_NORMALIZEDKernel f'\<rparr>
          \<and> (mergeRADIANCE_PER_PIXEL_NORMALIZEDKernel f' = mergeRADIANCE_PER_PIXEL_NORMALIZEDKernel f
               \<or> (\<exists>a s. mergeRADIANCE_PER_PIXEL_NORMALIZEDKernel f = Some a
                     \<and> mergeRADIANCE_PER_PIXEL_NORMALIZEDKernel f' = Some (bindScale a s)))
          \<and> (\<forall>i\<in>set is. groupIsEnabled ip i \<longrightarrow>
                i < length (channel_RADIANCE_PER_PIXEL_NORMALIZEDs f) \<and> hw_mergeBuffer f \<noteq> None)"
  using assms
proof (induction "is" arbitrary: f)
  case Nil
  then have "f' = f" by simp
  then show ?case by simp
next
  case (Cons i "is")
  from Cons.prems obtain f1 where b: "mergePerPixelGroup ip i f = Inr f1"
    and r: "forE is (mergePerPixelGroup ip) f1 = Inr f'"
    unfolding forE_Cons_eq_Inr by blast
  let ?kp = "mergeRADIANCE_PER_PIXEL_NORMALIZEDKernel f'"
  from Cons.IH [OF r] have
    f': "f' = f1\<lparr>deviceLog := deviceLog f1 @
                  concat (map (perPixelCalls (channel_RADIANCE_PER_PIXEL_NORMALIZEDs f1) (pixelCount f1) ip
                                 (the (mergeRADIANCE_PER_PIXEL_NORMALIZEDKernel f1)))
                              (filter (groupIsEnabled ip) is)),
                mergeRADIANCE_PER_PIXEL_NORMALIZEDKernel := ?kp\<rparr>"
    and kp: "?kp = mergeRADIANCE_PER_PIXEL_NORMALIZEDKernel f1
               \<or> (\<exists>a s. mergeRADIANCE_PER_PIXEL_NORMALIZEDKernel f1 = Some a \<and> ?kp = Some (bindScale a s))"
    and rng: "\<forall>i\<in>set is. groupIsEnabled ip i \<longrightarrow>
                i < length (channel_RADIANCE_PER_PIXEL_NORMALIZEDs f1) \<and> hw_mergeBuffer f1 \<noteq> None"
    by blast+
  from mergePerPixelGroup_result [OF b] show ?case
  proof (elim disjE conjE exE)
    assume "\<not> groupIsEnabled ip i" "f1 = f"
    with f' kp rng show ?thesis by simp
  next
    fix args
    assume en: "groupIsEnabled ip i"
      and i: "i < length (channel_RADIANCE_PER_PIXEL_NORMALIZEDs f)"
      and mb: "hw_mergeBuffer f \<noteq> None"
      and args: "mergeRADIANCE_PER_PIXEL_NORMALIZEDKernel f = Some args"
      and f1: "f1 = f\<lparr>deviceLog := deviceLog f @ perPixelCalls (channel_RADIANCE_PER_PIXEL_NORMALIZEDs f) (pixelCount f) ip args i,
                        mergeRADIANCE_PER_PIXEL_NORMALIZEDKernel := Some (bindScale args (groupScaleOf ip i))\<rparr>"
    have "f' = f\<lparr>deviceLog := (deviceLog f @ perPixelCalls (channel_RADIANCE_PER_PIXEL_NORMALIZEDs f) (pixelCount f) ip args i) @
                  concat (map (perPixelCalls (channel_RADIANCE_PER_PIXEL_NORMALIZEDs f) (pixelCount f) ip args)
                              (filter (groupIsEnabled ip) is)),
                mergeRADIANCE_PER_PIXEL_NORMALIZEDKernel := ?kp\<rparr>"
      by (subst f', simp add: f1)
    then have eq: "f' = f\<lparr>deviceLog := deviceLog f @
                  concat (map (perPixelCalls (channel_RADIANCE_PER_PIXEL_NORMALIZEDs f) (pixelCount f) ip
                                 (the (mergeRADIANCE_PER_PIXEL_NORMALIZEDKernel f)))
                              (filter (groupIsEnabled ip) (i # is))),
                mergeRADIANCE_PER_PIXEL_NORMALIZEDKernel := ?kp\<rparr>"
      using en args by simp
    from kp have "\<exists>a s. mergeRADIANCE_PER_PIXEL_NORMALIZEDKernel f = Some a \<and> ?kp = Some (bindScale a s)"
    proof
      assume "?kp = mergeRADIANCE_PER_PIXEL_NORMALIZEDKernel f1"
      then have "?kp = Some (bindScale args (groupScaleOf ip i))"
        by (simp add: f1)
      with args show ?thesis by blast
    next
      assume "\<exists>a s. mergeRADIANCE_PER_PIXEL_NORMALIZEDKernel f1 = Some a \<and> ?kp = Some (bindScale a s)"
      then obtain a s where a: "mergeRADIANCE_PER_PIXEL_NORMALIZEDKernel f1 = Some a"
        and k: "?kp = Some (bindScale a s)" by blast
      from a have "a = bindScale args (groupScaleOf ip i)"
        by (simp add: f1)
      with k have "?kp = Some (bindScale args s)" by simp
      with args show ?thesis by blast
    qed
    moreover from rng i mb have "\<forall>i\<in>set (i # is). groupIsEnabled ip i \<longrightarrow>
                i < length (channel_RADIANCE_PER_PIXEL_NORMALIZEDs f) \<and> hw_mergeBuffer f \<noteq> None"
      by (simp add: f1)
    ultimately show ?thesis using eq by blast
  qed
qed

lemma forE_mergePerScreenGroup:
  assumes "forE is (mergePerScreenGroup ip factor) f = Inr f'"
  shows "f' = f\<lparr>deviceLog := deviceLog f @
                  concat (map (perScreenCalls (channel_RADIANCE_PER_SCREEN_NORMALIZEDs f) (pixelCount f) factor ip
                                 (the (mergeRADIANCE_PER_SCREEN_NORMALIZEDKernel f)))
                              (filter (groupIsEnabled ip) is)),
                mergeRADIANCE_PER_SCREEN_NORMALIZEDKernel := mergeRADIANCE_PER_SCREEN_NORMALIZEDKernel f'\<rparr>
          \<and> (mergeRADIANCE_PER_SCREEN_NORMALIZEDKernel f' = mergeRADIANCE_PER_SCREEN_NORMALIZEDKernel f
               \<or> (\<exists>a s. mergeRADIANCE_PER_SCREEN_NORMALIZEDKernel f = Some a
                     \<and> mergeRADIANCE_PER_SCREEN_NORMALIZEDKernel f' = Some (bindScale a s)))
          \<and> (\<forall>i\<in>set is. groupIsEnabled ip i \<longrightarrow>
                i < length (channel_RADIANCE_PER_SCREEN_NORMALIZEDs f) \<and> hw_mergeBuffer f \<noteq> None)"
  using assms
proof (induction "is" arbitrary: f)
  case Nil
  then have "f' = f" by simp
  then show ?case by simp
next
  case (Cons i "is")
  from Cons.prems obtain f1 where b: "mergePerScreenGroup ip factor i f = Inr f1"
    and r: "forE is (mergePerScreenGroup ip factor) f1 = Inr f'"
    unfolding forE_Cons_eq_Inr by blast
  let ?kp = "mergeRADIANCE_PER_SCREEN_NORMALIZEDKernel f'"
  from Cons.IH [OF r] have
    f': "f' = f1\<lparr>deviceLog := deviceLog f1 @
                  concat (map (perScreenCalls (channel_RADIANCE_PER_SCREEN_NORMALIZEDs f1) (pixelCount f1) factor ip
                                 (the (mergeRADIANCE_PER_SCREEN_NORMALIZEDKernel f1)))
                              (filter (groupIsEnabled ip) is)),
                mergeRADIANCE_PER_SCREEN_NORMALIZEDKernel := ?kp\<rparr>"
    and kp: "?kp = mergeRADIANCE_PER_SCREEN_NORMALIZEDKernel f1
               \<or> (\<exists>a s. mergeRADIANCE_PER_SCREEN_NORMALIZEDKernel f1 = Some a \<and> ?kp = Some (bindScale a s))"
    and rng: "\<forall>i\<in>set is. groupIsEnabled ip i \<longrightarrow>
                i < length (channel_RADIANCE_PER_SCREEN_NORMALIZEDs f1) \<and> hw_mergeBuffer f1 \<noteq> None"
    by blast+
  from mergePerScreenGroup_result [OF b] show ?case
  proof (elim disjE conjE exE)
    assume "\<not> groupIsEnabled ip i" "f1 = f"
    with f' kp rng show ?thesis by simp
  next
    fix args
    assume en: "groupIsEnabled ip i"
      and i: "i < length (channel_RADIANCE_PER_SCREEN_NORMALIZEDs f)"
      and mb: "hw_mergeBuffer f \<noteq> None"
      and args: "mergeRADIANCE_PER_SCREEN_NORMALIZEDKernel f = Some args"
      and f1: "f1 = f\<lparr>deviceLog := deviceLog f @ perScreenCalls (channel_RADIANCE_PER_SCREEN_NORMALIZEDs f) (pixelCount f) factor ip args i,
                        mergeRADIANCE_PER_SCREEN_NORMALIZEDKernel := Some (bindScale args (scaleSpectrum factor (groupScaleOf ip i)))\<rparr>"
    have "f' = f\<lparr>deviceLog := (deviceLog f @ perScreenCalls (channel_RADIANCE_PER_SCREEN_NORMALIZEDs f) (pixelCount f) factor ip args i) @
                  concat (map (perScreenCalls (channel_RADIANCE_PER_SCREEN_NORMALIZEDs f) (pixelCount f) factor ip args)
                              (filter (groupIsEnabled ip) is)),
                mergeRADIANCE_PER_SCREEN_NORMALIZEDKernel := ?kp\<rparr>"
      by (subst f', simp add: f1)
    then have eq: "f' = f\<lparr>deviceLog := deviceLog f @
                  concat (map (perScreenCalls (channel_RADIANCE_PER_SCREEN_NORMALIZEDs f) (pixelCount f) factor ip
                                 (the (mergeRADIANCE_PER_SCREEN_NORMALIZEDKernel f)))
                              (filter (groupIsEnabled ip) (i # is))),
                mergeRADIANCE_PER_SCREEN_NORMALIZEDKernel := ?kp\<rparr>"
      using en args by simp
    from kp have "\<exists>a s. mergeRADIANCE_PER_SCREEN_NORMALIZEDKernel f = Some a \<and> ?kp = Some (bindScale a s)"
    proof
      assume "?kp = mergeRADIANCE_PER_SCREEN_NORMALIZEDKernel f1"
      then have "?kp = Some (bindScale args (scaleSpectrum factor (groupScaleOf ip i)))"
        by (simp add: f1)
      with args show ?thesis by blast
    next
      assume "\<exists>a s. mergeRADIANCE_PER_SCREEN_NORMALIZEDKernel f1 = Some a \<and> ?kp = Some (bindScale a s)"
      then obtain a s where a: "mergeRADIANCE_PER_SCREEN_NORMALIZEDKernel f1 = Some a"
        and k: "?kp = Some (bindScale a s)" by blast
      from a have "a = bindScale args (scaleSpectrum factor (groupScaleOf ip i))"
        by (simp add: f1)
      with k have "?kp = Some (bindScale args s)" by simp
      with args show ?thesis by blast
    qed
    moreover from rng i mb have "\<forall>i\<in>set (i # is). groupIsEnabled ip i \<longrightarrow>
                i < length (channel_RADIANCE_PER_SCREEN_NORMALIZEDs f) \<and> hw_mergeBuffer f \<noteq> None"
      by (simp add: f1)
    ultimately show ?thesis using eq by blast
  qed
qed

subsection \<open>The whole merge\<close>

text \<open>
  A merge that returns has appended \<open>expectedMergeCalls\<close> to the log, has changed the
  bindings of the two accumulate kernels and the pixels of the target channel, and nothing
  else.
\<close>

lemma MergeSampleBuffersHW_result:
  assumes "MergeSampleBuffersHW d idx f = Inr f'"
  shows "f' = f\<lparr>deviceLog := deviceLog f @ expectedMergeCalls f idx,
               mergeRADIANCE_PER_PIXEL_NORMALIZEDKernel := mergeRADIANCE_PER_PIXEL_NORMALIZEDKernel f',
               mergeRADIANCE_PER_SCREEN_NORMALIZEDKernel := mergeRADIANCE_PER_SCREEN_NORMALIZEDKernel f',
               channel_IMAGEPIPELINEs :=
                 (channel_IMAGEPIPELINEs f)[idx := (channel_IMAGEPIPELINEs f ! idx)\<lparr>GetPixels := d\<rparr>]\<rparr>"
    and "idx < length (channel_IMAGEPIPELINEs f)"
    and "hardwareDevice f \<noteq> None"
    and "hw_IMAGEPIPELINE f \<noteq> None"
    and "mergeInitializeKernel f \<noteq> None"
    and "mergeFinalizeKernel f \<noteq> None"
    and "HasChannel f RADIANCE_PER_PIXEL_NORMALIZED \<Longrightarrow>
         \<forall>i<radianceGroupCount f. groupIsEnabled (imagePipelineAt f idx) i \<longrightarrow>
           i < length (channel_RADIANCE_PER_PIXEL_NORMALIZEDs f) \<and> hw_mergeBuffer f \<noteq> None"
    and "HasChannel f RADIANCE_PER_SCREEN_NORMALIZED \<Longrightarrow>
         \<forall>i<radianceGroupCount f. groupIsEnabled (imagePipelineAt f idx) i \<longrightarrow>
           i < length (channel_RADIANCE_PER_SCREEN_NORMALIZEDs f) \<and> hw_mergeBuffer f \<noteq> None"
proof -
  let ?ip = "imagePipelineAt f idx"
  let ?n = "RoundUp (pixelCount f) 256"
  let ?sz = "GetSize (channel_IMAGEPIPELINEs f ! idx)"
  from assms obtain f1 f2 f3 f4 f5 f6 where
    idx: "idx < length (channel_IMAGEPIPELINEs f)"
    and s1: "EnqueueWriteBuffer BUFFER_IMAGEPIPELINE False ?sz (HOST_IMAGEPIPELINE idx) f = Inr f1"
    and s2: "EnqueueKernel KERNEL_Initialize (RoundUp (pixelCount f1) 256) 256 f1 = Inr f2"
    and s3: "(if HasChannel f2 RADIANCE_PER_PIXEL_NORMALIZED then
               forE [0..<radianceGroupCount f2] (mergePerPixelGroup ?ip) f2
             else Inr f2) = Inr f3"
    and s4: "(if HasChannel f3 RADIANCE_PER_SCREEN_NORMALIZED then
                forE [0..<radianceGroupCount f3]
                  (mergePerScreenGroup ?ip (normalizationFactor (pixelCount f3) (samplesCounts f3))) f3
             else Inr f3) = Inr f4"
    and s5: "EnqueueKernel KERNEL_Finalize (RoundUp (pixelCount f4) 256) 256 f4 = Inr f5"
    and idx5: "idx < length (channel_IMAGEPIPELINEs f5)"
    and s6: "EnqueueReadBuffer BUFFER_IMAGEPIPELINE False (GetSize (channel_IMAGEPIPELINEs f5 ! idx))
               (HOST_IMAGEPIPELINE idx) d f5 = Inr f6"
    and s7: "FinishQueue f6 = Inr f'"
    unfolding MergeSampleBuffersHW_def imagePipelineAt_def Let_def bindE_eq_Inr vecAt_eq_Inr
    by blast
  from s1 have dev: "hardwareDevice f \<noteq> None" and buf: "hw_IMAGEPIPELINE f \<noteq> None"
    and f1: "f1 = f\<lparr>deviceLog := deviceLog f @ [EvEnqueueWriteBuffer BUFFER_IMAGEPIPELINE False ?sz (HOST_IMAGEPIPELINE idx)]\<rparr>"
    by (simp_all add: EnqueueWriteBuffer_eq_Inr logCall_def)
  from s2 obtain ki where ki: "mergeInitializeKernel f = Some ki"
    and f2: "f2 = f\<lparr>deviceLog := deviceLog f @ [EvEnqueueWriteBuffer BUFFER_IMAGEPIPELINE False ?sz (HOST_IMAGEPIPELINE idx),
                                              EvEnqueueKernel KERNEL_Initialize ki ?n 256]\<rparr>"
    by (auto simp: EnqueueKernel_eq_Inr logCall_def f1)
  have rpp: "\<forall>i<radianceGroupCount f. groupIsEnabled ?ip i \<longrightarrow>
           i < length (channel_RADIANCE_PER_PIXEL_NORMALIZEDs f) \<and> hw_mergeBuffer f \<noteq> None"
    if "HasChannel f RADIANCE_PER_PIXEL_NORMALIZED"
  proof -
    from that have "forE [0..<radianceGroupCount f2] (mergePerPixelGroup ?ip) f2 = Inr f3"
      using s3 by (simp add: f2 HasChannel_def)
    from forE_mergePerPixelGroup [OF this] show ?thesis by (simp add: f2)
  qed
  have "\<exists>kp. f3 = f2\<lparr>deviceLog := deviceLog f2 @ perPixelSection f ?ip,
                    mergeRADIANCE_PER_PIXEL_NORMALIZEDKernel := kp\<rparr>"
  proof (cases "HasChannel f RADIANCE_PER_PIXEL_NORMALIZED")
    case True
    then have "forE [0..<radianceGroupCount f2] (mergePerPixelGroup ?ip) f2 = Inr f3"
      using s3 by (simp add: f2 HasChannel_def)
    from forE_mergePerPixelGroup [OF this] True
    have "f3 = f2\<lparr>deviceLog := deviceLog f2 @ perPixelSection f ?ip,
                    mergeRADIANCE_PER_PIXEL_NORMALIZEDKernel := mergeRADIANCE_PER_PIXEL_NORMALIZEDKernel f3\<rparr>"
      by (simp add: perPixelSection_def f2)
    then show ?thesis by (rule exI)
  next
    case False
    then have "f3 = f2" using s3 by (simp add: f2 HasChannel_def)
    with False have "f3 = f2\<lparr>deviceLog := deviceLog f2 @ perPixelSection f ?ip,
                    mergeRADIANCE_PER_PIXEL_NORMALIZEDKernel := mergeRADIANCE_PER_PIXEL_NORMALIZEDKernel f2\<rparr>"
      by (simp add: perPixelSection_def)
    then show ?thesis by (rule exI)
  qed
  then obtain kp where f3: "f3 = f2\<lparr>deviceLog := deviceLog f2 @ perPixelSection f ?ip,
                    mergeRADIANCE_PER_PIXEL_NORMALIZEDKernel := kp\<rparr>"
    by blast
  have rps: "\<forall>i<radianceGroupCount f. groupIsEnabled ?ip i \<longrightarrow>
           i < length (channel_RADIANCE_PER_SCREEN_NORMALIZEDs f) \<and> hw_mergeBuffer f \<noteq> None"
    if "HasChannel f RADIANCE_PER_SCREEN_NORMALIZED"
  proof -
    from that have "forE [0..<radianceGroupCount f3]
                  (mergePerScreenGroup ?ip (normalizationFactor (pixelCount f3) (samplesCounts f3))) f3 = Inr f4"
      using s4 by (simp add: f3 f2 HasChannel_def)
    from forE_mergePerScreenGroup [OF this] show ?thesis by (simp add: f3 f2)
  qed
  have "\<exists>ks. f4 = f3\<lparr>deviceLog := deviceLog f3 @ perScreenSection f ?ip,
                    mergeRADIANCE_PER_SCREEN_NORMALIZEDKernel := ks\<rparr>"
  proof (cases "HasChannel f RADIANCE_PER_SCREEN_NORMALIZED")
    case True
    then have "forE [0..<radianceGroupCount f3]
                  (mergePerScreenGroup ?ip (normalizationFactor (pixelCount f3) (samplesCounts f3))) f3 = Inr f4"
      using s4 by (simp add: f3 f2 HasChannel_def)
    from forE_mergePerScreenGroup [OF this] True
    have "f4 = f3\<lparr>deviceLog := deviceLog f3 @ perScreenSection f ?ip,
                    mergeRADIANCE_PER_SCREEN_NORMALIZEDKernel := mergeRADIANCE_PER_SCREEN_NORMALIZEDKernel f4\<rparr>"
      by (simp add: perScreenSection_def f3 f2)
    then show ?thesis by (rule exI)
  next
    case False
    then have "f4 = f3" using s4 by (simp add: f3 f2 HasChannel_def)
    with False have "f4 = f3\<lparr>deviceLog := deviceLog f3 @ perScreenSection f ?ip,
                    mergeRADIANCE_PER_SCREEN_NORMALIZEDKernel := mergeRADIANCE_PER_SCREEN_NORMALIZEDKernel f3\<rparr>"
      by (simp add: perScreenSection_def)
    then show ?thesis by (rule exI)
  qed
  then obtain ks where f4: "f4 = f3\<lparr>deviceLog := deviceLog f3 @ perScreenSection f ?ip,
                    mergeRADIANCE_PER_SCREEN_NORMALIZEDKernel := ks\<rparr>"
    by blast
  from s5 obtain kfin where kfin: "mergeFinalizeKernel f = Some kfin"
    and f5: "f5 = f4\<lparr>deviceLog := deviceLog f4 @ [EvEnqueueKernel KERNEL_Finalize kfin ?n 256]\<rparr>"
    by (auto simp: EnqueueKernel_eq_Inr logCall_def f4 f3 f2)
  from s6 have f6: "f6 = writeHost (HOST_IMAGEPIPELINE idx) d
       (f5\<lparr>deviceLog := deviceLog f5 @ [EvEnqueueReadBuffer BUFFER_IMAGEPIPELINE False ?sz (HOST_IMAGEPIPELINE idx)]\<rparr>)"
    by (simp add: EnqueueReadBuffer_eq_Inr logCall_def f5 f4 f3 f2)
  from s7 have f': "f' = f6\<lparr>deviceLog := deviceLog f6 @ [EvFinishQueue]\<rparr>"
    by (simp add: FinishQueue_eq_Inr logCall_def)
  have full: "f' = f\<lparr>deviceLog := deviceLog f @ expectedMergeCalls f idx,
               mergeRADIANCE_PER_PIXEL_NORMALIZEDKernel := kp,
               mergeRADIANCE_PER_SCREEN_NORMALIZEDKernel := ks,
               channel_IMAGEPIPELINEs :=
                 (channel_IMAGEPIPELINEs f)[idx := (channel_IMAGEPIPELINEs f ! idx)\<lparr>GetPixels := d\<rparr>]\<rparr>"
    by (simp add: f' f6 f5 f4 f3 f2 expectedMergeCalls_def ki kfin)
  have "mergeRADIANCE_PER_PIXEL_NORMALIZEDKernel f' = kp"
    and "mergeRADIANCE_PER_SCREEN_NORMALIZEDKernel f' = ks"
    by (simp_all add: full)
  with full show "f' = f\<lparr>deviceLog := deviceLog f @ expectedMergeCalls f idx,
               mergeRADIANCE_PER_PIXEL_NORMALIZEDKernel := mergeRADIANCE_PER_PIXEL_NORMALIZEDKernel f',
               mergeRADIANCE_PER_SCREEN_NORMALIZEDKernel := mergeRADIANCE_PER_SCREEN_NORMALIZEDKernel f',
               channel_IMAGEPIPELINEs :=
                 (channel_IMAGEPIPELINEs f)[idx := (channel_IMAGEPIPELINEs f ! idx)\<lparr>GetPixels := d\<rparr>]\<rparr>"
    by simp
  show "idx < length (channel_IMAGEPIPELINEs f)" by (rule idx)
  show "hardwareDevice f \<noteq> None" by (rule dev)
  show "hw_IMAGEPIPELINE f \<noteq> None" by (rule buf)
  show "mergeInitializeKernel f \<noteq> None" using ki by simp
  show "mergeFinalizeKernel f \<noteq> None" using kfin by simp
  show "\<forall>i<radianceGroupCount f. groupIsEnabled (imagePipelineAt f idx) i \<longrightarrow>
           i < length (channel_RADIANCE_PER_PIXEL_NORMALIZEDs f) \<and> hw_mergeBuffer f \<noteq> None"
    if "HasChannel f RADIANCE_PER_PIXEL_NORMALIZED" using that by (rule rpp)
  show "\<forall>i<radianceGroupCount f. groupIsEnabled (imagePipelineAt f idx) i \<longrightarrow>
           i < length (channel_RADIANCE_PER_SCREEN_NORMALIZEDs f) \<and> hw_mergeBuffer f \<noteq> None"
    if "HasChannel f RADIANCE_PER_SCREEN_NORMALIZED" using that by (rule rps)
qed

lemma newCalls_result [simp]: "newCalls f (f\<lparr>deviceLog := deviceLog f @ xs\<rparr>) = xs"
  by (simp add: newCalls_def)

lemma MergeSampleBuffersHW_newCalls:
  assumes "MergeSampleBuffersHW d idx f = Inr f'"
  shows "deviceLog f' = deviceLog f @ expectedMergeCalls f idx"
    and "newCalls f f' = expectedMergeCalls f idx"
proof -
  from MergeSampleBuffersHW_result(1) [OF assms]
  have "deviceLog f' = deviceLog (f\<lparr>deviceLog := deviceLog f @ expectedMergeCalls f idx,
               mergeRADIANCE_PER_PIXEL_NORMALIZEDKernel := mergeRADIANCE_PER_PIXEL_NORMALIZEDKernel f',
               mergeRADIANCE_PER_SCREEN_NORMALIZEDKernel := mergeRADIANCE_PER_SCREEN_NORMALIZEDKernel f',
               channel_IMAGEPIPELINEs :=
                 (channel_IMAGEPIPELINEs f)[idx := (channel_IMAGEPIPELINEs f ! idx)\<lparr>GetPixels := d\<rparr>]\<rparr>)"
    by simp
  then show "deviceLog f' = deviceLog f @ expectedMergeCalls f idx" by simp
  then show "newCalls f f' = expectedMergeCalls f idx" by (simp add: newCalls_def)
qed

lemma MergeSampleBuffersHW_host:
  assumes "MergeSampleBuffersHW d idx f = Inr f'"
  shows "channel_ALPHA f' = channel_ALPHA f"
    and "channel_OBJECT_ID f' = channel_OBJECT_ID f"
    and "channel_RADIANCE_PER_PIXEL_NORMALIZEDs f' = channel_RADIANCE_PER_PIXEL_NORMALIZEDs f"
    and "channel_RADIANCE_PER_SCREEN_NORMALIZEDs f' = channel_RADIANCE_PER_SCREEN_NORMALIZEDs f"
    and "channel_IMAGEPIPELINEs f' =
           (channel_IMAGEPIPELINEs f)[idx := (channel_IMAGEPIPELINEs f ! idx)\<lparr>GetPixels := d\<rparr>]"
  by (subst MergeSampleBuffersHW_result(1) [OF assms], simp)+

subsection \<open>The merge returns on a ready film\<close>

lemma mergePerPixelGroup_ok:
  assumes "hardwareDevice f \<noteq> None" "hw_mergeBuffer f \<noteq> None"
    and "mergeRADIANCE_PER_PIXEL_NORMALIZEDKernel f \<noteq> None"
    and "i < length (channel_RADIANCE_PER_PIXEL_NORMALIZEDs f)"
    and "scalesInRange ip n" "i < n"
  shows "\<exists>f'. mergePerPixelGroup ip i f = Inr f'"
  using assms
  by (auto simp: mergePerPixelGroup_def groupEnabled_ok groupScale_ok EnqueueWriteBuffer_def
        SetKernelArg_def EnqueueKernel_def logCall_def)

lemma mergePerScreenGroup_ok:
  assumes "hardwareDevice f \<noteq> None" "hw_mergeBuffer f \<noteq> None"
    and "mergeRADIANCE_PER_SCREEN_NORMALIZEDKernel f \<noteq> None"
    and "i < length (channel_RADIANCE_PER_SCREEN_NORMALIZEDs f)"
    and "scalesInRange ip n" "i < n"
  shows "\<exists>f'. mergePerScreenGroup ip factor i f = Inr f'"
  using assms
  by (auto simp: mergePerScreenGroup_def groupEnabled_ok groupScale_ok EnqueueWriteBuffer_def
        SetKernelArg_def EnqueueKernel_def logCall_def Let_def)

lemma forE_mergePerPixelGroup_ok:
  assumes "hardwareDevice f \<noteq> None" "hw_mergeBuffer f \<noteq> None"
    and "mergeRADIANCE_PER_PIXEL_NORMALIZEDKernel f \<noteq> None"
    and "\<forall>i\<in>set is. i < length (channel_RADIANCE_PER_PIXEL_NORMALIZEDs f) \<and> i < n"
    and "scalesInRange ip n"
  shows "\<exists>f'. forE is (mergePerPixelGroup ip) f = Inr f'"
  using assms
proof (induction "is" arbitrary: f)
  case Nil
  show ?case by simp
next
  case (Cons i "is")
  from Cons.prems obtain f1 where b: "mergePerPixelGroup ip i f = Inr f1"
    using mergePerPixelGroup_ok [of f i ip n] by auto
  from mergePerPixelGroup_result [OF b] Cons.prems
  have "hardwareDevice f1 \<noteq> None" "hw_mergeBuffer f1 \<noteq> None"
    "mergeRADIANCE_PER_PIXEL_NORMALIZEDKernel f1 \<noteq> None"
    "\<forall>i\<in>set is. i < length (channel_RADIANCE_PER_PIXEL_NORMALIZEDs f1) \<and> i < n"
    by auto
  from Cons.IH [OF this Cons.prems(5)] b show ?case
    by (simp add: bindE_eq_Inr)
qed

lemma forE_mergePerScreenGroup_ok:
  assumes "hardwareDevice f \<noteq> None" "hw_mergeBuffer f \<noteq> None"
    and "mergeRADIANCE_PER_SCREEN_NORMALIZEDKernel f \<noteq> None"
    and "\<forall>i\<in>set is. i < length (channel_RADIANCE_PER_SCREEN_NORMALIZEDs f) \<and> i < n"
    and "scalesInRange ip n"
  shows "\<exists>f'. forE is (mergePerScreenGroup ip factor) f = Inr f'"
  using assms
proof (induction "is" arbitrary: f)
  case Nil
  show ?case by simp
next
  case (Cons i "is")
  from Cons.prems obtain f1 where b: "mergePerScreenGroup ip factor i f = Inr f1"
    using mergePerScreenGroup_ok [of f i ip n] by auto
  from mergePerScreenGroup_result [OF b] Cons.prems
  have "hardwareDevice f1 \<noteq> None" "hw_mergeBuffer f1 \<noteq> None"
    "mergeRADIANCE_PER_SCREEN_NORMALIZEDKernel f1 \<noteq> None"
    "\<forall>i\<in>set is. i < length (channel_RADIANCE_PER_SCREEN_NORMALIZEDs f1) \<and> i < n"
    by auto
  from Cons.IH [OF this Cons.prems(5)] b show ?case
    by (simp add: bindE_eq_Inr)
qed

lemma MergeSampleBuffersHW_total:
  assumes "mergeReady f idx"
  shows "\<exists>f'. MergeSampleBuffersHW d idx f = Inr f'"
proof -
  let ?ip = "imagePipelineAt f idx"
  let ?n = "RoundUp (pixelCount f) 256"
  let ?sz = "GetSize (channel_IMAGEPIPELINEs f ! idx)"
  from assms have dev: "hardwareDevice f \<noteq> None" and buf: "hw_IMAGEPIPELINE f \<noteq> None"
    and idx: "idx < length (channel_IMAGEPIPELINEs f)"
    and sr: "scalesInRange ?ip (radianceGroupCount f)"
    by (auto simp: mergeReady_def scalesInRange_def imagePipelineAt_def)
  from assms obtain ki kfin where ki: "mergeInitializeKernel f = Some ki"
    and kfin: "mergeFinalizeKernel f = Some kfin"
    by (auto simp: mergeReady_def)
  define f2 where "f2 = f\<lparr>deviceLog := deviceLog f @ [EvEnqueueWriteBuffer BUFFER_IMAGEPIPELINE False ?sz (HOST_IMAGEPIPELINE idx),
                                              EvEnqueueKernel KERNEL_Initialize ki ?n 256]\<rparr>"
  have "\<exists>f3 l3 kp. (if HasChannel f2 RADIANCE_PER_PIXEL_NORMALIZED then
               forE [0..<radianceGroupCount f2] (mergePerPixelGroup ?ip) f2
             else Inr f2) = Inr f3
          \<and> f3 = f2\<lparr>deviceLog := l3, mergeRADIANCE_PER_PIXEL_NORMALIZEDKernel := kp\<rparr>"
  proof (cases "HasChannel f RADIANCE_PER_PIXEL_NORMALIZED")
    case True
    with assms have "\<exists>f3. forE [0..<radianceGroupCount f2] (mergePerPixelGroup ?ip) f2 = Inr f3"
      using dev sr
      by (intro forE_mergePerPixelGroup_ok [where n = "radianceGroupCount f"])
         (auto simp: f2_def mergeReady_def)
    then obtain f3 where l: "forE [0..<radianceGroupCount f2] (mergePerPixelGroup ?ip) f2 = Inr f3" ..
    from forE_mergePerPixelGroup [OF l]
    have "\<exists>l3 kp. f3 = f2\<lparr>deviceLog := l3, mergeRADIANCE_PER_PIXEL_NORMALIZEDKernel := kp\<rparr>"
      by (intro exI) (erule conjunct1)
    moreover from True have "HasChannel f2 RADIANCE_PER_PIXEL_NORMALIZED"
      by (simp add: f2_def HasChannel_def)
    ultimately show ?thesis using l by auto
  next
    case False
    have "f2 = f2\<lparr>deviceLog := deviceLog f2,
            mergeRADIANCE_PER_PIXEL_NORMALIZEDKernel := mergeRADIANCE_PER_PIXEL_NORMALIZEDKernel f2\<rparr>"
      by simp
    then have "\<exists>l3 kp. f2 = f2\<lparr>deviceLog := l3, mergeRADIANCE_PER_PIXEL_NORMALIZEDKernel := kp\<rparr>"
      by (intro exI)
    moreover from False have "\<not> HasChannel f2 RADIANCE_PER_PIXEL_NORMALIZED"
      by (simp add: f2_def HasChannel_def)
    ultimately show ?thesis by auto
  qed
  then obtain f3 l3 kp where s3: "(if HasChannel f2 RADIANCE_PER_PIXEL_NORMALIZED then
               forE [0..<radianceGroupCount f2] (mergePerPixelGroup ?ip) f2
             else Inr f2) = Inr f3"
    and f3: "f3 = f2\<lparr>deviceLog := l3, mergeRADIANCE_PER_PIXEL_NORMALIZEDKernel := kp\<rparr>"
    by blast
  have f3f: "f3 = f\<lparr>deviceLog := l3, mergeRADIANCE_PER_PIXEL_NORMALIZEDKernel := kp\<rparr>"
    by (simp add: f3 f2_def)
  have "\<exists>f4 l4 ks. (if HasChannel f3 RADIANCE_PER_SCREEN_NORMALIZED then
                forE [0..<radianceGroupCount f3]
                  (mergePerScreenGroup ?ip (normalizationFactor (pixelCount f3) (samplesCounts f3))) f3
             else Inr f3) = Inr f4
          \<and> f4 = f3\<lparr>deviceLog := l4, mergeRADIANCE_PER_SCREEN_NORMALIZEDKernel := ks\<rparr>"
  proof (cases "HasChannel f RADIANCE_PER_SCREEN_NORMALIZED")
    case True
    have "\<exists>f4. forE [0..<radianceGroupCount f3]
                  (mergePerScreenGroup ?ip (normalizationFactor (pixelCount f3) (samplesCounts f3))) f3 = Inr f4"
    proof (rule forE_mergePerScreenGroup_ok [where n = "radianceGroupCount f"])
      show "hardwareDevice f3 \<noteq> None" using dev by (simp add: f3f)
      show "hw_mergeBuffer f3 \<noteq> None" using assms True by (simp add: f3f mergeReady_def)
      show "mergeRADIANCE_PER_SCREEN_NORMALIZEDKernel f3 \<noteq> None"
        using assms True by (simp add: f3f mergeReady_def)
      show "\<forall>i\<in>set [0..<radianceGroupCount f3].
              i < length (channel_RADIANCE_PER_SCREEN_NORMALIZEDs f3) \<and> i < radianceGroupCount f"
        using assms True by (auto simp: f3f mergeReady_def)
      show "scalesInRange ?ip (radianceGroupCount f)" by (rule sr)
    qed
    then obtain f4 where l: "forE [0..<radianceGroupCount f3]
                  (mergePerScreenGroup ?ip (normalizationFactor (pixelCount f3) (samplesCounts f3))) f3 = Inr f4" ..
    from forE_mergePerScreenGroup [OF l]
    have "\<exists>l4 ks. f4 = f3\<lparr>deviceLog := l4, mergeRADIANCE_PER_SCREEN_NORMALIZEDKernel := ks\<rparr>"
      by (intro exI) (erule conjunct1)
    moreover have "HasChannel f3 RADIANCE_PER_SCREEN_NORMALIZED"
      using True by (simp add: f3f HasChannel_def)
    ultimately show ?thesis using l by auto
  next
    case False
    then have "\<not> HasChannel f3 RADIANCE_PER_SCREEN_NORMALIZED"
      by (simp add: f3f HasChannel_def)
    moreover have "f3 = f3\<lparr>deviceLog := deviceLog f3,
            mergeRADIANCE_PER_SCREEN_NORMALIZEDKernel := mergeRADIANCE_PER_SCREEN_NORMALIZEDKernel f3\<rparr>"
      by simp
    then have "\<exists>l4 ks. f3 = f3\<lparr>deviceLog := l4, mergeRADIANCE_PER_SCREEN_NORMALIZEDKernel := ks\<rparr>"
      by (intro exI)
    ultimately show ?thesis by auto
  qed
  then obtain f4 l4 ks where s4: "(if HasChannel f3 RADIANCE_PER_SCREEN_NORMALIZED then
                forE [0..<radianceGroupCount f3]
                  (mergePerScreenGroup ?ip (normalizationFactor (pixelCount f3) (samplesCounts f3))) f3
             else Inr f3) = Inr f4"
    and f4: "f4 = f3\<lparr>deviceLog := l4, mergeRADIANCE_PER_SCREEN_NORMALIZEDKernel := ks\<rparr>"
    by blast
  have f4f: "f4 = f\<lparr>deviceLog := l4, mergeRADIANCE_PER_PIXEL_NORMALIZEDKernel := kp,
                    mergeRADIANCE_PER_SCREEN_NORMALIZEDKernel := ks\<rparr>"
    by (simp add: f4 f3f)
  have p: "hardwareDevice f4 \<noteq> None" "mergeFinalizeKernel f4 = Some kfin"
    "hw_IMAGEPIPELINE f4 \<noteq> None" "idx < length (channel_IMAGEPIPELINEs f4)"
    using dev kfin buf idx by (simp_all add: f4f)
  have s1: "EnqueueWriteBuffer BUFFER_IMAGEPIPELINE False ?sz (HOST_IMAGEPIPELINE idx) f
            = Inr (logCall (EvEnqueueWriteBuffer BUFFER_IMAGEPIPELINE False ?sz (HOST_IMAGEPIPELINE idx)) f)"
    using dev buf by (simp add: EnqueueWriteBuffer_eq_Inr)
  have s2: "EnqueueKernel KERNEL_Initialize
              (RoundUp (pixelCount (logCall (EvEnqueueWriteBuffer BUFFER_IMAGEPIPELINE False ?sz (HOST_IMAGEPIPELINE idx)) f)) 256) 256
              (logCall (EvEnqueueWriteBuffer BUFFER_IMAGEPIPELINE False ?sz (HOST_IMAGEPIPELINE idx)) f) = Inr f2"
    using dev ki by (simp add: EnqueueKernel_eq_Inr f2_def logCall_def)
  have s5: "\<exists>f5. EnqueueKernel KERNEL_Finalize (RoundUp (pixelCount f4) 256) 256 f4 = Inr f5
              \<and> hardwareDevice f5 \<noteq> None \<and> hw_IMAGEPIPELINE f5 \<noteq> None
              \<and> idx < length (channel_IMAGEPIPELINEs f5)"
    using p by (simp add: EnqueueKernel_eq_Inr logCall_def)
  then obtain f5 where s5: "EnqueueKernel KERNEL_Finalize (RoundUp (pixelCount f4) 256) 256 f4 = Inr f5"
    and p5: "hardwareDevice f5 \<noteq> None" "hw_IMAGEPIPELINE f5 \<noteq> None"
      "idx < length (channel_IMAGEPIPELINEs f5)" by blast
  have "\<exists>f6. EnqueueReadBuffer BUFFER_IMAGEPIPELINE False (GetSize (channel_IMAGEPIPELINEs f5 ! idx))
               (HOST_IMAGEPIPELINE idx) d f5 = Inr f6 \<and> hardwareDevice f6 \<noteq> None"
    using p5 by (simp add: EnqueueReadBuffer_eq_Inr logCall_def)
  then obtain f6 where s6: "EnqueueReadBuffer BUFFER_IMAGEPIPELINE False (GetSize (channel_IMAGEPIPELINEs f5 ! idx))
               (HOST_IMAGEPIPELINE idx) d f5 = Inr f6" and p6: "hardwareDevice f6 \<noteq> None" by blast
  have s7: "\<exists>f'. FinishQueue f6 = Inr f'" using p6 by (simp add: FinishQueue_eq_Inr)
  then obtain f' where s7: "FinishQueue f6 = Inr f'" ..
  have "MergeSampleBuffersHW d idx f = Inr f'"
    unfolding MergeSampleBuffersHW_def imagePipelineAt_def [symmetric] Let_def
    by (simp only: bindE_Inr vecAt_in idx s1 s2 s3 s4 s5 p5(3) s6 s7)
  then show ?thesis ..
qed

subsection \<open>Scales seen by the dispatches\<close>

lemma dispatchScales_append [simp]:
  "dispatchScales k (xs @ ys) = dispatchScales k xs @ dispatchScales k ys"
  by (induction k xs rule: dispatchScales.induct) simp_all

lemma dispatchScales_accumulateCalls [simp]:
  "dispatchScales k (accumulateCalls k' args sz host s n) = (if k' = k then [scaleArgs s] else [])"
  by (simp add: accumulateCalls_def scaleArgs_def bindScale_def)

lemma dispatchScales_concat_perPixel:
  "dispatchScales k (concat (map (perPixelCalls chans n ip args) is))
     = (if k = KERNEL_RADIANCE_PER_PIXEL_NORMALIZED then map (\<lambda>i. scaleArgs (groupScaleOf ip i)) is else [])"
  by (induction "is") (auto simp: perPixelCalls_def)

lemma dispatchScales_concat_perScreen:
  "dispatchScales k (concat (map (perScreenCalls chans n factor ip args) is))
     = (if k = KERNEL_RADIANCE_PER_SCREEN_NORMALIZED
        then map (\<lambda>i. scaleArgs (scaleSpectrum factor (groupScaleOf ip i))) is else [])"
  by (induction "is") (auto simp: perScreenCalls_def)

lemma dispatchScales_perPixelSection:
  "dispatchScales k (perPixelSection f ip) =
     (if k = KERNEL_RADIANCE_PER_PIXEL_NORMALIZED \<and> HasChannel f RADIANCE_PER_PIXEL_NORMALIZED
      then map (\<lambda>i. scaleArgs (groupScaleOf ip i)) (filter (groupIsEnabled ip) [0..<radianceGroupCount f])
      else [])"
  by (simp add: perPixelSection_def dispatchScales_concat_perPixel)

lemma dispatchScales_perScreenSection:
  "dispatchScales k (perScreenSection f ip) =
     (if k = KERNEL_RADIANCE_PER_SCREEN_NORMALIZED \<and> HasChannel f RADIANCE_PER_SCREEN_NORMALIZED
      then map (\<lambda>i. scaleArgs (scaleSpectrum (normalizationFactor (pixelCount f) (samplesCounts f))
                                   (groupScaleOf ip i)))
               (filter (groupIsEnabled ip) [0..<radianceGroupCount f])
      else [])"
  by (simp add: perScreenSection_def dispatchScales_concat_perScreen)

lemma dispatchScales_expectedMergeCalls:
  "dispatchScales KERNEL_RADIANCE_PER_PIXEL_NORMALIZED (expectedMergeCalls f idx) =
     (if HasChannel f RADIANCE_PER_PIXEL_NORMALIZED
      then map (\<lambda>i. scaleArgs (groupScaleOf (imagePipelineAt f idx) i))
               (filter (groupIsEnabled (imagePipelineAt f idx)) [0..<radianceGroupCount f])
      else [])"
  "dispatchScales KERNEL_RADIANCE_PER_SCREEN_NORMALIZED (expectedMergeCalls f idx) =
     (if HasChannel f RADIANCE_PER_SCREEN_NORMALIZED
      then map (\<lambda>i. scaleArgs (scaleSpectrum (normalizationFactor (pixelCount f) (samplesCounts f))
                                   (groupScaleOf (imagePipelineAt f idx) i)))
               (filter (groupIsEnabled (imagePipelineAt f idx)) [0..<radianceGroupCount f])
      else [])"
  by (simp_all add: expectedMergeCalls_def dispatchScales_perPixelSection dispatchScales_perScreenSection)

lemma accumulateBlocks_accumulateCalls [simp]:
  "accumulateBlocks k (accumulateCalls k args sz host s n @ rest) = accumulateBlocks k rest"
  by (simp add: accumulateCalls_def bindScale_def)

lemma accumulateBlocks_perPixel:
  "accumulateBlocks KERNEL_RADIANCE_PER_PIXEL_NORMALIZED (concat (map (perPixelCalls chans n ip args) is))"
  by (induction "is") (simp_all add: perPixelCalls_def)

lemma accumulateBlocks_perScreen:
  "accumulateBlocks KERNEL_RADIANCE_PER_SCREEN_NORMALIZED (concat (map (perScreenCalls chans n factor ip args) is))"
  by (induction "is") (simp_all add: perScreenCalls_def)




lemma map_const_upt: "map (\<lambda>i. x) [0..<n] = replicate n x"
  by (simp add: map_replicate_const)

section \<open>Allocation and teardown\<close>

lemma mergeBufferSizeOf_eq_Inr:
  "mergeBufferSizeOf f = Inr n \<Longrightarrow> n = mergeBufferSize f"
  by (auto simp: mergeBufferSizeOf_def mergeBufferSize_def bindE_eq_Inr split: if_splits)

lemma AllocateHWBuffers_result:
  assumes "AllocateHWBuffers f = Inr f'"
  shows "\<exists>cx. ctx f = Some cx \<and>
     f' = f\<lparr>ctx := Some (cx\<lparr>verbose := False\<rparr>),
            hw_IMAGEPIPELINE :=
              Some \<lparr>bufDesc = ''IMAGEPIPELINE'', bufSize = GetSize (channel_IMAGEPIPELINEs f ! 0),
                    bufReadOnly = False, bufSource = Some (HOST_IMAGEPIPELINE 0)\<rparr>,
            hw_ALPHA :=
              (if HasChannel f ALPHA
               then Some \<lparr>bufDesc = ''ALPHA'', bufSize = GetSize (the (channel_ALPHA f)),
                          bufReadOnly = True, bufSource = Some HOST_ALPHA\<rparr>
               else hw_ALPHA f),
            hw_OBJECT_ID :=
              (if HasChannel f OBJECT_ID
               then Some \<lparr>bufDesc = ''OBJECT_ID'', bufSize = GetSize (the (channel_OBJECT_ID f)),
                          bufReadOnly = True, bufSource = Some HOST_OBJECT_ID\<rparr>
               else hw_OBJECT_ID f),
            hw_mergeBuffer :=
              (if mergeBufferSize f > 0
               then Some \<lparr>bufDesc = ''Merge'', bufSize = mergeBufferSize f,
                          bufReadOnly = True, bufSource = None\<rparr>
               else hw_mergeBuffer f),
            deviceLog := deviceLog f @
              [EvAllocBufferRW BUFFER_IMAGEPIPELINE (Some (HOST_IMAGEPIPELINE 0))
                 (GetSize (channel_IMAGEPIPELINEs f ! 0)) ''IMAGEPIPELINE'']
              @ (if HasChannel f ALPHA
                 then [EvAllocBufferRO BUFFER_ALPHA (Some HOST_ALPHA) (GetSize (the (channel_ALPHA f))) ''ALPHA'']
                 else [])
              @ (if HasChannel f OBJECT_ID
                 then [EvAllocBufferRO BUFFER_OBJECT_ID (Some HOST_OBJECT_ID)
                         (GetSize (the (channel_OBJECT_ID f))) ''OBJECT_ID'']
                 else [])
              @ (if mergeBufferSize f > 0
                 then [EvAllocBufferRO BUFFER_Merge None (mergeBufferSize f) ''Merge'']
                 else [])\<rparr>"
proof -
  from assms obtain f1 f2 f3 f4 n f5 where
    s1: "SetVerbose True f = Inr f1"
    and i0: "0 < length (channel_IMAGEPIPELINEs f1)"
    and s2: "AllocBufferRW BUFFER_IMAGEPIPELINE (Some (HOST_IMAGEPIPELINE 0))
               (GetSize (channel_IMAGEPIPELINEs f1 ! 0)) ''IMAGEPIPELINE'' f1 = Inr f2"
    and s3: "(if HasChannel f2 ALPHA then
              bindE (deref (channel_ALPHA f2)) (\<lambda>ch.
                AllocBufferRO BUFFER_ALPHA (Some HOST_ALPHA) (GetSize ch) ''ALPHA'' f2)
            else Inr f2) = Inr f3"
    and s4: "(if HasChannel f3 OBJECT_ID then
              bindE (deref (channel_OBJECT_ID f3)) (\<lambda>ch.
                AllocBufferRO BUFFER_OBJECT_ID (Some HOST_OBJECT_ID) (GetSize ch) ''OBJECT_ID'' f3)
            else Inr f3) = Inr f4"
    and s5: "mergeBufferSizeOf f4 = Inr n"
    and s6: "(if n > 0 then AllocBufferRO BUFFER_Merge None n ''Merge'' f4 else Inr f4) = Inr f5"
    and s7: "SetVerbose False f5 = Inr f'"
    unfolding AllocateHWBuffers_def bindE_eq_Inr vecAt_eq_Inr by blast
  from s1 obtain cx where cx: "ctx f = Some cx" and f1: "f1 = f\<lparr>ctx := Some (cx\<lparr>verbose := True\<rparr>)\<rparr>"
    by (auto simp: SetVerbose_eq_Inr)
  from s2 have f2: "f2 = f1\<lparr>hw_IMAGEPIPELINE :=
              Some \<lparr>bufDesc = ''IMAGEPIPELINE'', bufSize = GetSize (channel_IMAGEPIPELINEs f ! 0),
                    bufReadOnly = False, bufSource = Some (HOST_IMAGEPIPELINE 0)\<rparr>,
            deviceLog := deviceLog f @
              [EvAllocBufferRW BUFFER_IMAGEPIPELINE (Some (HOST_IMAGEPIPELINE 0))
                 (GetSize (channel_IMAGEPIPELINEs f ! 0)) ''IMAGEPIPELINE'']\<rparr>"
    by (simp add: AllocBufferRW_eq_Inr logCall_def f1)
  from s3 have f3: "f3 = f2\<lparr>hw_ALPHA :=
              (if HasChannel f ALPHA
               then Some \<lparr>bufDesc = ''ALPHA'', bufSize = GetSize (the (channel_ALPHA f)),
                          bufReadOnly = True, bufSource = Some HOST_ALPHA\<rparr>
               else hw_ALPHA f),
            deviceLog := deviceLog f2
              @ (if HasChannel f ALPHA
                 then [EvAllocBufferRO BUFFER_ALPHA (Some HOST_ALPHA) (GetSize (the (channel_ALPHA f))) ''ALPHA'']
                 else [])\<rparr>"
    by (auto simp: AllocBufferRO_eq_Inr bindE_eq_Inr logCall_def f2 f1 HasChannel_def split: if_splits)
  from s4 have f4: "f4 = f3\<lparr>hw_OBJECT_ID :=
              (if HasChannel f OBJECT_ID
               then Some \<lparr>bufDesc = ''OBJECT_ID'', bufSize = GetSize (the (channel_OBJECT_ID f)),
                          bufReadOnly = True, bufSource = Some HOST_OBJECT_ID\<rparr>
               else hw_OBJECT_ID f),
            deviceLog := deviceLog f3
              @ (if HasChannel f OBJECT_ID
                 then [EvAllocBufferRO BUFFER_OBJECT_ID (Some HOST_OBJECT_ID)
                         (GetSize (the (channel_OBJECT_ID f))) ''OBJECT_ID'']
                 else [])\<rparr>"
    by (auto simp: AllocBufferRO_eq_Inr bindE_eq_Inr logCall_def f3 f2 f1 HasChannel_def split: if_splits)
  have "mergeBufferSize f4 = mergeBufferSize f"
    by (simp add: mergeBufferSize_def f4 f3 f2 f1 HasChannel_def)
  with mergeBufferSizeOf_eq_Inr [OF s5] have n: "n = mergeBufferSize f" by simp
  from s6 have f5: "f5 = f4\<lparr>hw_mergeBuffer :=
              (if mergeBufferSize f > 0
               then Some \<lparr>bufDesc = ''Merge'', bufSize = mergeBufferSize f,
                          bufReadOnly = True, bufSource = None\<rparr>
               else hw_mergeBuffer f),
            deviceLog := deviceLog f4
              @ (if mergeBufferSize f > 0
                 then [EvAllocBufferRO BUFFER_Merge None (mergeBufferSize f) ''Merge'']
                 else [])\<rparr>"
    unfolding n
    by (auto simp: AllocBufferRO_eq_Inr logCall_def f4 f3 f2 f1 split: if_splits)
  from s7 have f': "f' = f5\<lparr>ctx := Some (cx\<lparr>verbose := False\<rparr>)\<rparr>"
    by (auto simp: SetVerbose_eq_Inr f5 f4 f3 f2 f1)
  show ?thesis
    by (rule exI [of _ cx]) (simp add: cx f' f5 f4 f3 f2 f1)
qed

lemma AllocateHWBuffers_newCalls:
  assumes "AllocateHWBuffers f = Inr f'"
  shows "newCalls f f' =
           [EvAllocBufferRW BUFFER_IMAGEPIPELINE (Some (HOST_IMAGEPIPELINE 0))
              (GetSize (channel_IMAGEPIPELINEs f ! 0)) ''IMAGEPIPELINE'']
           @ (if HasChannel f ALPHA
              then [EvAllocBufferRO BUFFER_ALPHA (Some HOST_ALPHA) (GetSize (the (channel_ALPHA f))) ''ALPHA'']
              else [])
           @ (if HasChannel f OBJECT_ID
              then [EvAllocBufferRO BUFFER_OBJECT_ID (Some HOST_OBJECT_ID)
                      (GetSize (the (channel_OBJECT_ID f))) ''OBJECT_ID'']
              else [])
           @ (if mergeBufferSize f > 0
              then [EvAllocBufferRO BUFFER_Merge None (mergeBufferSize f) ''Merge'']
              else [])"
  using AllocateHWBuffers_result [OF assms] by (auto simp: newCalls_def)

text \<open>
  The allocation returns exactly on the films that are ready for it.
\<close>

lemma vecAt_0: "v \<noteq> [] \<Longrightarrow> vecAt v 0 = Inr (v ! 0)"
  by (simp add: vecAt_def)

lemma mergeBufferSizeOf_returns:
  assumes "mergeBufferSizeOf f = Inr n"
  shows "(HasChannel f RADIANCE_PER_PIXEL_NORMALIZED \<longrightarrow> channel_RADIANCE_PER_PIXEL_NORMALIZEDs f \<noteq> [])
       \<and> (HasChannel f RADIANCE_PER_SCREEN_NORMALIZED \<longrightarrow> channel_RADIANCE_PER_SCREEN_NORMALIZEDs f \<noteq> [])"
  using assms by (auto simp: mergeBufferSizeOf_def bindE_eq_Inr split: if_splits)

lemma AllocateHWBuffers_total:
  assumes "allocReady f"
  shows "\<exists>f'. AllocateHWBuffers f = Inr f'"
proof -
  from assms obtain cx where cx: "ctx f = Some cx" by (auto simp: allocReady_def)
  from assms obtain dv where dev: "hardwareDevice f = Some dv" by (auto simp: allocReady_def)
  from assms have ip: "channel_IMAGEPIPELINEs f \<noteq> []"
    and al: "ALPHA \<in> channels f \<Longrightarrow> \<exists>ch. channel_ALPHA f = Some ch"
    and ob: "OBJECT_ID \<in> channels f \<Longrightarrow> \<exists>ch. channel_OBJECT_ID f = Some ch"
    and pp: "RADIANCE_PER_PIXEL_NORMALIZED \<in> channels f \<Longrightarrow> 0 < length (channel_RADIANCE_PER_PIXEL_NORMALIZEDs f)"
    and ps: "RADIANCE_PER_SCREEN_NORMALIZED \<in> channels f \<Longrightarrow> 0 < length (channel_RADIANCE_PER_SCREEN_NORMALIZEDs f)"
    by (auto simp: allocReady_def HasChannel_def)
  show ?thesis
  proof (cases "ALPHA \<in> channels f"; cases "OBJECT_ID \<in> channels f";
         cases "RADIANCE_PER_PIXEL_NORMALIZED \<in> channels f";
         cases "RADIANCE_PER_SCREEN_NORMALIZED \<in> channels f")
  qed (use al ob pp ps in \<open>auto simp: AllocateHWBuffers_def SetVerbose_def cx dev ip AllocBufferRW_def
         AllocBufferRO_def mergeBufferSizeOf_def HasChannel_def logCall_def vecAt_0\<close>)
qed

lemma AllocateHWBuffers_ready:
  assumes "AllocateHWBuffers f = Inr f'"
  shows "allocReady f"
proof -
  from assms obtain f1 f2 f3 f4 n where
    s1: "SetVerbose True f = Inr f1"
    and ip: "0 < length (channel_IMAGEPIPELINEs f1)"
    and s2: "AllocBufferRW BUFFER_IMAGEPIPELINE (Some (HOST_IMAGEPIPELINE 0))
              (GetSize (channel_IMAGEPIPELINEs f1 ! 0)) ''IMAGEPIPELINE'' f1 = Inr f2"
    and s3: "(if HasChannel f2 ALPHA then
              bindE (deref (channel_ALPHA f2)) (\<lambda>ch.
                AllocBufferRO BUFFER_ALPHA (Some HOST_ALPHA) (GetSize ch) ''ALPHA'' f2)
            else Inr f2) = Inr f3"
    and s4: "(if HasChannel f3 OBJECT_ID then
              bindE (deref (channel_OBJECT_ID f3)) (\<lambda>ch.
                AllocBufferRO BUFFER_OBJECT_ID (Some HOST_OBJECT_ID) (GetSize ch) ''OBJECT_ID'' f3)
            else Inr f3) = Inr f4"
    and s5: "mergeBufferSizeOf f4 = Inr n"
    unfolding AllocateHWBuffers_def bindE_eq_Inr vecAt_eq_Inr by blast
  from s1 obtain cx where cx: "ctx f = Some cx" and f1: "f1 = f\<lparr>ctx := Some (cx\<lparr>verbose := True\<rparr>)\<rparr>"
    by (auto simp: SetVerbose_eq_Inr)
  from s2 have dev: "hardwareDevice f1 \<noteq> None"
    and f2: "f2 = setBuffer BUFFER_IMAGEPIPELINE
                (Some \<lparr>bufDesc = ''IMAGEPIPELINE'', bufSize = GetSize (channel_IMAGEPIPELINEs f1 ! 0),
                       bufReadOnly = False, bufSource = Some (HOST_IMAGEPIPELINE 0)\<rparr>)
                (logCall (EvAllocBufferRW BUFFER_IMAGEPIPELINE (Some (HOST_IMAGEPIPELINE 0))
                   (GetSize (channel_IMAGEPIPELINEs f1 ! 0)) ''IMAGEPIPELINE'') f1)"
    by (simp_all add: AllocBufferRW_eq_Inr)
  from s3 have al: "HasChannel f2 ALPHA \<longrightarrow> channel_ALPHA f2 \<noteq> None"
    and f3: "channels f3 = channels f2 \<and> channel_OBJECT_ID f3 = channel_OBJECT_ID f2
             \<and> channel_RADIANCE_PER_PIXEL_NORMALIZEDs f3 = channel_RADIANCE_PER_PIXEL_NORMALIZEDs f2
             \<and> channel_RADIANCE_PER_SCREEN_NORMALIZEDs f3 = channel_RADIANCE_PER_SCREEN_NORMALIZEDs f2"
    by (auto simp: bindE_eq_Inr AllocBufferRO_eq_Inr logCall_def split: if_splits)
  from s4 have ob: "HasChannel f3 OBJECT_ID \<longrightarrow> channel_OBJECT_ID f3 \<noteq> None"
    and f4: "channels f4 = channels f3
             \<and> channel_RADIANCE_PER_PIXEL_NORMALIZEDs f4 = channel_RADIANCE_PER_PIXEL_NORMALIZEDs f3
             \<and> channel_RADIANCE_PER_SCREEN_NORMALIZEDs f4 = channel_RADIANCE_PER_SCREEN_NORMALIZEDs f3"
    by (auto simp: bindE_eq_Inr AllocBufferRO_eq_Inr logCall_def split: if_splits)
  from mergeBufferSizeOf_returns [OF s5] f4 f3
  have "(HasChannel f2 RADIANCE_PER_PIXEL_NORMALIZED \<longrightarrow> channel_RADIANCE_PER_PIXEL_NORMALIZEDs f2 \<noteq> [])
       \<and> (HasChannel f2 RADIANCE_PER_SCREEN_NORMALIZED \<longrightarrow> channel_RADIANCE_PER_SCREEN_NORMALIZEDs f2 \<noteq> [])"
    by (simp add: HasChannel_def)
  with al ob f3 ip dev cx show ?thesis
    by (simp add: allocReady_def f2 f1 HasChannel_def logCall_def)
qed

lemma DeleteHWContext_no_device:
  assumes "hardwareDevice f = None"
  shows "DeleteHWContext f =
           Inr (f\<lparr>deviceLog := deviceLog f
                     @ (if ctx f \<noteq> None then [EvDeleteContext] else [])
                     @ (if dataSet f \<noteq> None then [EvDeleteDataSet] else [])\<rparr>)"
  using assms
  by (auto simp: DeleteHWContext_def deleteCtx_def deleteDataSet_def logCall_def split: option.splits)

lemma DeleteHWContext_device:
  assumes "hardwareDevice f \<noteq> None"
  shows "DeleteHWContext f =
           Inr (f\<lparr>hw_IMAGEPIPELINE := None, hw_ALPHA := None, hw_OBJECT_ID := None, hw_mergeBuffer := None,
                  deviceLog := deviceLog f
                     @ (if mergeInitializeKernel f \<noteq> None then [EvDeleteKernel KERNEL_Initialize] else [])
                     @ (if mergeRADIANCE_PER_PIXEL_NORMALIZEDKernel f \<noteq> None
                        then [EvDeleteKernel KERNEL_RADIANCE_PER_PIXEL_NORMALIZED] else [])
                     @ (if mergeRADIANCE_PER_SCREEN_NORMALIZEDKernel f \<noteq> None
                        then [EvDeleteKernel KERNEL_RADIANCE_PER_SCREEN_NORMALIZED] else [])
                     @ (if mergeFinalizeKernel f \<noteq> None then [EvDeleteKernel KERNEL_Finalize] else [])
                     @ [EvFreeBuffer BUFFER_IMAGEPIPELINE, EvFreeBuffer BUFFER_ALPHA,
                        EvFreeBuffer BUFFER_OBJECT_ID, EvFreeBuffer BUFFER_Merge]
                     @ (if ctx f \<noteq> None then [EvDeleteContext] else [])
                     @ (if dataSet f \<noteq> None then [EvDeleteDataSet] else [])\<rparr>)"
  using assms unfolding DeleteHWContext_def
  by (cases "mergeInitializeKernel f"; cases "mergeRADIANCE_PER_PIXEL_NORMALIZEDKernel f";
      cases "mergeRADIANCE_PER_SCREEN_NORMALIZEDKernel f"; cases "mergeFinalizeKernel f";
      cases "ctx f"; cases "dataSet f")
     (auto simp: Let_def FreeBuffer_def deleteKernel_def deleteCtx_def deleteDataSet_def logCall_def)

section \<open>The example films\<close>

lemmas hw_defs = EnqueueWriteBuffer_def EnqueueReadBuffer_def EnqueueKernel_def SetKernelArg_def
  FinishQueue_def logCall_def HasChannel_def

lemmas merge_defs = MergeSampleBuffersHW_def mergePerPixelGroup_def mergePerScreenGroup_def
        groupEnabled_def groupScale_def normalizationFactor_def RoundUp_def Spectrum1_def Let_def

lemma upt_2: "[0..<2] = [0, Suc 0]"
  by (simp add: numeral_2_eq_2)

text \<open>
  The example films are what the operations produce: context creation selects \<open>oclB\<close>,
  the last OpenCL GPU, allocation and compilation succeed, and so do the merges of outputs 0
  and 1; output 2 has no channel.
\<close>

lemma exCtx_eq:
  "exCtx = exFilm0\<lparr>hwEnable := True, hwDeviceIndex := - 1,
                   ctx := Some \<lparr>verbose = False, hasDataSet = True, started = True\<rparr>,
                   dataSet := Some \<lparr>preprocessed = True\<rparr>,
                   hardwareDevice := Some \<lparr>deviceDesc = oclB\<rparr>\<rparr>"
  by (simp add: exCtx_def CreateHWContext_def SetUpHW_def exFilm0_def SelectDeviceDesc_def
        oclA_def oclB_def)

lemmas ex_defs = exReady_def exAlloc_def exCtx_eq exFilm0_def


lemma exReady_ok: "CompileHWKernels exAlloc = Inr exReady"
  by (simp add: exReady_def exAlloc_def exCtx_eq exFilm0_def CompileHWKernels_def
     SetVerbose_def CompileProgram_def GetKernel_def SetKernelArg_def logCall_def
     exInitArgs_def exAccumArgs_def exCompileCalls_def exAllocCalls_def)

lemma exMerged0_ok: "MergeSampleBuffersHW (exPixels 48 7) 0 exReady = Inr exMerged0"
  by (simp add: MergeSampleBuffersHW_def mergePerPixelGroup_def mergePerScreenGroup_def
        groupEnabled_def groupScale_def normalizationFactor_def RoundUp_def Spectrum1_def
        ex_defs hw_defs exMerged0_def exMergeCalls0_def upt_2 Let_def)

lemma exMerged1_ok: "MergeSampleBuffersHW (exPixels 48 7) 1 exReady = Inr exMerged1"
  by (simp add: merge_defs ex_defs hw_defs exMerged1_def exMergeCalls1_def upt_2)

lemma exMergedZero_ok: "MergeSampleBuffersHW (exPixels 48 7) 0 exZero = Inr exMergedZero"
  by (simp add: merge_defs ex_defs hw_defs exZero_def exMergedZero_def upt_2)

lemma exMerge2_fails: "MergeSampleBuffersHW (exPixels 48 7) 2 exReady = Inl OutOfRange"
  by (simp add: merge_defs ex_defs hw_defs vecAt_def)

lemma exZero_ready: "mergeReady exZero 0"
  by (simp add: mergeReady_def exZero_def ex_defs HasChannel_def)

text \<open>
  The variants are what the operations produce, too: context creation commutes with the
  three changes of the host channels, the allocations succeed, and the film with the large
  group 1 gets the merge buffer of \<open>exAlloc\<close>, compiles, and merges output 1.
\<close>

lemma exVariants_ctx:
  "CreateHWContext [oclA, oclB] (SetUpHW (exObj exFilm0)) = exObj exCtx"
  "CreateHWContext [oclA, oclB] (SetUpHW (exBare exFilm0)) = exBare exCtx"
  "CreateHWContext [oclA, oclB] (SetUpHW (exWide exFilm0)) = exWide exCtx"
  by (simp_all add: exCtx_def exObj_def exBare_def exWide_def CreateHWContext_def SetUpHW_def
        exFilm0_def SelectDeviceDesc_def oclA_def oclB_def)

lemmas alloc_defs = AllocateHWBuffers_def SetVerbose_def AllocBufferRW_def AllocBufferRO_def
  HasChannel_def mergeBufferSizeOf_def logCall_def

lemma exObjAlloc_ok: "AllocateHWBuffers (exObj exCtx) = Inr exObjAlloc"
  by (simp add: exObj_def exObjAlloc_def exCtx_eq exFilm0_def alloc_defs
     exImageBuffer_def exAlphaBuffer_def exObjectIdBuffer_def exMergeBuffer_def exObjAllocCalls_def)

lemma exBareAlloc_ok: "AllocateHWBuffers (exBare exCtx) = Inr exBareAlloc"
  by (simp add: exBare_def exBareAlloc_def exCtx_eq exFilm0_def alloc_defs exImageBuffer_def)




section \<open>The claims\<close>

text \<open>
  C2. The normalization factor of the per-screen-normalized channels is the pixel count
  divided by the sample count whenever the sample count is positive, and exactly 1 when it
  is zero. Every per-screen-normalized accumulate dispatch of a merge that returns runs with
  this factor times the scale of its group. With a sample count of zero the merge of a ready
  film returns normally: no error is raised or passed on.
\<close>

theorem C2_normalization_factor:
  "(0 < samplesCounts f \<longrightarrow>
      normalizationFactor (pixelCount f) (samplesCounts f) = real (pixelCount f) / samplesCounts f)
   \<and> (samplesCounts f = 0 \<longrightarrow> normalizationFactor (pixelCount f) (samplesCounts f) = 1)
   \<and> (HasChannel f RADIANCE_PER_SCREEN_NORMALIZED \<and> MergeSampleBuffersHW d idx f = Inr f' \<longrightarrow>
        dispatchScales KERNEL_RADIANCE_PER_SCREEN_NORMALIZED (newCalls f f') =
          map (\<lambda>i. scaleArgs (scaleSpectrum
                      (if 0 < samplesCounts f then real (pixelCount f) / samplesCounts f else 1)
                      (groupScaleOf (imagePipelineAt f idx) i)))
              (filter (groupIsEnabled (imagePipelineAt f idx)) [0..<radianceGroupCount f]))
   \<and> (mergeReady f idx \<and> samplesCounts f = 0 \<longrightarrow> (\<exists>f''. MergeSampleBuffersHW d idx f = Inr f''))"
proof (intro conjI impI)
  assume "HasChannel f RADIANCE_PER_SCREEN_NORMALIZED \<and> MergeSampleBuffersHW d idx f = Inr f'"
  then have h: "HasChannel f RADIANCE_PER_SCREEN_NORMALIZED"
    and m: "MergeSampleBuffersHW d idx f = Inr f'" by simp_all
  show "dispatchScales KERNEL_RADIANCE_PER_SCREEN_NORMALIZED (newCalls f f') =
          map (\<lambda>i. scaleArgs (scaleSpectrum
                      (if 0 < samplesCounts f then real (pixelCount f) / samplesCounts f else 1)
                      (groupScaleOf (imagePipelineAt f idx) i)))
              (filter (groupIsEnabled (imagePipelineAt f idx)) [0..<radianceGroupCount f])"
    unfolding MergeSampleBuffersHW_newCalls(2) [OF m] dispatchScales_expectedMergeCalls
    using h by (simp add: normalizationFactor_def)
next
  assume "mergeReady f idx \<and> samplesCounts f = 0"
  then show "\<exists>f''. MergeSampleBuffersHW d idx f = Inr f''"
    by (simp add: MergeSampleBuffersHW_total)
qed (simp_all add: normalizationFactor_def)

text \<open>
  On \<open>exReady\<close> (16 pixels, 32 samples) the factor is 1/2; on \<open>exZero\<close> it is 1, the merge
  returns, and its one per-screen dispatch runs with the scale (2, 3, 4) of group 1.
\<close>

theorem C2_normalization_factor_witness:
  "0 < samplesCounts exReady
   \<and> normalizationFactor (pixelCount exReady) (samplesCounts exReady) = 1 / 2
   \<and> samplesCounts exZero = 0
   \<and> normalizationFactor (pixelCount exZero) (samplesCounts exZero) = 1
   \<and> HasChannel exZero RADIANCE_PER_SCREEN_NORMALIZED \<and> mergeReady exZero 0
   \<and> MergeSampleBuffersHW (exPixels 48 7) 0 exZero = Inr exMergedZero
   \<and> dispatchScales KERNEL_RADIANCE_PER_SCREEN_NORMALIZED (newCalls exZero exMergedZero)
       = [(Some (ArgFloat 2), Some (ArgFloat 3), Some (ArgFloat 4))]"
  using C2_normalization_factor [of exReady "exPixels 48 7" 0 exMerged0]
    C2_normalization_factor [of exZero "exPixels 48 7" 0 exMergedZero]
    exMergedZero_ok exZero_ready
  by (simp add: exZero_def ex_defs HasChannel_def imagePipelineAt_def groupIsEnabled_def
        groupScaleOf_def scaleArgs_def upt_2)

text \<open>
  C3 (as the code has it). A merge that returns for an index that is not below the number
  of image pipelines treats every light group as enabled. Each per-pixel-normalized
  accumulate dispatch runs with the unit scale (1, 1, 1); each per-screen-normalized one runs
  with (factor, factor, factor), where factor is the normalization factor of C2.
\<close>

theorem C3_neutral_target:
  assumes "MergeSampleBuffersHW d idx f = Inr f'"
    and "length (imagePipelines f) \<le> idx"
  shows "newCalls f f' =
           [EvEnqueueWriteBuffer BUFFER_IMAGEPIPELINE False
              (GetSize (channel_IMAGEPIPELINEs f ! idx)) (HOST_IMAGEPIPELINE idx),
            EvEnqueueKernel KERNEL_Initialize (the (mergeInitializeKernel f)) (RoundUp (pixelCount f) 256) 256]
           @ (if HasChannel f RADIANCE_PER_PIXEL_NORMALIZED then
                concat (map (\<lambda>i. accumulateCalls KERNEL_RADIANCE_PER_PIXEL_NORMALIZED
                                    (the (mergeRADIANCE_PER_PIXEL_NORMALIZEDKernel f))
                                    (GetSize (channel_RADIANCE_PER_PIXEL_NORMALIZEDs f ! i))
                                    (HOST_RADIANCE_PER_PIXEL_NORMALIZED i)
                                    (Spectrum 1 1 1) (pixelCount f))
                            [0..<radianceGroupCount f])
              else [])
           @ (if HasChannel f RADIANCE_PER_SCREEN_NORMALIZED then
                concat (map (\<lambda>i. accumulateCalls KERNEL_RADIANCE_PER_SCREEN_NORMALIZED
                                    (the (mergeRADIANCE_PER_SCREEN_NORMALIZEDKernel f))
                                    (GetSize (channel_RADIANCE_PER_SCREEN_NORMALIZEDs f ! i))
                                    (HOST_RADIANCE_PER_SCREEN_NORMALIZED i)
                                    (Spectrum (normalizationFactor (pixelCount f) (samplesCounts f))
                                              (normalizationFactor (pixelCount f) (samplesCounts f))
                                              (normalizationFactor (pixelCount f) (samplesCounts f)))
                                    (pixelCount f))
                            [0..<radianceGroupCount f])
              else [])
           @ [EvEnqueueKernel KERNEL_Finalize (the (mergeFinalizeKernel f)) (RoundUp (pixelCount f) 256) 256,
              EvEnqueueReadBuffer BUFFER_IMAGEPIPELINE False
                (GetSize (channel_IMAGEPIPELINEs f ! idx)) (HOST_IMAGEPIPELINE idx),
              EvFinishQueue]
       \<and> dispatchScales KERNEL_RADIANCE_PER_PIXEL_NORMALIZED (newCalls f f') =
           (if HasChannel f RADIANCE_PER_PIXEL_NORMALIZED
            then replicate (radianceGroupCount f) (scaleArgs (Spectrum 1 1 1)) else [])
       \<and> dispatchScales KERNEL_RADIANCE_PER_SCREEN_NORMALIZED (newCalls f f') =
           (if HasChannel f RADIANCE_PER_SCREEN_NORMALIZED
            then replicate (radianceGroupCount f)
                   (scaleArgs (Spectrum (normalizationFactor (pixelCount f) (samplesCounts f))
                                        (normalizationFactor (pixelCount f) (samplesCounts f))
                                        (normalizationFactor (pixelCount f) (samplesCounts f))))
            else [])"
proof -
  from assms(2) have ip: "imagePipelineAt f idx = None" by (simp add: imagePipelineAt_def)
  have en: "groupIsEnabled None = (\<lambda>i. True)" by (rule ext) (simp add: groupIsEnabled_def)
  have sc: "groupScaleOf None i = Spectrum 1 1 1" for i by (simp add: groupScaleOf_def Spectrum1_def)
  have pp: "perPixelCalls chans n None args =
              (\<lambda>i. accumulateCalls KERNEL_RADIANCE_PER_PIXEL_NORMALIZED args (GetSize (chans ! i))
                      (HOST_RADIANCE_PER_PIXEL_NORMALIZED i) (Spectrum 1 1 1) n)" for chans n args
    by (rule ext) (simp add: perPixelCalls_def sc)
  have ps: "perScreenCalls chans n F None args =
              (\<lambda>i. accumulateCalls KERNEL_RADIANCE_PER_SCREEN_NORMALIZED args (GetSize (chans ! i))
                      (HOST_RADIANCE_PER_SCREEN_NORMALIZED i) (Spectrum F F F) n)" for chans n F args
    by (rule ext) (simp add: perScreenCalls_def sc)
  show ?thesis
    unfolding MergeSampleBuffersHW_newCalls(2) [OF assms(1)] dispatchScales_expectedMergeCalls
    by (simp add: expectedMergeCalls_def perPixelSection_def perScreenSection_def ip en pp ps sc
          map_const_upt)
qed

text \<open>
  Output 1 of \<open>exReady\<close> has no image pipeline: both groups are merged, with scale
  (1, 1, 1) per pixel and (1/2, 1/2, 1/2) per screen.
\<close>

theorem C3_neutral_target_witness:
  "MergeSampleBuffersHW (exPixels 48 7) 1 exReady = Inr exMerged1
   \<and> length (imagePipelines exReady) \<le> 1
   \<and> newCalls exReady exMerged1 = exMergeCalls1
   \<and> dispatchScales KERNEL_RADIANCE_PER_PIXEL_NORMALIZED (newCalls exReady exMerged1) =
       [(Some (ArgFloat 1), Some (ArgFloat 1), Some (ArgFloat 1)),
        (Some (ArgFloat 1), Some (ArgFloat 1), Some (ArgFloat 1))]
   \<and> dispatchScales KERNEL_RADIANCE_PER_SCREEN_NORMALIZED (newCalls exReady exMerged1) =
       [(Some (ArgFloat (1 / 2)), Some (ArgFloat (1 / 2)), Some (ArgFloat (1 / 2))),
        (Some (ArgFloat (1 / 2)), Some (ArgFloat (1 / 2)), Some (ArgFloat (1 / 2)))]"
proof -
  have l: "length (imagePipelines exReady) \<le> 1" by (simp add: ex_defs)
  have n: "newCalls exReady exMerged1 = exMergeCalls1"
    by (simp add: newCalls_def exMerged1_def ex_defs)
  have h: "HasChannel exReady RADIANCE_PER_PIXEL_NORMALIZED"
    "HasChannel exReady RADIANCE_PER_SCREEN_NORMALIZED"
    "radianceGroupCount exReady = 2" "pixelCount exReady = 16" "samplesCounts exReady = 32"
    by (simp_all add: ex_defs HasChannel_def)
  note c = C3_neutral_target [OF exMerged1_ok l]
  from c [THEN conjunct2, THEN conjunct1]
  have d1: "dispatchScales KERNEL_RADIANCE_PER_PIXEL_NORMALIZED (newCalls exReady exMerged1) =
       replicate 2 (scaleArgs (Spectrum 1 1 1))"
    by (simp add: h)
  from c [THEN conjunct2, THEN conjunct2]
  have d2: "dispatchScales KERNEL_RADIANCE_PER_SCREEN_NORMALIZED (newCalls exReady exMerged1) =
       replicate 2 (scaleArgs (Spectrum (1 / 2) (1 / 2) (1 / 2)))"
    by (simp add: h normalizationFactor_def)
  from exMerged1_ok l n d1 d2 show ?thesis
    by (simp add: scaleArgs_def numeral_2_eq_2)
qed

text \<open>
  The same merge shows that the per-screen-normalized dispatches of a neutral target do
  not run with the unit scale: slot 4 is bound to 1/2.
\<close>

theorem C3_unit_scale_counterexample:
  "length (imagePipelines exReady) \<le> 1
   \<and> MergeSampleBuffersHW (exPixels 48 7) 1 exReady = Inr exMerged1
   \<and> EvSetKernelArg KERNEL_RADIANCE_PER_SCREEN_NORMALIZED 4 (ArgFloat (1 / 2))
       \<in> set (newCalls exReady exMerged1)
   \<and> dispatchScales KERNEL_RADIANCE_PER_SCREEN_NORMALIZED (newCalls exReady exMerged1) =
       [(Some (ArgFloat (1 / 2)), Some (ArgFloat (1 / 2)), Some (ArgFloat (1 / 2))),
        (Some (ArgFloat (1 / 2)), Some (ArgFloat (1 / 2)), Some (ArgFloat (1 / 2)))]
   \<and> dispatchScales KERNEL_RADIANCE_PER_SCREEN_NORMALIZED (newCalls exReady exMerged1) \<noteq>
       [(Some (ArgFloat 1), Some (ArgFloat 1), Some (ArgFloat 1)),
        (Some (ArgFloat 1), Some (ArgFloat 1), Some (ArgFloat 1))]"
proof -
  have l: "length (imagePipelines exReady) \<le> 1" by (simp add: ex_defs)
  have n: "newCalls exReady exMerged1 = exMergeCalls1"
    by (simp add: newCalls_def exMerged1_def ex_defs)
  show ?thesis
    using exMerged1_ok l by (simp add: n exMergeCalls1_def)
qed

text \<open>
  C4. A merge that returns has enqueued, in this order: the upload of the target
  image-pipeline channel; the initialize kernel; for each enabled group in index order, if
  the per-pixel-normalized channel exists, the upload of the group's channel, the bindings of
  slots 4, 5, 6 and the accumulate dispatch; the same for the per-screen-normalized channel;
  the finalize kernel; the download of the image-pipeline buffer; and the queue drain, which
  occurs exactly once. Every kernel dispatch has global size \<open>RoundUp pixelCount 256\<close> and
  workgroup size 256.
\<close>

theorem C4_merge_call_order:
  assumes "MergeSampleBuffersHW d idx f = Inr f'"
  shows "deviceLog f' = deviceLog f @
           [EvEnqueueWriteBuffer BUFFER_IMAGEPIPELINE False
              (GetSize (channel_IMAGEPIPELINEs f ! idx)) (HOST_IMAGEPIPELINE idx),
            EvEnqueueKernel KERNEL_Initialize (the (mergeInitializeKernel f)) (RoundUp (pixelCount f) 256) 256]
           @ (if HasChannel f RADIANCE_PER_PIXEL_NORMALIZED then
                concat (map (\<lambda>i. [EvEnqueueWriteBuffer BUFFER_Merge False
                                      (GetSize (channel_RADIANCE_PER_PIXEL_NORMALIZEDs f ! i))
                                      (HOST_RADIANCE_PER_PIXEL_NORMALIZED i),
                                    EvSetKernelArg KERNEL_RADIANCE_PER_PIXEL_NORMALIZED 4
                                      (ArgFloat (Spectrum_c (groupScaleOf (imagePipelineAt f idx) i) 0)),
                                    EvSetKernelArg KERNEL_RADIANCE_PER_PIXEL_NORMALIZED 5
                                      (ArgFloat (Spectrum_c (groupScaleOf (imagePipelineAt f idx) i) 1)),
                                    EvSetKernelArg KERNEL_RADIANCE_PER_PIXEL_NORMALIZED 6
                                      (ArgFloat (Spectrum_c (groupScaleOf (imagePipelineAt f idx) i) 2)),
                                    EvEnqueueKernel KERNEL_RADIANCE_PER_PIXEL_NORMALIZED
                                      (bindScale (the (mergeRADIANCE_PER_PIXEL_NORMALIZEDKernel f))
                                         (groupScaleOf (imagePipelineAt f idx) i))
                                      (RoundUp (pixelCount f) 256) 256])
                            (filter (groupIsEnabled (imagePipelineAt f idx)) [0..<radianceGroupCount f]))
              else [])
           @ (if HasChannel f RADIANCE_PER_SCREEN_NORMALIZED then
                concat (map (\<lambda>i. [EvEnqueueWriteBuffer BUFFER_Merge False
                                      (GetSize (channel_RADIANCE_PER_SCREEN_NORMALIZEDs f ! i))
                                      (HOST_RADIANCE_PER_SCREEN_NORMALIZED i),
                                    EvSetKernelArg KERNEL_RADIANCE_PER_SCREEN_NORMALIZED 4
                                      (ArgFloat (Spectrum_c (scaleSpectrum (normalizationFactor (pixelCount f) (samplesCounts f))
                                         (groupScaleOf (imagePipelineAt f idx) i)) 0)),
                                    EvSetKernelArg KERNEL_RADIANCE_PER_SCREEN_NORMALIZED 5
                                      (ArgFloat (Spectrum_c (scaleSpectrum (normalizationFactor (pixelCount f) (samplesCounts f))
                                         (groupScaleOf (imagePipelineAt f idx) i)) 1)),
                                    EvSetKernelArg KERNEL_RADIANCE_PER_SCREEN_NORMALIZED 6
                                      (ArgFloat (Spectrum_c (scaleSpectrum (normalizationFactor (pixelCount f) (samplesCounts f))
                                         (groupScaleOf (imagePipelineAt f idx) i)) 2)),
                                    EvEnqueueKernel KERNEL_RADIANCE_PER_SCREEN_NORMALIZED
                                      (bindScale (the (mergeRADIANCE_PER_SCREEN_NORMALIZEDKernel f))
                                         (scaleSpectrum (normalizationFactor (pixelCount f) (samplesCounts f))
                                            (groupScaleOf (imagePipelineAt f idx) i)))
                                      (RoundUp (pixelCount f) 256) 256])
                            (filter (groupIsEnabled (imagePipelineAt f idx)) [0..<radianceGroupCount f]))
              else [])
           @ [EvEnqueueKernel KERNEL_Finalize (the (mergeFinalizeKernel f)) (RoundUp (pixelCount f) 256) 256,
              EvEnqueueReadBuffer BUFFER_IMAGEPIPELINE False
                (GetSize (channel_IMAGEPIPELINEs f ! idx)) (HOST_IMAGEPIPELINE idx),
              EvFinishQueue]
         \<and> count_list (newCalls f f') EvFinishQueue = 1
         \<and> (\<forall>k args g l. EvEnqueueKernel k args g l \<in> set (newCalls f f') \<longrightarrow>
               g = RoundUp (pixelCount f) 256 \<and> l = 256)"
proof (intro conjI)
  have pp: "perPixelCalls chans n ip args = (\<lambda>i. [EvEnqueueWriteBuffer BUFFER_Merge False
                                      (GetSize (chans ! i))
                                      (HOST_RADIANCE_PER_PIXEL_NORMALIZED i),
                                    EvSetKernelArg KERNEL_RADIANCE_PER_PIXEL_NORMALIZED 4
                                      (ArgFloat (Spectrum_c (groupScaleOf ip i) 0)),
                                    EvSetKernelArg KERNEL_RADIANCE_PER_PIXEL_NORMALIZED 5
                                      (ArgFloat (Spectrum_c (groupScaleOf ip i) 1)),
                                    EvSetKernelArg KERNEL_RADIANCE_PER_PIXEL_NORMALIZED 6
                                      (ArgFloat (Spectrum_c (groupScaleOf ip i) 2)),
                                    EvEnqueueKernel KERNEL_RADIANCE_PER_PIXEL_NORMALIZED
                                      (bindScale args (groupScaleOf ip i))
                                      (RoundUp n 256) 256])" for chans n ip args
    by (rule ext) (simp add: perPixelCalls_def accumulateCalls_def)
  have ps: "perScreenCalls chans n factor ip args = (\<lambda>i. [EvEnqueueWriteBuffer BUFFER_Merge False
                                      (GetSize (chans ! i))
                                      (HOST_RADIANCE_PER_SCREEN_NORMALIZED i),
                                    EvSetKernelArg KERNEL_RADIANCE_PER_SCREEN_NORMALIZED 4
                                      (ArgFloat (Spectrum_c (scaleSpectrum factor (groupScaleOf ip i)) 0)),
                                    EvSetKernelArg KERNEL_RADIANCE_PER_SCREEN_NORMALIZED 5
                                      (ArgFloat (Spectrum_c (scaleSpectrum factor (groupScaleOf ip i)) 1)),
                                    EvSetKernelArg KERNEL_RADIANCE_PER_SCREEN_NORMALIZED 6
                                      (ArgFloat (Spectrum_c (scaleSpectrum factor (groupScaleOf ip i)) 2)),
                                    EvEnqueueKernel KERNEL_RADIANCE_PER_SCREEN_NORMALIZED
                                      (bindScale args (scaleSpectrum factor (groupScaleOf ip i)))
                                      (RoundUp n 256) 256])" for chans n factor ip args
    by (rule ext) (simp add: perScreenCalls_def accumulateCalls_def)
  show "deviceLog f' = deviceLog f @
           [EvEnqueueWriteBuffer BUFFER_IMAGEPIPELINE False
              (GetSize (channel_IMAGEPIPELINEs f ! idx)) (HOST_IMAGEPIPELINE idx),
            EvEnqueueKernel KERNEL_Initialize (the (mergeInitializeKernel f)) (RoundUp (pixelCount f) 256) 256]
           @ (if HasChannel f RADIANCE_PER_PIXEL_NORMALIZED then
                concat (map (\<lambda>i. [EvEnqueueWriteBuffer BUFFER_Merge False
                                      (GetSize (channel_RADIANCE_PER_PIXEL_NORMALIZEDs f ! i))
                                      (HOST_RADIANCE_PER_PIXEL_NORMALIZED i),
                                    EvSetKernelArg KERNEL_RADIANCE_PER_PIXEL_NORMALIZED 4
                                      (ArgFloat (Spectrum_c (groupScaleOf (imagePipelineAt f idx) i) 0)),
                                    EvSetKernelArg KERNEL_RADIANCE_PER_PIXEL_NORMALIZED 5
                                      (ArgFloat (Spectrum_c (groupScaleOf (imagePipelineAt f idx) i) 1)),
                                    EvSetKernelArg KERNEL_RADIANCE_PER_PIXEL_NORMALIZED 6
                                      (ArgFloat (Spectrum_c (groupScaleOf (imagePipelineAt f idx) i) 2)),
                                    EvEnqueueKernel KERNEL_RADIANCE_PER_PIXEL_NORMALIZED
                                      (bindScale (the (mergeRADIANCE_PER_PIXEL_NORMALIZEDKernel f))
                                         (groupScaleOf (imagePipelineAt f idx) i))
                                      (RoundUp (pixelCount f) 256) 256])
                            (filter (groupIsEnabled (imagePipelineAt f idx)) [0..<radianceGroupCount f]))
              else [])
           @ (if HasChannel f RADIANCE_PER_SCREEN_NORMALIZED then
                concat (map (\<lambda>i. [EvEnqueueWriteBuffer BUFFER_Merge False
                                      (GetSize (channel_RADIANCE_PER_SCREEN_NORMALIZEDs f ! i))
                                      (HOST_RADIANCE_PER_SCREEN_NORMALIZED i),
                                    EvSetKernelArg KERNEL_RADIANCE_PER_SCREEN_NORMALIZED 4
                                      (ArgFloat (Spectrum_c (scaleSpectrum (normalizationFactor (pixelCount f) (samplesCounts f))
                                         (groupScaleOf (imagePipelineAt f idx) i)) 0)),
                                    EvSetKernelArg KERNEL_RADIANCE_PER_SCREEN_NORMALIZED 5
                                      (ArgFloat (Spectrum_c (scaleSpectrum (normalizationFactor (pixelCount f) (samplesCounts f))
                                         (groupScaleOf (imagePipelineAt f idx) i)) 1)),
                                    EvSetKernelArg KERNEL_RADIANCE_PER_SCREEN_NORMALIZED 6
                                      (ArgFloat (Spectrum_c (scaleSpectrum (normalizationFactor (pixelCount f) (samplesCounts f))
                                         (groupScaleOf (imagePipelineAt f idx) i)) 2)),
                                    EvEnqueueKernel KERNEL_RADIANCE_PER_SCREEN_NORMALIZED
                                      (bindScale (the (mergeRADIANCE_PER_SCREEN_NORMALIZEDKernel f))
                                         (scaleSpectrum (normalizationFactor (pixelCount f) (samplesCounts f))
                                            (groupScaleOf (imagePipelineAt f idx) i)))
                                      (RoundUp (pixelCount f) 256) 256])
                            (filter (groupIsEnabled (imagePipelineAt f idx)) [0..<radianceGroupCount f]))
              else [])
           @ [EvEnqueueKernel KERNEL_Finalize (the (mergeFinalizeKernel f)) (RoundUp (pixelCount f) 256) 256,
              EvEnqueueReadBuffer BUFFER_IMAGEPIPELINE False
                (GetSize (channel_IMAGEPIPELINEs f ! idx)) (HOST_IMAGEPIPELINE idx),
              EvFinishQueue]"
    unfolding MergeSampleBuffersHW_newCalls(1) [OF assms] expectedMergeCalls_def
      perPixelSection_def perScreenSection_def pp ps
    by simp
  have nf: "EvFinishQueue \<notin> set (perPixelSection f ip)" "EvFinishQueue \<notin> set (perScreenSection f ip)" for ip
    by (auto simp: perPixelSection_def perScreenSection_def perPixelCalls_def perScreenCalls_def
          accumulateCalls_def)
  show "count_list (newCalls f f') EvFinishQueue = 1"
    unfolding MergeSampleBuffersHW_newCalls(2) [OF assms] expectedMergeCalls_def
    using nf by (simp add: count_list_0_iff)
  show "\<forall>k args g l. EvEnqueueKernel k args g l \<in> set (newCalls f f') \<longrightarrow>
               g = RoundUp (pixelCount f) 256 \<and> l = 256"
    unfolding MergeSampleBuffersHW_newCalls(2) [OF assms] expectedMergeCalls_def
    by (auto simp: perPixelSection_def perScreenSection_def perPixelCalls_def perScreenCalls_def
          accumulateCalls_def split: if_splits)
qed

text \<open>
The merge of output 0 of \<open>exReady\<close>, call by call.
\<close>

theorem C4_merge_call_order_witness:
  "MergeSampleBuffersHW (exPixels 48 7) 0 exReady = Inr exMerged0
   \<and> deviceLog exMerged0 = deviceLog exReady @
       [EvEnqueueWriteBuffer BUFFER_IMAGEPIPELINE False 192 (HOST_IMAGEPIPELINE 0),
        EvEnqueueKernel KERNEL_Initialize exInitArgs 256 256,
        EvEnqueueWriteBuffer BUFFER_Merge False 256 (HOST_RADIANCE_PER_PIXEL_NORMALIZED 1),
        EvSetKernelArg KERNEL_RADIANCE_PER_PIXEL_NORMALIZED 4 (ArgFloat 2),
        EvSetKernelArg KERNEL_RADIANCE_PER_PIXEL_NORMALIZED 5 (ArgFloat 3),
        EvSetKernelArg KERNEL_RADIANCE_PER_PIXEL_NORMALIZED 6 (ArgFloat 4),
        EvEnqueueKernel KERNEL_RADIANCE_PER_PIXEL_NORMALIZED
          (exAccumArgs(4 \<mapsto> ArgFloat 2, 5 \<mapsto> ArgFloat 3, 6 \<mapsto> ArgFloat 4)) 256 256,
        EvEnqueueWriteBuffer BUFFER_Merge False 192 (HOST_RADIANCE_PER_SCREEN_NORMALIZED 1),
        EvSetKernelArg KERNEL_RADIANCE_PER_SCREEN_NORMALIZED 4 (ArgFloat 1),
        EvSetKernelArg KERNEL_RADIANCE_PER_SCREEN_NORMALIZED 5 (ArgFloat (3 / 2)),
        EvSetKernelArg KERNEL_RADIANCE_PER_SCREEN_NORMALIZED 6 (ArgFloat 2),
        EvEnqueueKernel KERNEL_RADIANCE_PER_SCREEN_NORMALIZED
          (exAccumArgs(4 \<mapsto> ArgFloat 1, 5 \<mapsto> ArgFloat (3 / 2), 6 \<mapsto> ArgFloat 2)) 256 256,
        EvEnqueueKernel KERNEL_Finalize exInitArgs 256 256,
        EvEnqueueReadBuffer BUFFER_IMAGEPIPELINE False 192 (HOST_IMAGEPIPELINE 0),
        EvFinishQueue]
   \<and> RoundUp (pixelCount exReady) 256 = 256
   \<and> count_list (newCalls exReady exMerged0) EvFinishQueue = 1"
  using C4_merge_call_order [OF exMerged0_ok] exMerged0_ok
  by (simp add: exMerged0_def exMergeCalls0_def ex_defs RoundUp_def)

text \<open>
  C5. In a merge that returns, the calls between the initialize and the finalize dispatch
  are accumulate blocks: in each, slots 4, 5 and 6 of the accumulate kernel are bound after
  the upload of the group's channel and before the dispatch, and the dispatch runs with the
  values just bound. The scales the accumulate dispatches run with are, in order, those of
  the enabled groups (times the normalization factor for the per-screen-normalized kernel),
  so no dispatch runs with the bindings of an earlier group.
\<close>

theorem C5_scale_rebinding:
  assumes "MergeSampleBuffersHW d idx f = Inr f'"
  shows "newCalls f f' =
           [EvEnqueueWriteBuffer BUFFER_IMAGEPIPELINE False
              (GetSize (channel_IMAGEPIPELINEs f ! idx)) (HOST_IMAGEPIPELINE idx),
            EvEnqueueKernel KERNEL_Initialize (the (mergeInitializeKernel f)) (RoundUp (pixelCount f) 256) 256]
           @ perPixelSection f (imagePipelineAt f idx)
           @ perScreenSection f (imagePipelineAt f idx)
           @ [EvEnqueueKernel KERNEL_Finalize (the (mergeFinalizeKernel f)) (RoundUp (pixelCount f) 256) 256,
              EvEnqueueReadBuffer BUFFER_IMAGEPIPELINE False
                (GetSize (channel_IMAGEPIPELINEs f ! idx)) (HOST_IMAGEPIPELINE idx),
              EvFinishQueue]
       \<and> accumulateBlocks KERNEL_RADIANCE_PER_PIXEL_NORMALIZED (perPixelSection f (imagePipelineAt f idx))
       \<and> accumulateBlocks KERNEL_RADIANCE_PER_SCREEN_NORMALIZED (perScreenSection f (imagePipelineAt f idx))
       \<and> dispatchScales KERNEL_RADIANCE_PER_PIXEL_NORMALIZED (newCalls f f') =
           (if HasChannel f RADIANCE_PER_PIXEL_NORMALIZED
            then map (\<lambda>i. scaleArgs (groupScaleOf (imagePipelineAt f idx) i))
                     (filter (groupIsEnabled (imagePipelineAt f idx)) [0..<radianceGroupCount f])
            else [])
       \<and> dispatchScales KERNEL_RADIANCE_PER_SCREEN_NORMALIZED (newCalls f f') =
           (if HasChannel f RADIANCE_PER_SCREEN_NORMALIZED
            then map (\<lambda>i. scaleArgs (scaleSpectrum (normalizationFactor (pixelCount f) (samplesCounts f))
                                         (groupScaleOf (imagePipelineAt f idx) i)))
                     (filter (groupIsEnabled (imagePipelineAt f idx)) [0..<radianceGroupCount f])
            else [])"
  unfolding MergeSampleBuffersHW_newCalls(2) [OF assms] dispatchScales_expectedMergeCalls
  by (simp add: expectedMergeCalls_def perPixelSection_def perScreenSection_def
        accumulateBlocks_perPixel accumulateBlocks_perScreen)

text \<open>
The accumulate block and the dispatch scales of the merge of output 0 of \<open>exReady\<close>.
\<close>

theorem C5_scale_rebinding_witness:
  "MergeSampleBuffersHW (exPixels 48 7) 0 exReady = Inr exMerged0
   \<and> perPixelSection exReady (imagePipelineAt exReady 0) =
       [EvEnqueueWriteBuffer BUFFER_Merge False 256 (HOST_RADIANCE_PER_PIXEL_NORMALIZED 1),
        EvSetKernelArg KERNEL_RADIANCE_PER_PIXEL_NORMALIZED 4 (ArgFloat 2),
        EvSetKernelArg KERNEL_RADIANCE_PER_PIXEL_NORMALIZED 5 (ArgFloat 3),
        EvSetKernelArg KERNEL_RADIANCE_PER_PIXEL_NORMALIZED 6 (ArgFloat 4),
        EvEnqueueKernel KERNEL_RADIANCE_PER_PIXEL_NORMALIZED
          (exAccumArgs(4 \<mapsto> ArgFloat 2, 5 \<mapsto> ArgFloat 3, 6 \<mapsto> ArgFloat 4)) 256 256]
   \<and> dispatchScales KERNEL_RADIANCE_PER_PIXEL_NORMALIZED (newCalls exReady exMerged0)
       = [(Some (ArgFloat 2), Some (ArgFloat 3), Some (ArgFloat 4))]
   \<and> dispatchScales KERNEL_RADIANCE_PER_SCREEN_NORMALIZED (newCalls exReady exMerged0)
       = [(Some (ArgFloat 1), Some (ArgFloat (3 / 2)), Some (ArgFloat 2))]"
  using C5_scale_rebinding [OF exMerged0_ok] exMerged0_ok
  by (simp add: perPixelSection_def perPixelCalls_def perScreenSection_def perScreenCalls_def
        accumulateCalls_def bindScale_def
        imagePipelineAt_def groupIsEnabled_def groupScaleOf_def scaleArgs_def normalizationFactor_def
        RoundUp_def HasChannel_def ex_defs upt_2)

text \<open>
  C6. An allocation returns on every film that is ready for it (a context, a device,
  image-pipeline channel 0, and the channel objects of the channels the film has), and
  only on such films. An allocation that returns has allocated the image-pipeline buffer,
  then the alpha buffer if and only if the film has the alpha channel, then the object-id
  buffer if and only if the film has that channel, then the merge buffer if and only if
  the larger of the byte sizes of per-pixel-normalized and per-screen-normalized channel 0
  (0 for a channel the film does not have) is positive; the merge buffer has that size, is
  read-only and is allocated without host data.
\<close>

theorem C6_AllocateHWBuffers:
  "(allocReady f \<longrightarrow> (\<exists>f''. AllocateHWBuffers f = Inr f''))
   \<and> (AllocateHWBuffers f = Inr f' \<longrightarrow>
       allocReady f
       \<and> newCalls f f' =
           [EvAllocBufferRW BUFFER_IMAGEPIPELINE (Some (HOST_IMAGEPIPELINE 0))
              (GetSize (channel_IMAGEPIPELINEs f ! 0)) ''IMAGEPIPELINE'']
           @ (if HasChannel f ALPHA
              then [EvAllocBufferRO BUFFER_ALPHA (Some HOST_ALPHA) (GetSize (the (channel_ALPHA f))) ''ALPHA'']
              else [])
           @ (if HasChannel f OBJECT_ID
              then [EvAllocBufferRO BUFFER_OBJECT_ID (Some HOST_OBJECT_ID)
                      (GetSize (the (channel_OBJECT_ID f))) ''OBJECT_ID'']
              else [])
           @ (if max (if HasChannel f RADIANCE_PER_PIXEL_NORMALIZED
                      then GetSize (channel_RADIANCE_PER_PIXEL_NORMALIZEDs f ! 0) else 0)
                     (if HasChannel f RADIANCE_PER_SCREEN_NORMALIZED
                      then GetSize (channel_RADIANCE_PER_SCREEN_NORMALIZEDs f ! 0) else 0) > 0
              then [EvAllocBufferRO BUFFER_Merge None
                      (max (if HasChannel f RADIANCE_PER_PIXEL_NORMALIZED
                            then GetSize (channel_RADIANCE_PER_PIXEL_NORMALIZEDs f ! 0) else 0)
                           (if HasChannel f RADIANCE_PER_SCREEN_NORMALIZED
                            then GetSize (channel_RADIANCE_PER_SCREEN_NORMALIZEDs f ! 0) else 0))
                      ''Merge'']
              else [])
       \<and> ((\<exists>src sz desc. EvAllocBufferRO BUFFER_ALPHA src sz desc \<in> set (newCalls f f'))
            \<longleftrightarrow> HasChannel f ALPHA)
       \<and> ((\<exists>src sz desc. EvAllocBufferRO BUFFER_OBJECT_ID src sz desc \<in> set (newCalls f f'))
            \<longleftrightarrow> HasChannel f OBJECT_ID)
       \<and> ((\<exists>src sz desc. EvAllocBufferRO BUFFER_Merge src sz desc \<in> set (newCalls f f'))
            \<longleftrightarrow> mergeBufferSize f > 0)
       \<and> hw_ALPHA f' =
            (if HasChannel f ALPHA
             then Some \<lparr>bufDesc = ''ALPHA'', bufSize = GetSize (the (channel_ALPHA f)),
                        bufReadOnly = True, bufSource = Some HOST_ALPHA\<rparr>
             else hw_ALPHA f)
       \<and> hw_OBJECT_ID f' =
            (if HasChannel f OBJECT_ID
             then Some \<lparr>bufDesc = ''OBJECT_ID'', bufSize = GetSize (the (channel_OBJECT_ID f)),
                        bufReadOnly = True, bufSource = Some HOST_OBJECT_ID\<rparr>
             else hw_OBJECT_ID f)
       \<and> hw_mergeBuffer f' =
            (if mergeBufferSize f > 0
             then Some \<lparr>bufDesc = ''Merge'', bufSize = mergeBufferSize f,
                        bufReadOnly = True, bufSource = None\<rparr>
             else hw_mergeBuffer f))"
proof (intro conjI impI)
  assume "allocReady f"
  then show "\<exists>f''. AllocateHWBuffers f = Inr f''" by (rule AllocateHWBuffers_total)
next
  assume ret: "AllocateHWBuffers f = Inr f'"
  then show "allocReady f" by (rule AllocateHWBuffers_ready)
  note nc = AllocateHWBuffers_newCalls [OF ret]
  from AllocateHWBuffers_result [OF ret] obtain cx where
    f': "f' = f\<lparr>ctx := Some (cx\<lparr>verbose := False\<rparr>),
            hw_IMAGEPIPELINE :=
              Some \<lparr>bufDesc = ''IMAGEPIPELINE'', bufSize = GetSize (channel_IMAGEPIPELINEs f ! 0),
                    bufReadOnly = False, bufSource = Some (HOST_IMAGEPIPELINE 0)\<rparr>,
            hw_ALPHA :=
              (if HasChannel f ALPHA
               then Some \<lparr>bufDesc = ''ALPHA'', bufSize = GetSize (the (channel_ALPHA f)),
                          bufReadOnly = True, bufSource = Some HOST_ALPHA\<rparr>
               else hw_ALPHA f),
            hw_OBJECT_ID :=
              (if HasChannel f OBJECT_ID
               then Some \<lparr>bufDesc = ''OBJECT_ID'', bufSize = GetSize (the (channel_OBJECT_ID f)),
                          bufReadOnly = True, bufSource = Some HOST_OBJECT_ID\<rparr>
               else hw_OBJECT_ID f),
            hw_mergeBuffer :=
              (if mergeBufferSize f > 0
               then Some \<lparr>bufDesc = ''Merge'', bufSize = mergeBufferSize f,
                          bufReadOnly = True, bufSource = None\<rparr>
               else hw_mergeBuffer f),
            deviceLog := deviceLog f @
              [EvAllocBufferRW BUFFER_IMAGEPIPELINE (Some (HOST_IMAGEPIPELINE 0))
                 (GetSize (channel_IMAGEPIPELINEs f ! 0)) ''IMAGEPIPELINE'']
              @ (if HasChannel f ALPHA
                 then [EvAllocBufferRO BUFFER_ALPHA (Some HOST_ALPHA) (GetSize (the (channel_ALPHA f))) ''ALPHA'']
                 else [])
              @ (if HasChannel f OBJECT_ID
                 then [EvAllocBufferRO BUFFER_OBJECT_ID (Some HOST_OBJECT_ID)
                         (GetSize (the (channel_OBJECT_ID f))) ''OBJECT_ID'']
                 else [])
              @ (if mergeBufferSize f > 0
                 then [EvAllocBufferRO BUFFER_Merge None (mergeBufferSize f) ''Merge'']
                 else [])\<rparr>"
    by blast
  show "hw_ALPHA f' =
          (if HasChannel f ALPHA
           then Some \<lparr>bufDesc = ''ALPHA'', bufSize = GetSize (the (channel_ALPHA f)),
                      bufReadOnly = True, bufSource = Some HOST_ALPHA\<rparr>
           else hw_ALPHA f)"
    by (subst f') simp
  show "hw_OBJECT_ID f' =
          (if HasChannel f OBJECT_ID
           then Some \<lparr>bufDesc = ''OBJECT_ID'', bufSize = GetSize (the (channel_OBJECT_ID f)),
                      bufReadOnly = True, bufSource = Some HOST_OBJECT_ID\<rparr>
           else hw_OBJECT_ID f)"
    by (subst f') simp
  show "hw_mergeBuffer f' =
          (if mergeBufferSize f > 0
           then Some \<lparr>bufDesc = ''Merge'', bufSize = mergeBufferSize f,
                      bufReadOnly = True, bufSource = None\<rparr>
           else hw_mergeBuffer f)"
    by (subst f') simp
  show "newCalls f f' =
           [EvAllocBufferRW BUFFER_IMAGEPIPELINE (Some (HOST_IMAGEPIPELINE 0))
              (GetSize (channel_IMAGEPIPELINEs f ! 0)) ''IMAGEPIPELINE'']
           @ (if HasChannel f ALPHA
              then [EvAllocBufferRO BUFFER_ALPHA (Some HOST_ALPHA) (GetSize (the (channel_ALPHA f))) ''ALPHA'']
              else [])
           @ (if HasChannel f OBJECT_ID
              then [EvAllocBufferRO BUFFER_OBJECT_ID (Some HOST_OBJECT_ID)
                      (GetSize (the (channel_OBJECT_ID f))) ''OBJECT_ID'']
              else [])
           @ (if max (if HasChannel f RADIANCE_PER_PIXEL_NORMALIZED
                      then GetSize (channel_RADIANCE_PER_PIXEL_NORMALIZEDs f ! 0) else 0)
                     (if HasChannel f RADIANCE_PER_SCREEN_NORMALIZED
                      then GetSize (channel_RADIANCE_PER_SCREEN_NORMALIZEDs f ! 0) else 0) > 0
              then [EvAllocBufferRO BUFFER_Merge None
                      (max (if HasChannel f RADIANCE_PER_PIXEL_NORMALIZED
                            then GetSize (channel_RADIANCE_PER_PIXEL_NORMALIZEDs f ! 0) else 0)
                           (if HasChannel f RADIANCE_PER_SCREEN_NORMALIZED
                            then GetSize (channel_RADIANCE_PER_SCREEN_NORMALIZEDs f ! 0) else 0))
                      ''Merge'']
              else [])"
    by (simp add: nc mergeBufferSize_def [symmetric])
  show "(\<exists>src sz desc. EvAllocBufferRO BUFFER_ALPHA src sz desc \<in> set (newCalls f f'))
            \<longleftrightarrow> HasChannel f ALPHA"
    by (simp add: nc)
  show "(\<exists>src sz desc. EvAllocBufferRO BUFFER_OBJECT_ID src sz desc \<in> set (newCalls f f'))
            \<longleftrightarrow> HasChannel f OBJECT_ID"
    by (simp add: nc)
  show "(\<exists>src sz desc. EvAllocBufferRO BUFFER_Merge src sz desc \<in> set (newCalls f f'))
            \<longleftrightarrow> mergeBufferSize f > 0"
    by (simp add: nc)
qed

text \<open>
  Allocation on \<open>exObj exCtx\<close>, which has an alpha and an object-id channel and radiance
  channels of 256 and 192 bytes, and on \<open>exBare exCtx\<close>, which has none of them.
\<close>

theorem C6_AllocateHWBuffers_witness:
  "allocReady (exObj exCtx)
   \<and> AllocateHWBuffers (exObj exCtx) = Inr exObjAlloc
   \<and> HasChannel (exObj exCtx) ALPHA \<and> HasChannel (exObj exCtx) OBJECT_ID
   \<and> mergeBufferSize (exObj exCtx) = 256
   \<and> newCalls (exObj exCtx) exObjAlloc =
       [EvAllocBufferRW BUFFER_IMAGEPIPELINE (Some (HOST_IMAGEPIPELINE 0)) 192 ''IMAGEPIPELINE'',
        EvAllocBufferRO BUFFER_ALPHA (Some HOST_ALPHA) 128 ''ALPHA'',
        EvAllocBufferRO BUFFER_OBJECT_ID (Some HOST_OBJECT_ID) 64 ''OBJECT_ID'',
        EvAllocBufferRO BUFFER_Merge None 256 ''Merge'']
   \<and> hw_ALPHA exObjAlloc = Some \<lparr>bufDesc = ''ALPHA'', bufSize = 128, bufReadOnly = True, bufSource = Some HOST_ALPHA\<rparr>
   \<and> hw_OBJECT_ID exObjAlloc =
       Some \<lparr>bufDesc = ''OBJECT_ID'', bufSize = 64, bufReadOnly = True, bufSource = Some HOST_OBJECT_ID\<rparr>
   \<and> hw_mergeBuffer exObjAlloc = Some \<lparr>bufDesc = ''Merge'', bufSize = 256, bufReadOnly = True, bufSource = None\<rparr>
   \<and> allocReady (exBare exCtx)
   \<and> AllocateHWBuffers (exBare exCtx) = Inr exBareAlloc
   \<and> \<not> HasChannel (exBare exCtx) ALPHA \<and> \<not> HasChannel (exBare exCtx) OBJECT_ID
   \<and> mergeBufferSize (exBare exCtx) = 0
   \<and> newCalls (exBare exCtx) exBareAlloc =
       [EvAllocBufferRW BUFFER_IMAGEPIPELINE (Some (HOST_IMAGEPIPELINE 0)) 192 ''IMAGEPIPELINE'']
   \<and> hw_ALPHA exBareAlloc = None \<and> hw_OBJECT_ID exBareAlloc = None \<and> hw_mergeBuffer exBareAlloc = None"
proof -
  have o: "allocReady (exObj exCtx)" "HasChannel (exObj exCtx) ALPHA" "HasChannel (exObj exCtx) OBJECT_ID"
    "mergeBufferSize (exObj exCtx) = 256"
    "GetSize (channel_IMAGEPIPELINEs (exObj exCtx) ! 0) = 192"
    "GetSize (the (channel_ALPHA (exObj exCtx))) = 128"
    "GetSize (the (channel_OBJECT_ID (exObj exCtx))) = 64"
    "HasChannel (exObj exCtx) RADIANCE_PER_PIXEL_NORMALIZED"
    "HasChannel (exObj exCtx) RADIANCE_PER_SCREEN_NORMALIZED"
    "GetSize (channel_RADIANCE_PER_PIXEL_NORMALIZEDs (exObj exCtx) ! 0) = 256"
    "GetSize (channel_RADIANCE_PER_SCREEN_NORMALIZEDs (exObj exCtx) ! 0) = 192"
    by (simp_all add: allocReady_def mergeBufferSize_def HasChannel_def exObj_def exCtx_eq exFilm0_def)
  have b: "allocReady (exBare exCtx)" "\<not> HasChannel (exBare exCtx) ALPHA"
    "\<not> HasChannel (exBare exCtx) OBJECT_ID" "mergeBufferSize (exBare exCtx) = 0"
    "GetSize (channel_IMAGEPIPELINEs (exBare exCtx) ! 0) = 192"
    "hw_ALPHA (exBare exCtx) = None" "hw_OBJECT_ID (exBare exCtx) = None"
    "hw_mergeBuffer (exBare exCtx) = None"
    "\<not> HasChannel (exBare exCtx) RADIANCE_PER_PIXEL_NORMALIZED"
    "\<not> HasChannel (exBare exCtx) RADIANCE_PER_SCREEN_NORMALIZED"
    by (simp_all add: allocReady_def mergeBufferSize_def HasChannel_def exBare_def exCtx_eq exFilm0_def)
  from C6_AllocateHWBuffers [of "exObj exCtx" exObjAlloc] exObjAlloc_ok o
  have 1: "newCalls (exObj exCtx) exObjAlloc =
       [EvAllocBufferRW BUFFER_IMAGEPIPELINE (Some (HOST_IMAGEPIPELINE 0)) 192 ''IMAGEPIPELINE'',
        EvAllocBufferRO BUFFER_ALPHA (Some HOST_ALPHA) 128 ''ALPHA'',
        EvAllocBufferRO BUFFER_OBJECT_ID (Some HOST_OBJECT_ID) 64 ''OBJECT_ID'',
        EvAllocBufferRO BUFFER_Merge None 256 ''Merge'']
   \<and> hw_ALPHA exObjAlloc = Some \<lparr>bufDesc = ''ALPHA'', bufSize = 128, bufReadOnly = True, bufSource = Some HOST_ALPHA\<rparr>
   \<and> hw_OBJECT_ID exObjAlloc =
       Some \<lparr>bufDesc = ''OBJECT_ID'', bufSize = 64, bufReadOnly = True, bufSource = Some HOST_OBJECT_ID\<rparr>
   \<and> hw_mergeBuffer exObjAlloc = Some \<lparr>bufDesc = ''Merge'', bufSize = 256, bufReadOnly = True, bufSource = None\<rparr>"
    by simp
  from C6_AllocateHWBuffers [of "exBare exCtx" exBareAlloc] exBareAlloc_ok b
  have 2: "newCalls (exBare exCtx) exBareAlloc =
       [EvAllocBufferRW BUFFER_IMAGEPIPELINE (Some (HOST_IMAGEPIPELINE 0)) 192 ''IMAGEPIPELINE'']
   \<and> hw_ALPHA exBareAlloc = None \<and> hw_OBJECT_ID exBareAlloc = None \<and> hw_mergeBuffer exBareAlloc = None"
    by simp
  from 1 2 o b exObjAlloc_ok exBareAlloc_ok show ?thesis by simp
qed




text \<open>
  C8. On a film in its \<^verbatim>\<open>SetUpHW\<close> state \<^verbatim>\<open>DeleteHWContext\<close> changes nothing. Without a
  hardware device it frees no buffer, deletes no kernel and leaves every channel alone: it
  only destroys the context and the data set, where they exist. With a device it deletes the
  kernels that exist, in the order initialize, per-pixel, per-screen, finalize, then frees the
  four buffers and nulls their handles, then destroys the context and the data set; no channel
  is touched and no error is raised.
\<close>

theorem C8_DeleteHWContext:
  "DeleteHWContext (SetUpHW f) = Inr (SetUpHW f)
   \<and> (hardwareDevice f = None \<longrightarrow>
        DeleteHWContext f =
           Inr (f\<lparr>deviceLog := deviceLog f
                     @ (if ctx f \<noteq> None then [EvDeleteContext] else [])
                     @ (if dataSet f \<noteq> None then [EvDeleteDataSet] else [])\<rparr>))
   \<and> (hardwareDevice f \<noteq> None \<longrightarrow>
        DeleteHWContext f =
           Inr (f\<lparr>hw_IMAGEPIPELINE := None, hw_ALPHA := None, hw_OBJECT_ID := None, hw_mergeBuffer := None,
                  deviceLog := deviceLog f
                     @ (if mergeInitializeKernel f \<noteq> None then [EvDeleteKernel KERNEL_Initialize] else [])
                     @ (if mergeRADIANCE_PER_PIXEL_NORMALIZEDKernel f \<noteq> None
                        then [EvDeleteKernel KERNEL_RADIANCE_PER_PIXEL_NORMALIZED] else [])
                     @ (if mergeRADIANCE_PER_SCREEN_NORMALIZEDKernel f \<noteq> None
                        then [EvDeleteKernel KERNEL_RADIANCE_PER_SCREEN_NORMALIZED] else [])
                     @ (if mergeFinalizeKernel f \<noteq> None then [EvDeleteKernel KERNEL_Finalize] else [])
                     @ [EvFreeBuffer BUFFER_IMAGEPIPELINE, EvFreeBuffer BUFFER_ALPHA,
                        EvFreeBuffer BUFFER_OBJECT_ID, EvFreeBuffer BUFFER_Merge]
                     @ (if ctx f \<noteq> None then [EvDeleteContext] else [])
                     @ (if dataSet f \<noteq> None then [EvDeleteDataSet] else [])\<rparr>))"
proof (intro conjI impI)
  have "hardwareDevice (SetUpHW f) = None" by (simp add: SetUpHW_def)
  from DeleteHWContext_no_device [OF this] show "DeleteHWContext (SetUpHW f) = Inr (SetUpHW f)"
    by (simp add: SetUpHW_def)
qed (erule DeleteHWContext_no_device, erule DeleteHWContext_device)

text \<open>
  A film whose only device is a CPU has a context and no hardware device; \<open>exReady\<close> has a
  device, four kernels and three buffers.
\<close>

theorem C8_DeleteHWContext_witness:
  "hardwareDevice (CreateHWContext [cpuD] (SetUpHW exFilm0)) = None
   \<and> DeleteHWContext (CreateHWContext [cpuD] (SetUpHW exFilm0))
       = Inr ((CreateHWContext [cpuD] (SetUpHW exFilm0))\<lparr>deviceLog := [EvDeleteContext]\<rparr>)
   \<and> hardwareDevice exReady \<noteq> None
   \<and> DeleteHWContext exReady =
       Inr (exReady\<lparr>hw_IMAGEPIPELINE := None, hw_ALPHA := None, hw_OBJECT_ID := None, hw_mergeBuffer := None,
              deviceLog := deviceLog exReady @
                [EvDeleteKernel KERNEL_Initialize,
                 EvDeleteKernel KERNEL_RADIANCE_PER_PIXEL_NORMALIZED,
                 EvDeleteKernel KERNEL_RADIANCE_PER_SCREEN_NORMALIZED,
                 EvDeleteKernel KERNEL_Finalize,
                 EvFreeBuffer BUFFER_IMAGEPIPELINE, EvFreeBuffer BUFFER_ALPHA,
                 EvFreeBuffer BUFFER_OBJECT_ID, EvFreeBuffer BUFFER_Merge,
                 EvDeleteContext, EvDeleteDataSet]\<rparr>)"
  using C8_DeleteHWContext [of "CreateHWContext [cpuD] (SetUpHW exFilm0)"]
    C8_DeleteHWContext [of exReady]
  by (simp add: ex_defs CreateHWContext_def SetUpHW_def SelectDeviceDesc_def cpuD_def)

text \<open>
  C9. A merge that returns has left the alpha channel, the object-id channel and all
  radiance group channels as they were; of the image-pipeline channels it has changed only
  the pixels of the channel at the given index, which now hold what the download read.
\<close>

theorem C9_merge_host_frame:
  assumes "MergeSampleBuffersHW d idx f = Inr f'"
  shows "channel_ALPHA f' = channel_ALPHA f
       \<and> channel_OBJECT_ID f' = channel_OBJECT_ID f
       \<and> channel_RADIANCE_PER_PIXEL_NORMALIZEDs f' = channel_RADIANCE_PER_PIXEL_NORMALIZEDs f
       \<and> channel_RADIANCE_PER_SCREEN_NORMALIZEDs f' = channel_RADIANCE_PER_SCREEN_NORMALIZEDs f
       \<and> length (channel_IMAGEPIPELINEs f') = length (channel_IMAGEPIPELINEs f)
       \<and> (\<forall>j < length (channel_IMAGEPIPELINEs f). j \<noteq> idx \<longrightarrow>
             channel_IMAGEPIPELINEs f' ! j = channel_IMAGEPIPELINEs f ! j)
       \<and> idx < length (channel_IMAGEPIPELINEs f)
       \<and> channel_IMAGEPIPELINEs f' ! idx = (channel_IMAGEPIPELINEs f ! idx)\<lparr>GetPixels := d\<rparr>"
  using MergeSampleBuffersHW_host [OF assms] MergeSampleBuffersHW_result(2) [OF assms]
  by simp

text \<open>
The merge of output 0 of \<open>exReady\<close> rewrites image-pipeline channel 0 and nothing else.
\<close>

theorem C9_merge_host_frame_witness:
  "MergeSampleBuffersHW (exPixels 48 7) 0 exReady = Inr exMerged0
   \<and> channel_ALPHA exMerged0 = Some \<lparr>GetSize = 128, GetPixels = exPixels 32 1\<rparr>
   \<and> channel_OBJECT_ID exMerged0 = None
   \<and> channel_RADIANCE_PER_PIXEL_NORMALIZEDs exMerged0 = channel_RADIANCE_PER_PIXEL_NORMALIZEDs exReady
   \<and> channel_RADIANCE_PER_SCREEN_NORMALIZEDs exMerged0 = channel_RADIANCE_PER_SCREEN_NORMALIZEDs exReady
   \<and> channel_IMAGEPIPELINEs exReady ! 1 = \<lparr>GetSize = 192, GetPixels = exPixels 48 1\<rparr>
   \<and> channel_IMAGEPIPELINEs exMerged0 ! 1 = \<lparr>GetSize = 192, GetPixels = exPixels 48 1\<rparr>
   \<and> channel_IMAGEPIPELINEs exMerged0 ! 0 = \<lparr>GetSize = 192, GetPixels = exPixels 48 7\<rparr>"
  using C9_merge_host_frame [OF exMerged0_ok] exMerged0_ok
  by (simp add: ex_defs)

text \<open>
  C10. The comparison with the number of image pipelines guards only the lookup of the
  group flags and scales. A merge whose index is not a position of the image-pipeline channel
  array faults at the first upload; a merge that returns had a valid channel index, and its
  upload and its download both use the channel at that index. An index beyond the image
  pipelines that is a valid channel index is served on a ready film.
\<close>

theorem C10_index_precondition:
  "(length (channel_IMAGEPIPELINEs f) \<le> idx \<longrightarrow> MergeSampleBuffersHW d idx f = Inl OutOfRange)
   \<and> (MergeSampleBuffersHW d idx f = Inr f' \<longrightarrow>
        idx < length (channel_IMAGEPIPELINEs f)
        \<and> hd (newCalls f f') =
            EvEnqueueWriteBuffer BUFFER_IMAGEPIPELINE False
              (GetSize (channel_IMAGEPIPELINEs f ! idx)) (HOST_IMAGEPIPELINE idx)
        \<and> EvEnqueueReadBuffer BUFFER_IMAGEPIPELINE False
              (GetSize (channel_IMAGEPIPELINEs f ! idx)) (HOST_IMAGEPIPELINE idx) \<in> set (newCalls f f'))
   \<and> (length (imagePipelines f) \<le> idx \<and> mergeReady f idx \<longrightarrow>
        (\<exists>f''. MergeSampleBuffersHW d idx f = Inr f''))"
proof (intro conjI impI)
  assume "length (channel_IMAGEPIPELINEs f) \<le> idx"
  then show "MergeSampleBuffersHW d idx f = Inl OutOfRange"
    by (simp add: MergeSampleBuffersHW_def vecAt_def)
next
  assume m: "MergeSampleBuffersHW d idx f = Inr f'"
  show "idx < length (channel_IMAGEPIPELINEs f)" by (rule MergeSampleBuffersHW_result(2) [OF m])
  show "hd (newCalls f f') =
            EvEnqueueWriteBuffer BUFFER_IMAGEPIPELINE False
              (GetSize (channel_IMAGEPIPELINEs f ! idx)) (HOST_IMAGEPIPELINE idx)"
    by (simp add: MergeSampleBuffersHW_newCalls(2) [OF m] expectedMergeCalls_def)
  show "EvEnqueueReadBuffer BUFFER_IMAGEPIPELINE False
              (GetSize (channel_IMAGEPIPELINEs f ! idx)) (HOST_IMAGEPIPELINE idx) \<in> set (newCalls f f')"
    by (simp add: MergeSampleBuffersHW_newCalls(2) [OF m] expectedMergeCalls_def)
next
  assume "length (imagePipelines f) \<le> idx \<and> mergeReady f idx"
  then show "\<exists>f''. MergeSampleBuffersHW d idx f = Inr f''"
    by (simp add: MergeSampleBuffersHW_total)
qed

text \<open>
  \<open>exReady\<close> has two image-pipeline channels and one image pipeline: index 2 faults, index
  1 is merged.
\<close>

theorem C10_index_precondition_witness:
  "length (channel_IMAGEPIPELINEs exReady) \<le> 2
   \<and> MergeSampleBuffersHW (exPixels 48 7) 2 exReady = Inl OutOfRange
   \<and> length (imagePipelines exReady) \<le> 1 \<and> mergeReady exReady 1
   \<and> MergeSampleBuffersHW (exPixels 48 7) 1 exReady = Inr exMerged1
   \<and> 1 < length (channel_IMAGEPIPELINEs exReady)
   \<and> hd (newCalls exReady exMerged1) =
       EvEnqueueWriteBuffer BUFFER_IMAGEPIPELINE False 192 (HOST_IMAGEPIPELINE 1)
   \<and> EvEnqueueReadBuffer BUFFER_IMAGEPIPELINE False 192 (HOST_IMAGEPIPELINE 1)
       \<in> set (newCalls exReady exMerged1)"
  using C10_index_precondition [of exReady 2 "exPixels 48 7" exMerged1]
    C10_index_precondition [of exReady 1 "exPixels 48 7" exMerged1] exMerged1_ok
  by (simp add: ex_defs mergeReady_def HasChannel_def)

end
